theory Spec2Isabelle
  imports Complex_Main "HOL-Library.Multiset"
begin

section \<open>JavaScript values\<close>

text \<open>
  The client core of \<^verbatim>\<open>src/lib/apis/index.ts\<close> is embedded function by function.
  A JavaScript string is a \<^typ>\<open>string\<close> holding the bytes of its UTF-8 encoding, so the
  ASCII characters the code searches for (braces, quotes) are single bytes and the two
  typographic quotes U+2018 and U+2019 are the byte triples E2 80 98 and E2 80 99.
  A surrogate that is not part of a pair is held as the three bytes the same scheme
  gives its code (ED, then A0 to BF, then one more byte).
  A value read from JSON is a \<open>json\<close>; a finite number is kept as the rational it denotes.
  A property that is absent (\<^verbatim>\<open>undefined\<close>) is \<open>None\<close>, and an object the code builds
  with a property whose value is \<^verbatim>\<open>undefined\<close> is held without that property, as
  \<^verbatim>\<open>JSON.stringify\<close> writes it.
\<close>

datatype json =
    JNull
  | JBool bool
  | JNum rat
  | JStr string
  | JArr "json list"
  | JObj "(string \<times> json) list"

datatype js_error = JsError (err_name: string) (message: string)

definition type_error :: "string \<Rightarrow> js_error" where
  "type_error m = JsError ''TypeError'' m"

text \<open>What a \<^verbatim>\<open>throw\<close> carries: a plain value (here always JSON data) or an Error object.\<close>

datatype thrown = ThrownValue json | ThrownError js_error

fun truthy :: "json \<Rightarrow> bool" where
  "truthy JNull = False"
| "truthy (JBool b) = b"
| "truthy (JNum n) = (n \<noteq> 0)"
| "truthy (JStr s) = (s \<noteq> [])"
| "truthy (JArr xs) = True"
| "truthy (JObj kvs) = True"

text \<open>
  \<^verbatim>\<open>v.k\<close> for the property names the code reads (\<^verbatim>\<open>data\<close>, \<^verbatim>\<open>detail\<close>,
  \<^verbatim>\<open>choices\<close>, \<^verbatim>\<open>message\<close>, \<^verbatim>\<open>content\<close>, \<^verbatim>\<open>title\<close>, \<^verbatim>\<open>follow_ups\<close>,
  \<^verbatim>\<open>tags\<close>, \<^verbatim>\<open>queries\<close>, \<^verbatim>\<open>text\<close>, \<^verbatim>\<open>info\<close>, \<^verbatim>\<open>paths\<close>, \<^verbatim>\<open>operationId\<close>,
  \<^verbatim>\<open>parameters\<close>, \<^verbatim>\<open>name\<close>, \<^verbatim>\<open>in\<close>, \<^verbatim>\<open>requestBody\<close>, \<^verbatim>\<open>id\<close>): none of them is a property
  of a string, number, boolean or array, so only an object can have one. Reading a
  property of \<^verbatim>\<open>null\<close> is a TypeError and is decided by the caller before \<open>getProp\<close> is
  used.
\<close>

fun getProp :: "json \<Rightarrow> string \<Rightarrow> json option" where
  "getProp (JObj kvs) k = map_of kvs k"
| "getProp v k = None"

text \<open>
  \<^verbatim>\<open>v[0]\<close>. Of a string it is the first character; the code only goes on to read
  \<^verbatim>\<open>?.message\<close> of it, which no string has.
\<close>

fun index0 :: "json \<Rightarrow> json option" where
  "index0 (JArr xs) = (case xs of [] \<Rightarrow> None | x # _ \<Rightarrow> Some x)"
| "index0 (JObj kvs) = map_of kvs ''0''"
| "index0 (JStr s) = (case s of [] \<Rightarrow> None | c # _ \<Rightarrow> Some (JStr [c]))"
| "index0 v = None"

definition isArray :: "json \<Rightarrow> bool" where
  "isArray v = (case v of JArr xs \<Rightarrow> True | _ \<Rightarrow> False)"

text \<open>\<^verbatim>\<open>'detail' in err\<close>: a TypeError unless \<^verbatim>\<open>err\<close> is an object.\<close>

fun detail_in :: "thrown \<Rightarrow> js_error + bool" where
  "detail_in (ThrownError e) = Inr False"
| "detail_in (ThrownValue (JObj kvs)) = Inr (map_of kvs ''detail'' \<noteq> None)"
| "detail_in (ThrownValue (JArr xs)) = Inr False"
| "detail_in (ThrownValue v) =
     Inl (JsError ''TypeError'' ''Cannot use 'in' operator to search for 'detail' '')"

fun thrown_truthy :: "thrown \<Rightarrow> bool" where
  "thrown_truthy (ThrownValue v) = truthy v"
| "thrown_truthy (ThrownError e) = True"

subsection \<open>String operations\<close>

fun indexOf :: "string \<Rightarrow> char \<Rightarrow> int" where
  "indexOf [] c = - 1"
| "indexOf (x # xs) c =
     (if x = c then 0 else (let i = indexOf xs c in if i = - 1 then - 1 else i + 1))"

fun lastIndexOf :: "string \<Rightarrow> char \<Rightarrow> int" where
  "lastIndexOf [] c = - 1"
| "lastIndexOf (x # xs) c =
     (let i = lastIndexOf xs c in if i \<noteq> - 1 then i + 1 else if x = c then 0 else - 1)"

text \<open>
  \<^verbatim>\<open>s.substring(start, end)\<close>: both indices are clamped to the string and swapped when
  the first is the larger.
\<close>

definition substring :: "string \<Rightarrow> int \<Rightarrow> int \<Rightarrow> string" where
  "substring s start end' =
     (let n = int (length s);
          a = max 0 (min start n);
          b = max 0 (min end' n);
          lo = min a b;
          hi = max a b
      in take (nat (hi - lo)) (drop (nat lo) s))"

text \<open>
  \<^verbatim>\<open>response.replace(/['\<dots>`]/g, '"')\<close> with the class of the four characters apostrophe,
  U+2018, U+2019 and backtick: each occurrence becomes a double quote.
\<close>

definition is_ascii_quote :: "char \<Rightarrow> bool" where
  "is_ascii_quote c = (c = CHR 0x27 \<or> c = CHR 0x60)"

fun replace_quotes :: "string \<Rightarrow> string" where
  "replace_quotes (a # b # c # cs) =
     (if a = CHR 0xE2 \<and> b = CHR 0x80 \<and> (c = CHR 0x98 \<or> c = CHR 0x99)
      then CHR 0x22 # replace_quotes cs
      else (if is_ascii_quote a then CHR 0x22 else a) # replace_quotes (b # c # cs))"
| "replace_quotes (a # cs) = (if is_ascii_quote a then CHR 0x22 else a) # replace_quotes cs"
| "replace_quotes [] = []"

text \<open>\<^verbatim>\<open>content.replace(/["']/g, '')\<close> of generateEmoji.\<close>

definition strip_quotes :: "string \<Rightarrow> string" where
  "strip_quotes s = filter (\<lambda>c. c \<noteq> CHR 0x22 \<and> c \<noteq> CHR 0x27) s"

fun string_of_nat :: "nat \<Rightarrow> string" where
  "string_of_nat n =
     (if n < 10 then [''0123456789'' ! n]
      else string_of_nat (n div 10) @ [''0123456789'' ! (n mod 10)])"

subsection \<open>Code points\<close>

text \<open>
  The UTF-8 bytes of a code point; the code of a surrogate gets the three bytes of the
  general scheme.
\<close>

definition utf8 :: "nat \<Rightarrow> string" where
  "utf8 n =
     (if n < 128 then [char_of n]
      else if n < 2048 then [char_of (192 + n div 64), char_of (128 + n mod 64)]
      else if n < 65536
      then [char_of (224 + n div 4096), char_of (128 + n div 64 mod 64), char_of (128 + n mod 64)]
      else [char_of (240 + n div 262144), char_of (128 + n div 4096 mod 64),
            char_of (128 + n div 64 mod 64), char_of (128 + n mod 64)])"

text \<open>The number of bytes of the sequence a byte begins.\<close>

definition seq_len :: "char \<Rightarrow> nat" where
  "seq_len c =
     (let n = (of_char c :: nat)
      in if n < 192 then 1 else if n < 224 then 2 else if n < 240 then 3 else 4)"

function byte_seqs :: "string \<Rightarrow> string list" where
  "byte_seqs [] = []"
| "byte_seqs (c # cs) = take (seq_len c) (c # cs) # byte_seqs (drop (seq_len c) (c # cs))"
  by pat_completeness auto
termination
  by (relation "measure length") (auto simp: seq_len_def Let_def)

text \<open>The code of a surrogate held as three bytes.\<close>

definition surrogate_code :: "string \<Rightarrow> nat option" where
  "surrogate_code q =
     (case q of
        [a, b, c] \<Rightarrow>
          if a = CHR 0xED \<and> 160 \<le> (of_char b :: nat)
          then Some (53248 + ((of_char b :: nat) mod 64) * 64 + (of_char c :: nat) mod 64)
          else None
      | _ \<Rightarrow> None)"

definition is_surrogate :: "string \<Rightarrow> bool" where
  "is_surrogate q = (surrogate_code q \<noteq> None)"

text \<open>A high surrogate followed by a low one is one code point.\<close>

fun join_pairs :: "string list \<Rightarrow> string list" where
  "join_pairs (h # l # rest) =
     (case (surrogate_code h, surrogate_code l) of
        (Some hi, Some lo) \<Rightarrow>
          if hi < 56320 \<and> 56320 \<le> lo
          then utf8 (65536 + (hi - 55296) * 1024 + (lo - 56320)) # join_pairs rest
          else h # join_pairs (l # rest)
      | _ \<Rightarrow> h # join_pairs (l # rest))"
| "join_pairs qs = qs"

text \<open>
  The code points of a string, each by its bytes, as \<^verbatim>\<open>for (const ch of s)\<close> goes through
  them: a surrogate outside a pair is an element of its own.
\<close>

definition code_points :: "string \<Rightarrow> string list" where
  "code_points s = join_pairs (byte_seqs s)"

text \<open>The 16-bit units of a string, each by its bytes, as the indices of the string
  number them: a code point above U+FFFF is two surrogates.\<close>

definition code_units :: "string \<Rightarrow> string list" where
  "code_units s =
     concat (map (\<lambda>q. case q of
                          [a, b, c, d] \<Rightarrow>
                            (let n = ((of_char a :: nat) mod 8) * 262144
                                     + ((of_char b :: nat) mod 64) * 4096
                                     + ((of_char c :: nat) mod 64) * 64
                                     + (of_char d :: nat) mod 64 - 65536
                             in [utf8 (55296 + n div 1024), utf8 (56320 + n mod 1024)])
                        | _ \<Rightarrow> [q])
                 (code_points s))"

text \<open>The conversion to a string of scalar values, which the URL interfaces apply to
  their arguments: a surrogate outside a pair becomes U+FFFD.\<close>

definition scalar_values :: "string \<Rightarrow> string" where
  "scalar_values s =
     concat (map (\<lambda>q. if is_surrogate q then [CHR 0xEF, CHR 0xBF, CHR 0xBD] else q)
                 (code_points s))"

section \<open>The connections\<close>

text \<open>
  The \<^verbatim>\<open>connections\<close> argument of getModels is the settings object of the application,
  with the shape its settings page gives it: the list of base URLs, the list of keys,
  and the configurations. A configuration may set \<^verbatim>\<open>enable\<close>, \<^verbatim>\<open>model_ids\<close>,
  \<^verbatim>\<open>prefix_id\<close> and \<^verbatim>\<open>tags\<close>. What the servers answer is not under the control of the
  application and is held as the JSON value it is.
\<close>

record apiConfig =
  enable :: "bool option"
  model_ids :: "string list option"
  prefix_id :: "string option"
  tags :: "json option"

text \<open>
  \<^verbatim>\<open>OPENAI_API_CONFIGS\<close> is keyed by the decimal string of a connection index; the key is
  kept as the index. An entry that is \<^verbatim>\<open>null\<close> reads, through \<^verbatim>\<open>?? {}\<close>, like the
  empty configuration.
\<close>

record connections =
  OPENAI_API_BASE_URLS :: "string list"
  OPENAI_API_KEYS :: "string list"
  OPENAI_API_CONFIGS :: "nat \<rightharpoonup> apiConfig"

section \<open>The runtime: network and built-ins\<close>

text \<open>
  \<^verbatim>\<open>fetch\<close> answers a request with a rejection or a response; reading the body of a
  response can itself fail. The built-ins and imports whose code is not part of
  \<^verbatim>\<open>index.ts\<close> are fields of the runtime, so that every function below is a function of
  its arguments and the runtime alone: \<^verbatim>\<open>JSON.parse\<close>, the \<^verbatim>\<open>parse\<close> of the yaml
  package, \<^verbatim>\<open>convertOpenApiToToolPayload\<close>, \<^verbatim>\<open>getOpenAIModelsDirect\<close>, the
  regular-expression engine where a pattern has operators, the printing of numbers, the
  first match of \<^verbatim>\<open>\p{Extended_Pictographic}\<close>, and the environment \<^verbatim>\<open>$lib/constants\<close>
  depends on.

  The promise of \<^verbatim>\<open>getOpenAIModelsDirect\<close> resolves with a value, rejects with what was
  thrown, or never settles, which is \<open>None\<close>; getModels waits for several of these at
  once. \<^verbatim>\<open>new RegExp(pattern, 'g')\<close> throws or gives the pattern, held as what
  \<^verbatim>\<open>subject.replace(pattern, replacement)\<close> does with a replacement and a subject.
\<close>

record request =
  req_url :: string
  req_method :: string
  req_headers :: "(string \<times> string) list"
  req_body :: "json option"

record response =
  res_status :: nat
  res_text :: "js_error + string"

datatype fetch_result = Rejected js_error | Resolved response

record runtime =
  fetch :: "request \<Rightarrow> fetch_result"
  JSON_parse :: "string \<Rightarrow> js_error + json"
  YAML_parse :: "string \<Rightarrow> js_error + json"
  convertOpenApiToToolPayload :: "json \<Rightarrow> js_error + json"
  getOpenAIModelsDirect :: "string \<Rightarrow> string option \<Rightarrow> (thrown + json) option"
  RegExp :: "string \<Rightarrow> js_error + (string \<Rightarrow> string \<Rightarrow> string)"
  Number_toString :: "rat \<Rightarrow> string"
  first_pictographic :: "string \<Rightarrow> string option"
  browser :: bool
  dev :: bool
  location_hostname :: string

definition res_ok :: "response \<Rightarrow> bool" where
  "res_ok r = (200 \<le> res_status r \<and> res_status r \<le> 299)"

definition res_json :: "runtime \<Rightarrow> response \<Rightarrow> js_error + json" where
  "res_json rt r =
     (case res_text r of Inl e \<Rightarrow> Inl e | Inr t \<Rightarrow> JSON_parse rt t)"

definition WEBUI_HOSTNAME :: "runtime \<Rightarrow> string" where
  "WEBUI_HOSTNAME rt =
     (if browser rt then (if dev rt then location_hostname rt @ '':8080'' else '''') else '''')"

definition WEBUI_BASE_URL :: "runtime \<Rightarrow> string" where
  "WEBUI_BASE_URL rt =
     (if browser rt then (if dev rt then ''http://'' @ WEBUI_HOSTNAME rt else '''') else '''')"

text \<open>
  The promise chain every function starts with:
  \<^verbatim>\<open>fetch(..).then(async (res) => { if (!res.ok) throw await res.json(); return res.json(); })\<close>.
  It settles with the parsed body, or rejects with the parsed error body, with the error
  of reading or parsing the body, or with the rejection of \<^verbatim>\<open>fetch\<close>.
\<close>

definition fetch_json :: "runtime \<Rightarrow> request \<Rightarrow> thrown + json" where
  "fetch_json rt req =
     (case fetch rt req of
        Rejected e \<Rightarrow> Inl (ThrownError e)
      | Resolved res \<Rightarrow>
          if \<not> res_ok res
          then (case res_json rt res of
                  Inl e \<Rightarrow> Inl (ThrownError e)
                | Inr v \<Rightarrow> Inl (ThrownValue v))
          else (case res_json rt res of
                  Inl e \<Rightarrow> Inl (ThrownError e)
                | Inr v \<Rightarrow> Inr v))"

section \<open>Task completions\<close>

text \<open>
  The six task functions share their \<^verbatim>\<open>.catch\<close> handler and the \<^verbatim>\<open>if (error) throw error\<close>
  after it: \<^verbatim>\<open>error\<close> is set to \<^verbatim>\<open>err.detail\<close> when \<^verbatim>\<open>'detail' in err\<close>, there is no
  \<^verbatim>\<open>else\<close> branch, and the handler returns \<^verbatim>\<open>null\<close>. The result is what is thrown, or
  the value of \<^verbatim>\<open>res\<close>.
\<close>

definition task_catch :: "thrown \<Rightarrow> thrown + json" where
  "task_catch err =
     (case detail_in err of
        Inl e \<Rightarrow> Inl (ThrownError e)
      | Inr False \<Rightarrow> Inr JNull
      | Inr True \<Rightarrow>
          (case err of
             ThrownValue v \<Rightarrow>
               (case getProp v ''detail'' of
                  Some d \<Rightarrow> if truthy d then Inl (ThrownValue d) else Inr JNull
                | None \<Rightarrow> Inr JNull)
           | ThrownError e \<Rightarrow> Inr JNull))"

definition task_fetch :: "runtime \<Rightarrow> request \<Rightarrow> thrown + json" where
  "task_fetch rt req =
     (case fetch_json rt req of Inl err \<Rightarrow> task_catch err | Inr v \<Rightarrow> Inr v)"

text \<open>
  \<^verbatim>\<open>res?.choices[0]?.message?.content ?? ''\<close>: a null \<^verbatim>\<open>res\<close> ends the chain, a missing
  \<^verbatim>\<open>choices\<close> makes \<^verbatim>\<open>[0]\<close> a TypeError.
\<close>

definition nullish :: "json option \<Rightarrow> bool" where
  "nullish v = (v = None \<or> v = Some JNull)"

definition choice0 :: "json \<Rightarrow> js_error + json option" where
  "choice0 res =
     (if res = JNull then Inr None
      else if nullish (getProp res ''choices'')
      then Inl (JsError ''TypeError'' ''Cannot read properties of undefined (reading '0')'')
      else Inr (index0 (the (getProp res ''choices''))))"

definition message_of :: "json option \<Rightarrow> json option" where
  "message_of c = (if nullish c then None else getProp (the c) ''message'')"

definition completion_content :: "json \<Rightarrow> js_error + json" where
  "completion_content res =
     (case choice0 res of
        Inl e \<Rightarrow> Inl e
      | Inr c \<Rightarrow>
          (let m = message_of c;
               content = (if nullish m then None else getProp (the m) ''content'')
           in Inr (if nullish content then JStr '''' else the content)))"

definition task_headers :: "string \<Rightarrow> (string \<times> string) list" where
  "task_headers token =
     [(''Accept'', ''application/json''),
      (''Content-Type'', ''application/json''),
      (''Authorization'', ''Bearer '' @ token)]"

text \<open>\<^verbatim>\<open>...(chat_id && { chat_id: chat_id })\<close>\<close>

definition chat_id_entry :: "string option \<Rightarrow> (string \<times> json) list" where
  "chat_id_entry chat_id =
     (case chat_id of None \<Rightarrow> [] | Some c \<Rightarrow> if c = '''' then [] else [(''chat_id'', JStr c)])"

text \<open>
  The first-brace-to-last-brace slice and its parse, as generateTitle, generateFollowUps
  and generateTags do it on the text with its quotes replaced, and generateQueries and
  generateAutoCompletion on the text as it is. \<open>None\<close>: a brace is missing;
  \<open>Some (Inl e)\<close>: \<^verbatim>\<open>JSON.parse\<close> threw.
\<close>

definition parse_slice :: "runtime \<Rightarrow> string \<Rightarrow> (js_error + json) option" where
  "parse_slice rt s =
     (let jsonStartIndex = indexOf s CHR ''{'';
          jsonEndIndex = lastIndexOf s CHR ''}''
      in if jsonStartIndex \<noteq> - 1 \<and> jsonEndIndex \<noteq> - 1
         then Some (JSON_parse rt (substring s jsonStartIndex (jsonEndIndex + 1)))
         else None)"

text \<open>\<^verbatim>\<open>parsed && parsed.key\<close>, as a condition and as a value.\<close>

definition parsed_key :: "json \<Rightarrow> string \<Rightarrow> json option" where
  "parsed_key parsed k =
     (if truthy parsed
      then (case getProp parsed k of Some v \<Rightarrow> if truthy v then Some v else None | None \<Rightarrow> None)
      else None)"

text \<open>
  The \<^verbatim>\<open>try\<close> block of generateTitle on the completion content. A content that is not
  a string has no \<^verbatim>\<open>replace\<close>: a TypeError, caught like a parse error.
\<close>

definition title_of_content :: "runtime \<Rightarrow> json \<Rightarrow> json" where
  "title_of_content rt content =
     (case content of
        JStr response \<Rightarrow>
          (case parse_slice rt (replace_quotes response) of
             None \<Rightarrow> JNull
           | Some (Inl e) \<Rightarrow> JNull
           | Some (Inr parsed) \<Rightarrow>
               (case parsed_key parsed ''title'' of Some t \<Rightarrow> t | None \<Rightarrow> JNull))
      | _ \<Rightarrow> JNull)"

definition list_of_content :: "runtime \<Rightarrow> string \<Rightarrow> json \<Rightarrow> json" where
  "list_of_content rt k content =
     (case content of
        JStr response \<Rightarrow>
          (case parse_slice rt (replace_quotes response) of
             None \<Rightarrow> JArr []
           | Some (Inl e) \<Rightarrow> JArr []
           | Some (Inr parsed) \<Rightarrow>
               (case parsed_key parsed k of
                  Some v \<Rightarrow> if isArray v then v else JArr []
                | None \<Rightarrow> JArr []))
      | _ \<Rightarrow> JArr [])"

definition generateTitle_request ::
  "runtime \<Rightarrow> string \<Rightarrow> string \<Rightarrow> json \<Rightarrow> string option \<Rightarrow> request" where
  "generateTitle_request rt token model messages chat_id =
     \<lparr>req_url = WEBUI_BASE_URL rt @ ''/api/v1/tasks/title/completions'',
      req_method = ''POST'',
      req_headers = task_headers token,
      req_body = Some (JObj ([(''model'', JStr model), (''messages'', messages)]
                              @ chat_id_entry chat_id))\<rparr>"

definition generateTitle ::
  "runtime \<Rightarrow> string \<Rightarrow> string \<Rightarrow> json \<Rightarrow> string option \<Rightarrow> thrown + json" where
  "generateTitle rt token model messages chat_id =
     (case task_fetch rt (generateTitle_request rt token model messages chat_id) of
        Inl error \<Rightarrow> Inl error
      | Inr res \<Rightarrow>
          (case completion_content res of
             Inl e \<Rightarrow> Inr JNull
           | Inr content \<Rightarrow> Inr (title_of_content rt content)))"

definition generateFollowUps_request ::
  "runtime \<Rightarrow> string \<Rightarrow> string \<Rightarrow> json \<Rightarrow> string option \<Rightarrow> request" where
  "generateFollowUps_request rt token model messages chat_id =
     \<lparr>req_url = WEBUI_BASE_URL rt @ ''/api/v1/tasks/follow_ups/completions'',
      req_method = ''POST'',
      req_headers = task_headers token,
      req_body = Some (JObj ([(''model'', JStr model), (''messages'', messages)]
                              @ chat_id_entry chat_id))\<rparr>"

definition generateFollowUps ::
  "runtime \<Rightarrow> string \<Rightarrow> string \<Rightarrow> json \<Rightarrow> string option \<Rightarrow> thrown + json" where
  "generateFollowUps rt token model messages chat_id =
     (case task_fetch rt (generateFollowUps_request rt token model messages chat_id) of
        Inl error \<Rightarrow> Inl error
      | Inr res \<Rightarrow>
          (case completion_content res of
             Inl e \<Rightarrow> Inr (JArr [])
           | Inr content \<Rightarrow> Inr (list_of_content rt ''follow_ups'' content)))"

definition generateTags_request ::
  "runtime \<Rightarrow> string \<Rightarrow> string \<Rightarrow> json \<Rightarrow> string option \<Rightarrow> request" where
  "generateTags_request rt token model messages chat_id =
     \<lparr>req_url = WEBUI_BASE_URL rt @ ''/api/v1/tasks/tags/completions'',
      req_method = ''POST'',
      req_headers = task_headers token,
      req_body = Some (JObj ([(''model'', JStr model), (''messages'', messages)]
                              @ chat_id_entry chat_id))\<rparr>"

definition generateTags ::
  "runtime \<Rightarrow> string \<Rightarrow> string \<Rightarrow> json \<Rightarrow> string option \<Rightarrow> thrown + json" where
  "generateTags rt token model messages chat_id =
     (case task_fetch rt (generateTags_request rt token model messages chat_id) of
        Inl error \<Rightarrow> Inl error
      | Inr res \<Rightarrow>
          (case completion_content res of
             Inl e \<Rightarrow> Inr (JArr [])
           | Inr content \<Rightarrow> Inr (list_of_content rt ''tags'' content)))"

text \<open>
  generateEmoji reads the content outside any \<^verbatim>\<open>try\<close>:
  \<^verbatim>\<open>res?.choices[0]?.message?.content.replace(/["']/g, '') ?? null\<close>. A null message ends
  the chain; a content that is missing or not a string makes \<^verbatim>\<open>replace\<close> a TypeError.
\<close>

definition emoji_response :: "json \<Rightarrow> js_error + string option" where
  "emoji_response res =
     (case choice0 res of
        Inl e \<Rightarrow> Inl e
      | Inr c \<Rightarrow>
          (let m = message_of c
           in if nullish m then Inr None
              else (case getProp (the m) ''content'' of
                      Some (JStr content) \<Rightarrow> Inr (Some (strip_quotes content))
                    | _ \<Rightarrow> Inl (JsError ''TypeError'' ''content.replace is not a function''))))"

definition generateEmoji_request ::
  "runtime \<Rightarrow> string \<Rightarrow> string \<Rightarrow> string \<Rightarrow> string option \<Rightarrow> request" where
  "generateEmoji_request rt token model prompt chat_id =
     \<lparr>req_url = WEBUI_BASE_URL rt @ ''/api/v1/tasks/emoji/completions'',
      req_method = ''POST'',
      req_headers = task_headers token,
      req_body = Some (JObj ([(''model'', JStr model), (''prompt'', JStr prompt)]
                              @ chat_id_entry chat_id))\<rparr>"

definition generateEmoji ::
  "runtime \<Rightarrow> string \<Rightarrow> string \<Rightarrow> string \<Rightarrow> string option \<Rightarrow> thrown + json" where
  "generateEmoji rt token model prompt chat_id =
     (case task_fetch rt (generateEmoji_request rt token model prompt chat_id) of
        Inl error \<Rightarrow> Inl error
      | Inr res \<Rightarrow>
          (case emoji_response res of
             Inl e \<Rightarrow> Inl (ThrownError e)
           | Inr None \<Rightarrow> Inr JNull
           | Inr (Some response) \<Rightarrow>
               if response \<noteq> []
               then (case first_pictographic rt response of
                       Some emoji \<Rightarrow> Inr (JStr emoji)
                     | None \<Rightarrow> Inr JNull)
               else Inr JNull))"

text \<open>
  generateQueries and generateAutoCompletion search the content as it is. Their
  \<^verbatim>\<open>try\<close> block falls back to the content itself: a content that is not a string has no
  \<^verbatim>\<open>substring\<close> (and, unless it is an array, no \<^verbatim>\<open>indexOf\<close>), so it ends in the fallback
  too, by the \<^verbatim>\<open>catch\<close> or by the final \<^verbatim>\<open>return\<close>.
\<close>

definition queries_of_content :: "runtime \<Rightarrow> json \<Rightarrow> json" where
  "queries_of_content rt content =
     (case content of
        JStr response \<Rightarrow>
          (case parse_slice rt response of
             None \<Rightarrow> JArr [content]
           | Some (Inl e) \<Rightarrow> JArr [content]
           | Some (Inr parsed) \<Rightarrow>
               (case parsed_key parsed ''queries'' of
                  Some v \<Rightarrow> if isArray v then v else JArr []
                | None \<Rightarrow> JArr []))
      | _ \<Rightarrow> JArr [content])"

definition generateQueries_request ::
  "runtime \<Rightarrow> string \<Rightarrow> string \<Rightarrow> json \<Rightarrow> string \<Rightarrow> string option \<Rightarrow> request" where
  "generateQueries_request rt token model messages prompt type =
     \<lparr>req_url = WEBUI_BASE_URL rt @ ''/api/v1/tasks/queries/completions'',
      req_method = ''POST'',
      req_headers = task_headers token,
      req_body = Some (JObj [(''model'', JStr model), (''messages'', messages),
                             (''prompt'', JStr prompt),
                             (''type'', JStr (case type of None \<Rightarrow> ''web_search'' | Some t \<Rightarrow> t))])\<rparr>"

definition generateQueries ::
  "runtime \<Rightarrow> string \<Rightarrow> string \<Rightarrow> json \<Rightarrow> string \<Rightarrow> string option \<Rightarrow> thrown + json" where
  "generateQueries rt token model messages prompt type =
     (case task_fetch rt (generateQueries_request rt token model messages prompt type) of
        Inl error \<Rightarrow> Inl error
      | Inr res \<Rightarrow>
          (case completion_content res of
             Inl e \<Rightarrow> Inl (ThrownError e)
           | Inr content \<Rightarrow> Inr (queries_of_content rt content)))"

definition text_of_content :: "runtime \<Rightarrow> json \<Rightarrow> json" where
  "text_of_content rt content =
     (case content of
        JStr response \<Rightarrow>
          (case parse_slice rt response of
             None \<Rightarrow> content
           | Some (Inl e) \<Rightarrow> content
           | Some (Inr parsed) \<Rightarrow>
               (case parsed_key parsed ''text'' of Some t \<Rightarrow> t | None \<Rightarrow> JStr []))
      | _ \<Rightarrow> content)"

text \<open>\<^verbatim>\<open>...(messages && { messages: messages })\<close>. The signal that
  generateAutoCompletion passes to \<^verbatim>\<open>fetch\<close> belongs to a controller that is never
  aborted, so it is left out of the request.\<close>

definition messages_entry :: "json option \<Rightarrow> (string \<times> json) list" where
  "messages_entry messages =
     (case messages of
        None \<Rightarrow> []
      | Some m \<Rightarrow> if truthy m then [(''messages'', m)] else [])"

definition generateAutoCompletion_request ::
  "runtime \<Rightarrow> string \<Rightarrow> string \<Rightarrow> string \<Rightarrow> json option \<Rightarrow> string option \<Rightarrow> request" where
  "generateAutoCompletion_request rt token model prompt messages type =
     \<lparr>req_url = WEBUI_BASE_URL rt @ ''/api/v1/tasks/auto/completions'',
      req_method = ''POST'',
      req_headers = task_headers token,
      req_body = Some (JObj ([(''model'', JStr model), (''prompt'', JStr prompt)]
                             @ messages_entry messages
                             @ [(''type'', JStr (case type of None \<Rightarrow> ''search query'' | Some t \<Rightarrow> t)),
                                (''stream'', JBool False)]))\<rparr>"

definition generateAutoCompletion ::
  "runtime \<Rightarrow> string \<Rightarrow> string \<Rightarrow> string \<Rightarrow> json option \<Rightarrow> string option \<Rightarrow> thrown + json" where
  "generateAutoCompletion rt token model prompt messages type =
     (case task_fetch rt (generateAutoCompletion_request rt token model prompt messages type) of
        Inl error \<Rightarrow> Inl error
      | Inr res \<Rightarrow>
          (case completion_content res of
             Inl e \<Rightarrow> Inl (ThrownError e)
           | Inr content \<Rightarrow> Inr (text_of_content rt content)))"

section \<open>Objects, URLs and patterns\<close>

text \<open>
  The own properties of an object are an association list in insertion order. Defining a
  property (in an object literal, by a spread, in \<^verbatim>\<open>JSON.parse\<close>) appends it, or
  replaces its value where it stands when the key is present: \<open>obj_set\<close>.
  \<^verbatim>\<open>Object.entries\<close> lists the keys that are array indices first, in ascending order,
  and the other keys in insertion order.
\<close>

definition is_digit :: "char \<Rightarrow> bool" where
  "is_digit c = (48 \<le> (of_char c :: nat) \<and> (of_char c :: nat) \<le> 57)"

definition int_of_digits :: "string \<Rightarrow> int" where
  "int_of_digits s = foldl (\<lambda>n c. 10 * n + ((of_char c :: int) - 48)) 0 s"

definition is_array_index :: "string \<Rightarrow> bool" where
  "is_array_index s =
     (s \<noteq> [] \<and> list_all is_digit s \<and> (hd s \<noteq> CHR ''0'' \<or> s = ''0'')
      \<and> int_of_digits s < 4294967295)"

definition obj_set :: "(string \<times> 'v) list \<Rightarrow> string \<Rightarrow> 'v \<Rightarrow> (string \<times> 'v) list" where
  "obj_set obj k v =
     (if k \<in> fst ` set obj
      then map (\<lambda>(k', v'). if k' = k then (k', v) else (k', v')) obj
      else obj @ [(k, v)])"

definition Object_entries :: "(string \<times> 'v) list \<Rightarrow> (string \<times> 'v) list" where
  "Object_entries obj =
     sort_key (\<lambda>(k, v). int_of_digits k) (filter (\<lambda>(k, v). is_array_index k) obj)
     @ filter (\<lambda>(k, v). \<not> is_array_index k) obj"

definition Object_values :: "(string \<times> 'v) list \<Rightarrow> 'v list" where
  "Object_values obj = map snd (Object_entries obj)"

definition join :: "string \<Rightarrow> string list \<Rightarrow> string" where
  "join sep xs = (case xs of [] \<Rightarrow> [] | y # ys \<Rightarrow> foldl (\<lambda>acc x. acc @ sep @ x) y ys)"

text \<open>
  An object that \<^verbatim>\<open>{}\<close> created and the code fills by assignment (\<^verbatim>\<open>pathParams\<close>,
  \<^verbatim>\<open>queryParams\<close>, \<^verbatim>\<open>modelsMap\<close>), with \<^verbatim>\<open>obj[key] = value\<close> for keys that come from
  data. The key \<^verbatim>\<open>__proto__\<close> is special: the object inherits an accessor of that name,
  so the assignment creates no property; it makes the value the prototype when the
  value is an object or \<^verbatim>\<open>null\<close>, and does nothing otherwise. The accessor is out of
  reach once the prototype is \<^verbatim>\<open>null\<close> or an object with a property \<^verbatim>\<open>__proto__\<close> of
  its own (\<^verbatim>\<open>JSON.parse\<close> and a spread define one like any other property); from then
  on the assignment creates the property. The boolean says that the accessor is out of
  reach. An assignment to any other key defines the property.
\<close>

type_synonym plain_object = "(string \<times> json) list \<times> bool"

definition empty_object :: plain_object where
  "empty_object = ([], False)"

definition assign :: "plain_object \<Rightarrow> string \<Rightarrow> json \<Rightarrow> plain_object" where
  "assign obj k v =
     (case obj of
        (own, out_of_reach) \<Rightarrow>
          if k = ''__proto__'' \<and> \<not> out_of_reach
          then (own, (case v of
                        JNull \<Rightarrow> True
                      | JObj kvs \<Rightarrow> ''__proto__'' \<in> fst ` set kvs
                      | _ \<Rightarrow> False))
          else (obj_set own k v, out_of_reach))"

text \<open>
  \<^verbatim>\<open>String(v)\<close>, which is also what a template literal and \<^verbatim>\<open>encodeURIComponent\<close> make
  of a value. An array joins its elements with commas, \<^verbatim>\<open>null\<close> elements empty. An
  object is \<^verbatim>\<open>[object Object]\<close> by the method it inherits; a property \<^verbatim>\<open>toString\<close> of
  its own hides that method and, being data, cannot be called: a TypeError.
\<close>

fun js_String :: "(rat \<Rightarrow> string) \<Rightarrow> json \<Rightarrow> js_error + string"
  and js_Strings :: "(rat \<Rightarrow> string) \<Rightarrow> json list \<Rightarrow> js_error + string list"
where
  "js_String nts JNull = Inr ''null''"
| "js_String nts (JBool b) = Inr (if b then ''true'' else ''false'')"
| "js_String nts (JNum n) = Inr (nts n)"
| "js_String nts (JStr s) = Inr s"
| "js_String nts (JArr xs) =
     (case js_Strings nts xs of Inl e \<Rightarrow> Inl e | Inr ss \<Rightarrow> Inr (join '','' ss))"
| "js_String nts (JObj kvs) =
     (if ''toString'' \<in> fst ` set kvs
      then Inl (type_error ''Cannot convert object to primitive value'')
      else Inr ''[object Object]'')"
| "js_Strings nts [] = Inr []"
| "js_Strings nts (x # xs) =
     (case (if x = JNull then Inr [] else js_String nts x) of
        Inl e \<Rightarrow> Inl e
      | Inr s \<Rightarrow>
          (case js_Strings nts xs of Inl e \<Rightarrow> Inl e | Inr ss \<Rightarrow> Inr (s # ss)))"

text \<open>The property key a value is used as; \<^verbatim>\<open>undefined\<close> is the key "undefined".\<close>

definition property_key :: "(rat \<Rightarrow> string) \<Rightarrow> json option \<Rightarrow> js_error + string" where
  "property_key nts v = (case v of None \<Rightarrow> Inr ''undefined'' | Some x \<Rightarrow> js_String nts x)"

text \<open>A function applied to the elements of a list in order, up to the first that
  throws.\<close>

fun map_result :: "('a \<Rightarrow> js_error + 'b) \<Rightarrow> 'a list \<Rightarrow> js_error + 'b list" where
  "map_result f [] = Inr []"
| "map_result f (x # xs) =
     (case f x of
        Inl e \<Rightarrow> Inl e
      | Inr y \<Rightarrow> (case map_result f xs of Inl e \<Rightarrow> Inl e | Inr ys \<Rightarrow> Inr (y # ys)))"

definition to_lower :: "char \<Rightarrow> char" where
  "to_lower c =
     (let n = (of_char c :: nat) in if 65 \<le> n \<and> n \<le> 90 then char_of (n + 32) else c)"

definition to_upper :: "char \<Rightarrow> char" where
  "to_upper c =
     (let n = (of_char c :: nat) in if 97 \<le> n \<and> n \<le> 122 then char_of (n - 32) else c)"

text \<open>Case conversion of the ASCII letters, which is all that URL suffixes and HTTP
  method names are compared on.\<close>

definition toLowerCase :: "string \<Rightarrow> string" where
  "toLowerCase s = map to_lower s"

definition toUpperCase :: "string \<Rightarrow> string" where
  "toUpperCase s = map to_upper s"

definition endsWith :: "string \<Rightarrow> string \<Rightarrow> bool" where
  "endsWith s suf = (length suf \<le> length s \<and> drop (length s - length suf) s = suf)"

definition is_alnum :: "char \<Rightarrow> bool" where
  "is_alnum c =
     (let n = (of_char c :: nat)
      in (48 \<le> n \<and> n \<le> 57) \<or> (65 \<le> n \<and> n \<le> 90) \<or> (97 \<le> n \<and> n \<le> 122))"

definition percent :: "char \<Rightarrow> string" where
  "percent c =
     [CHR ''%'', ''0123456789ABCDEF'' ! ((of_char c :: nat) div 16),
      ''0123456789ABCDEF'' ! ((of_char c :: nat) mod 16)]"

text \<open>\<^verbatim>\<open>encodeURIComponent\<close> of a string: a URIError when the string has a surrogate
  outside a pair; otherwise every byte of the UTF-8 encoding is escaped except the
  letters, the digits and \<^verbatim>\<open>- _ . ! ~ * ' ( )\<close>.\<close>

definition encodeURIComponent :: "string \<Rightarrow> js_error + string" where
  "encodeURIComponent s =
     (if list_ex is_surrogate (code_points s)
      then Inl (JsError ''URIError'' ''URI malformed'')
      else Inr (concat (map (\<lambda>c. if is_alnum c \<or> c \<in> set ''-_.!~*'()'' then [c]
                                   else percent c)
                            (concat (code_points s)))))"

text \<open>\<^verbatim>\<open>new URLSearchParams(pairs).toString()\<close>: the constructor takes names and values
  as strings of scalar values; in the serializer letters, digits and \<^verbatim>\<open>* - . _\<close> stay,
  a space becomes a plus sign, every other byte is escaped; pairs are joined by an
  ampersand.\<close>

definition form_encode :: "string \<Rightarrow> string" where
  "form_encode s =
     concat (map (\<lambda>c. if is_alnum c \<or> c \<in> set ''*-._'' then [c]
                       else if c = CHR '' '' then ''+'' else percent c) s)"

definition URLSearchParams_toString :: "(string \<times> string) list \<Rightarrow> string" where
  "URLSearchParams_toString ps =
     join ''&'' (map (\<lambda>(k, v). form_encode (scalar_values k) @ ''=''
                                  @ form_encode (scalar_values v)) ps)"

text \<open>Replacing every occurrence of a non-empty text, left to right.\<close>

function replace_all :: "string \<Rightarrow> string \<Rightarrow> string \<Rightarrow> string" where
  "replace_all pat rep [] = []"
| "replace_all pat rep (c # cs) =
     (if pat \<noteq> [] \<and> take (length pat) (c # cs) = pat
      then rep @ replace_all pat rep (drop (length pat) (c # cs))
      else c # replace_all pat rep cs)"
  by pat_completeness auto
termination
  by (relation "measure (\<lambda>(pat, rep, s). length s)") auto

text \<open>
  \<^verbatim>\<open>new RegExp(`{${key}}`, 'g')\<close>. The key goes into the pattern as it is. A pattern
  that opens with a braced quantifier (\<^verbatim>\<open>{1}\<close>, \<^verbatim>\<open>{1,}\<close>, \<^verbatim>\<open>{1,2}\<close>) has nothing to
  repeat and the constructor throws a SyntaxError (its message is worded as V8 words
  it). With a key free of the syntax characters of regular expressions the pattern
  matches its own text and nothing else, so that the replacement of its matches is the
  replacement of the occurrences of \<^verbatim>\<open>{key}\<close>. Any other key makes a pattern with
  operators, which is left to the engine of the runtime. (The replacement comes from
  encodeURIComponent and so holds no dollar sign, the one character a replacement text
  treats specially.)
\<close>

definition syntax_character :: "char \<Rightarrow> bool" where
  "syntax_character c = (c \<in> set ''^$.*+?()[]{}|'' \<or> c = CHR 0x5C)"

definition braced_quantifier :: "string \<Rightarrow> bool" where
  "braced_quantifier key =
     (let ds = takeWhile is_digit key; rest = dropWhile is_digit key
      in ds \<noteq> [] \<and> (rest = [] \<or> (hd rest = CHR '','' \<and> list_all is_digit (tl rest))))"

definition placeholder_pattern ::
  "runtime \<Rightarrow> string \<Rightarrow> js_error + (string \<Rightarrow> string \<Rightarrow> string)" where
  "placeholder_pattern rt key =
     (if braced_quantifier key
      then Inl (JsError ''SyntaxError''
                  (''Invalid regular expression: /{'' @ key @ ''}/g: Nothing to repeat''))
      else if list_all (\<lambda>c. \<not> syntax_character c) key
      then Inr (replace_all (''{'' @ key @ ''}''))
      else RegExp rt (''{'' @ key @ ''}''))"

section \<open>Tool servers\<close>

definition auth_header :: "string \<Rightarrow> (string \<times> string) list" where
  "auth_header token = (if token \<noteq> [] then [(''authorization'', ''Bearer '' @ token)] else [])"

text \<open>The \<^verbatim>\<open>.catch\<close> handler with both branches, and the \<^verbatim>\<open>if (error) throw error\<close>
  after it, as getToolServerData has them.\<close>

definition detail_catch :: "thrown \<Rightarrow> thrown + json" where
  "detail_catch err =
     (case detail_in err of
        Inl e \<Rightarrow> Inl (ThrownError e)
      | Inr True \<Rightarrow>
          (case err of
             ThrownValue v \<Rightarrow>
               (case getProp v ''detail'' of
                  Some d \<Rightarrow> if truthy d then Inl (ThrownValue d) else Inr JNull
                | None \<Rightarrow> Inr JNull)
           | ThrownError e \<Rightarrow> Inr JNull)
      | Inr False \<Rightarrow> if thrown_truthy err then Inl err else Inr JNull)"

record tool_server_data =
  openapi :: json
  info :: "json option"
  specs :: json

definition getToolServerData_request :: "string \<Rightarrow> string \<Rightarrow> request" where
  "getToolServerData_request token url =
     \<lparr>req_url = url,
      req_method = ''GET'',
      req_headers = [(''Accept'', ''application/json''),
                     (''Content-Type'', ''application/json'')] @ auth_header token,
      req_body = None\<rparr>"

definition getToolServerData :: "runtime \<Rightarrow> string \<Rightarrow> string \<Rightarrow> thrown + tool_server_data" where
  "getToolServerData rt token url =
     (case (case (case fetch rt (getToolServerData_request token url) of
                    Rejected e \<Rightarrow> Inl (ThrownError e)
                  | Resolved res \<Rightarrow>
                      if endsWith (toLowerCase url) ''.yaml'' \<or> endsWith (toLowerCase url) ''.yml''
                      then (if \<not> res_ok res
                            then (case res_text res of
                                    Inl e \<Rightarrow> Inl (ThrownError e)
                                  | Inr t \<Rightarrow> Inl (ThrownValue (JStr t)))
                            else (case res_text res of
                                    Inl e \<Rightarrow> Inl (ThrownError e)
                                  | Inr t \<Rightarrow>
                                      (case YAML_parse rt t of
                                         Inl e \<Rightarrow> Inl (ThrownError e)
                                       | Inr v \<Rightarrow> Inr v)))
                      else (if \<not> res_ok res
                            then (case res_json rt res of
                                    Inl e \<Rightarrow> Inl (ThrownError e)
                                  | Inr v \<Rightarrow> Inl (ThrownValue v))
                            else (case res_json rt res of
                                    Inl e \<Rightarrow> Inl (ThrownError e)
                                  | Inr v \<Rightarrow> Inr v))) of
              Inl err \<Rightarrow> detail_catch err
            | Inr v \<Rightarrow> Inr v) of
        Inl error \<Rightarrow> Inl error
      | Inr res \<Rightarrow>
          if res = JNull
          then Inl (ThrownError (JsError ''TypeError''
                      ''Cannot read properties of null (reading 'info')''))
          else (case convertOpenApiToToolPayload rt res of
                  Inl e \<Rightarrow> Inl (ThrownError e)
                | Inr sp \<Rightarrow> Inr \<lparr>openapi = res, info = getProp res ''info'', specs = sp\<rparr>))"

text \<open>
  \<^verbatim>\<open>Object.entries(v)\<close> of a JSON value: a TypeError for \<^verbatim>\<open>undefined\<close> and \<^verbatim>\<open>null\<close>,
  the indexed elements of an array or characters of a string, nothing for a number or a
  boolean. (The entries of a string are one-character strings, which have no
  \<^verbatim>\<open>operationId\<close>; how many there are has no effect.)
\<close>

definition Object_entries_of :: "json option \<Rightarrow> js_error + (string \<times> json) list" where
  "Object_entries_of v =
     (case v of
        None \<Rightarrow> Inl (type_error ''Cannot convert undefined or null to object'')
      | Some JNull \<Rightarrow> Inl (type_error ''Cannot convert undefined or null to object'')
      | Some (JObj kvs) \<Rightarrow> Inr (Object_entries kvs)
      | Some (JArr xs) \<Rightarrow> Inr (zip (map string_of_nat [0..<length xs]) xs)
      | Some (JStr s) \<Rightarrow> Inr (zip (map string_of_nat [0..<length s]) (map (\<lambda>c. JStr [c]) s))
      | Some _ \<Rightarrow> Inr [])"

text \<open>\<^verbatim>\<open>.some(([__, operation]) => operation.operationId === name)\<close>\<close>

fun some_operation :: "string \<Rightarrow> (string \<times> json) list \<Rightarrow> js_error + bool" where
  "some_operation name [] = Inr False"
| "some_operation name ((k, operation) # rest) =
     (if operation = JNull
      then Inl (type_error ''Cannot read properties of null (reading 'operationId')'')
      else if getProp operation ''operationId'' = Some (JStr name) then Inr True
      else some_operation name rest)"

text \<open>\<^verbatim>\<open>Object.entries(serverData.openapi.paths).find(\<dots>)\<close>\<close>

fun find_route :: "string \<Rightarrow> (string \<times> json) list \<Rightarrow> js_error + (string \<times> json) option" where
  "find_route name [] = Inr None"
| "find_route name ((routePath, methods) # rest) =
     (case Object_entries_of (Some methods) of
        Inl e \<Rightarrow> Inl e
      | Inr ms \<Rightarrow>
          (case some_operation name ms of
             Inl e \<Rightarrow> Inl e
           | Inr True \<Rightarrow> Inr (Some (routePath, methods))
           | Inr False \<Rightarrow> find_route name rest))"

text \<open>\<^verbatim>\<open>Object.entries(methods).find(([_, operation]) => operation.operationId === name)\<close>\<close>

fun find_method :: "string \<Rightarrow> (string \<times> json) list \<Rightarrow> js_error + (string \<times> json) option" where
  "find_method name [] = Inr None"
| "find_method name ((httpMethod, operation) # rest) =
     (if operation = JNull
      then Inl (type_error ''Cannot read properties of null (reading 'operationId')'')
      else if getProp operation ''operationId'' = Some (JStr name)
      then Inr (Some (httpMethod, operation))
      else find_method name rest)"

text \<open>The route, the method and the operation of an operation name: the lines of
  executeToolServer from \<^verbatim>\<open>matchingRoute\<close> to \<^verbatim>\<open>methodEntry\<close>.\<close>

definition resolve_operation ::
  "string \<Rightarrow> tool_server_data \<Rightarrow> js_error + (string \<times> string \<times> json)" where
  "resolve_operation name serverData =
     (if openapi serverData = JNull
      then Inl (type_error ''Cannot read properties of null (reading 'paths')'')
      else
       (case Object_entries_of (getProp (openapi serverData) ''paths'') of
          Inl e \<Rightarrow> Inl e
        | Inr paths \<Rightarrow>
            (case find_route name paths of
               Inl e \<Rightarrow> Inl e
             | Inr None \<Rightarrow>
                 Inl (JsError ''Error'' (''No matching route found for operationId: '' @ name))
             | Inr (Some (routePath, methods)) \<Rightarrow>
                 (case Object_entries_of (Some methods) of
                    Inl e \<Rightarrow> Inl e
                  | Inr ms \<Rightarrow>
                      (case find_method name ms of
                         Inl e \<Rightarrow> Inl e
                       | Inr None \<Rightarrow>
                           Inl (JsError ''Error''
                                  (''No matching method found for operationId: '' @ name))
                       | Inr (Some (httpMethod, operation)) \<Rightarrow>
                           Inr (routePath, httpMethod, operation))))))"

text \<open>
  The \<^verbatim>\<open>forEach\<close> over \<^verbatim>\<open>operation.parameters\<close>, filling \<^verbatim>\<open>pathParams\<close> and
  \<^verbatim>\<open>queryParams\<close>. \<^verbatim>\<open>params\<close> is \<open>None\<close> when the caller passed \<^verbatim>\<open>undefined\<close>; an
  argument named \<^verbatim>\<open>hasOwnProperty\<close> hides the method of that name. The name of a
  parameter is used as a property key, whatever value it is.
\<close>

fun collect_params ::
  "(rat \<Rightarrow> string) \<Rightarrow> (string \<times> json) list option \<Rightarrow> json list \<Rightarrow>
   plain_object \<times> plain_object \<Rightarrow> js_error + (plain_object \<times> plain_object)" where
  "collect_params nts params [] acc = Inr acc"
| "collect_params nts params (param # rest) (pathParams, queryParams) =
     (if param = JNull
      then Inl (type_error ''Cannot read properties of null (reading 'name')'')
      else
       (let paramIn = getProp param ''in''
        in case params of
             None \<Rightarrow>
               Inl (type_error ''Cannot read properties of undefined (reading 'hasOwnProperty')'')
           | Some args \<Rightarrow>
               if map_of args ''hasOwnProperty'' \<noteq> None
               then Inl (type_error ''params.hasOwnProperty is not a function'')
               else
                (case property_key nts (getProp param ''name'') of
                   Inl e \<Rightarrow> Inl e
                 | Inr paramName \<Rightarrow>
                     (case map_of args paramName of
                        Some v \<Rightarrow>
                          if paramIn = Some (JStr ''path'')
                          then collect_params nts params rest
                                 (assign pathParams paramName v, queryParams)
                          else if paramIn = Some (JStr ''query'')
                          then collect_params nts params rest
                                 (pathParams, assign queryParams paramName v)
                          else collect_params nts params rest (pathParams, queryParams)
                      | None \<Rightarrow> collect_params nts params rest (pathParams, queryParams)))))"

text \<open>The own properties of \<^verbatim>\<open>pathParams\<close> and \<^verbatim>\<open>queryParams\<close> after the loop.\<close>

definition operation_params ::
  "runtime \<Rightarrow> (string \<times> json) list option \<Rightarrow> json \<Rightarrow>
   js_error + ((string \<times> json) list \<times> (string \<times> json) list)" where
  "operation_params rt params operation =
     (case getProp operation ''parameters'' of
        None \<Rightarrow> Inr ([], [])
      | Some ps \<Rightarrow>
          if truthy ps
          then (case ps of
                  JArr xs \<Rightarrow>
                    (case collect_params (Number_toString rt) params xs
                            (empty_object, empty_object) of
                       Inl e \<Rightarrow> Inl e
                     | Inr (pathParams, queryParams) \<Rightarrow> Inr (fst pathParams, fst queryParams))
                | _ \<Rightarrow> Inl (type_error ''operation.parameters.forEach is not a function''))
          else Inr ([], []))"

text \<open>
  The \<^verbatim>\<open>forEach\<close> over \<^verbatim>\<open>Object.entries(pathParams)\<close>, each turn
  \<^verbatim>\<open>finalUrl = finalUrl.replace(new RegExp(`{${key}}`, 'g'), encodeURIComponent(value))\<close>:
  the pattern is made first, then the value is turned into a string and encoded.
\<close>

fun substitute_path :: "runtime \<Rightarrow> (string \<times> json) list \<Rightarrow> string \<Rightarrow> js_error + string" where
  "substitute_path rt [] finalUrl = Inr finalUrl"
| "substitute_path rt ((key, v) # rest) finalUrl =
     (case placeholder_pattern rt key of
        Inl e \<Rightarrow> Inl e
      | Inr replace \<Rightarrow>
          (case js_String (Number_toString rt) v of
             Inl e \<Rightarrow> Inl e
           | Inr s \<Rightarrow>
               (case encodeURIComponent s of
                  Inl e \<Rightarrow> Inl e
                | Inr encoded \<Rightarrow> substitute_path rt rest (replace encoded finalUrl))))"

text \<open>\<^verbatim>\<open>Object.entries(queryParams).map(([k, v]) => [k, String(v)])\<close>\<close>

definition query_pairs ::
  "runtime \<Rightarrow> (string \<times> json) list \<Rightarrow> js_error + (string \<times> string) list" where
  "query_pairs rt queryParams =
     map_result (\<lambda>(k, v). case js_String (Number_toString rt) v of
                               Inl e \<Rightarrow> Inl e
                             | Inr s \<Rightarrow> Inr (k, s))
                (Object_entries queryParams)"

definition build_url ::
  "runtime \<Rightarrow> string \<Rightarrow> string \<Rightarrow> (string \<times> json) list \<Rightarrow> (string \<times> json) list \<Rightarrow>
   js_error + string" where
  "build_url rt url routePath pathParams queryParams =
     (case substitute_path rt (Object_entries pathParams) (url @ routePath) of
        Inl e \<Rightarrow> Inl e
      | Inr finalUrl \<Rightarrow>
          if length (map fst (Object_entries queryParams)) > 0
          then (case query_pairs rt queryParams of
                  Inl e \<Rightarrow> Inl e
                | Inr pairs \<Rightarrow> Inr (finalUrl @ ''?'' @ URLSearchParams_toString pairs))
          else Inr finalUrl)"

text \<open>\<^verbatim>\<open>operation.requestBody && operation.requestBody.content\<close>, as a condition.\<close>

definition has_body_content :: "json \<Rightarrow> bool" where
  "has_body_content operation =
     (case getProp operation ''requestBody'' of
        None \<Rightarrow> False
      | Some rb \<Rightarrow>
          truthy rb \<and> (case getProp rb ''content'' of None \<Rightarrow> False | Some c \<Rightarrow> truthy c))"

definition has_requestBody :: "json \<Rightarrow> bool" where
  "has_requestBody operation =
     (case getProp operation ''requestBody'' of None \<Rightarrow> False | Some rb \<Rightarrow> truthy rb)"

text \<open>Everything executeToolServer does before it calls \<^verbatim>\<open>fetch\<close>: the request, or the
  error thrown on the way.\<close>

definition executeToolServer_request ::
  "runtime \<Rightarrow> string \<Rightarrow> string \<Rightarrow> string \<Rightarrow> (string \<times> json) list option \<Rightarrow>
   tool_server_data \<Rightarrow> js_error + request" where
  "executeToolServer_request rt token url name params serverData =
     (case resolve_operation name serverData of
        Inl e \<Rightarrow> Inl e
      | Inr (routePath, httpMethod, operation) \<Rightarrow>
          (case operation_params rt params operation of
             Inl e \<Rightarrow> Inl e
           | Inr (pathParams, queryParams) \<Rightarrow>
               (case build_url rt url routePath pathParams queryParams of
                  Inl e \<Rightarrow> Inl e
                | Inr finalUrl \<Rightarrow>
                    (case (if has_body_content operation
                           then (case params of
                                   Some args \<Rightarrow> Inr (JObj args)
                                 | None \<Rightarrow>
                                     Inl (JsError ''Error''
                                            (''Request body expected for operation '' @ [CHR 0x27]
                                             @ name @ [CHR 0x27] @ '' but none found.'')))
                           else Inr (JObj [])) of
                       Inl e \<Rightarrow> Inl e
                     | Inr bodyParams \<Rightarrow>
                         Inr \<lparr>req_url = finalUrl,
                              req_method = toUpperCase httpMethod,
                              req_headers = [(''Content-Type'', ''application/json'')]
                                            @ auth_header token,
                              req_body =
                                (if toLowerCase httpMethod \<in> set [''post'', ''put'', ''patch'']
                                    \<and> has_requestBody operation
                                 then Some bodyParams else None)\<rparr>))))"

text \<open>The body of the \<^verbatim>\<open>try\<close> block.\<close>

definition executeToolServer_try ::
  "runtime \<Rightarrow> string \<Rightarrow> string \<Rightarrow> string \<Rightarrow> (string \<times> json) list option \<Rightarrow>
   tool_server_data \<Rightarrow> js_error + json" where
  "executeToolServer_try rt token url name params serverData =
     (case executeToolServer_request rt token url name params serverData of
        Inl e \<Rightarrow> Inl e
      | Inr req \<Rightarrow>
          (case fetch rt req of
             Rejected e \<Rightarrow> Inl e
           | Resolved res \<Rightarrow>
               if \<not> res_ok res
               then (case res_text res of
                       Inl e \<Rightarrow> Inl e
                     | Inr resText \<Rightarrow>
                         Inl (JsError ''Error''
                                (''HTTP error! Status: '' @ string_of_nat (res_status res)
                                 @ ''. Message: '' @ resText)))
               else res_json rt res))"

text \<open>The \<^verbatim>\<open>catch\<close> returns \<^verbatim>\<open>{ error: err.message }\<close>. The result is a sum like that of
  the other functions; \<open>Inl\<close> would be a value thrown to the caller.\<close>

definition executeToolServer ::
  "runtime \<Rightarrow> string \<Rightarrow> string \<Rightarrow> string \<Rightarrow> (string \<times> json) list option \<Rightarrow>
   tool_server_data \<Rightarrow> thrown + json" where
  "executeToolServer rt token url name params serverData =
     (case executeToolServer_try rt token url name params serverData of
        Inl err \<Rightarrow> Inr (JObj [(''error'', JStr (message err))])
      | Inr v \<Rightarrow> Inr v)"

section \<open>The model catalog\<close>

definition getModels_request :: "runtime \<Rightarrow> string \<Rightarrow> bool \<Rightarrow> request" where
  "getModels_request rt token base =
     \<lparr>req_url = WEBUI_BASE_URL rt @ ''/api/models'' @ (if base then ''/base'' else []),
      req_method = ''GET'',
      req_headers = [(''Accept'', ''application/json''),
                     (''Content-Type'', ''application/json'')] @ auth_header token,
      req_body = None\<rparr>"

text \<open>\<^verbatim>\<open>v?.data ?? []\<close>, of the base answer and of the answer of a connection.\<close>

definition data_of :: "json \<Rightarrow> json" where
  "data_of v =
     (if v = JNull then JArr []
      else (case getProp v ''data'' of
              None \<Rightarrow> JArr []
            | Some d \<Rightarrow> if d = JNull then JArr [] else d))"

text \<open>
  One turn of the loop \<^verbatim>\<open>for (const idx in OPENAI_API_BASE_URLS)\<close>: what is pushed on
  \<^verbatim>\<open>requests\<close> for the index. \<open>None\<close>: nothing is pushed. \<open>Some None\<close>: the pushed promise
  never settles. \<open>Some (Some v)\<close>: it resolves with \<open>v\<close>. No pushed promise rejects: the two
  constant ones cannot, and the call of getOpenAIModelsDirect carries its own
  \<^verbatim>\<open>.catch\<close>. The loop variable is the index as a string, and so is the \<^verbatim>\<open>urlIdx\<close> it is
  stored in. A promise that resolves with \<^verbatim>\<open>undefined\<close> reads like one that resolves
  with \<^verbatim>\<open>null\<close>.
\<close>

definition connection_request :: "runtime \<Rightarrow> connections \<Rightarrow> nat \<Rightarrow> json option option" where
  "connection_request rt c idx =
     (let url = OPENAI_API_BASE_URLS c ! idx
      in case OPENAI_API_CONFIGS c idx of
           None \<Rightarrow> None
         | Some apiConfig \<Rightarrow>
             (let enable' = (case enable apiConfig of None \<Rightarrow> True | Some b \<Rightarrow> b);
                  modelIds = (case model_ids apiConfig of None \<Rightarrow> [] | Some ms \<Rightarrow> ms)
              in if enable'
                 then (if length modelIds > 0
                       then Some (Some (JObj
                              [(''object'', JStr ''list''),
                               (''data'',
                                  JArr (map (\<lambda>modelId.
                                               JObj [(''id'', JStr modelId),
                                                     (''name'', JStr modelId),
                                                     (''owned_by'', JStr ''openai''),
                                                     (''openai'', JObj [(''id'', JStr modelId)]),
                                                     (''urlIdx'', JStr (string_of_nat idx))])
                                            modelIds))]))
                       else Some
                              (case getOpenAIModelsDirect rt url
                                      (if idx < length (OPENAI_API_KEYS c)
                                       then Some (OPENAI_API_KEYS c ! idx) else None) of
                                 None \<Rightarrow> None
                               | Some (Inr res) \<Rightarrow> Some res
                               | Some (Inl err) \<Rightarrow>
                                   Some (JObj [(''object'', JStr ''list''),
                                               (''data'', JArr []),
                                               (''urlIdx'', JStr (string_of_nat idx))])))
                 else Some (Some (JObj [(''object'', JStr ''list''),
                                        (''data'', JArr []),
                                        (''urlIdx'', JStr (string_of_nat idx))]))))"

text \<open>
  \<^verbatim>\<open>await Promise.all(requests)\<close>: the values the pushed promises resolve with, in the
  order of the indices, once all of them have settled; \<open>None\<close> when one never does.
\<close>

definition connection_responses :: "runtime \<Rightarrow> connections \<Rightarrow> json list option" where
  "connection_responses rt c =
     (let requests = List.map_filter (connection_request rt c)
                       [0..<length (OPENAI_API_BASE_URLS c)]
      in if list_all (\<lambda>r. r \<noteq> None) requests then Some (map the requests) else None)"

definition empty_config :: apiConfig where
  "empty_config = \<lparr>enable = None, model_ids = None, prefix_id = None, tags = None\<rparr>"

text \<open>
  \<^verbatim>\<open>{ ...v }\<close>: the own properties of an object in the order \<^verbatim>\<open>Object.entries\<close> lists
  them, the elements of an array and the units of a string under their indices, and
  nothing of any other value.
\<close>

definition spread :: "json \<Rightarrow> (string \<times> json) list" where
  "spread v =
     (case v of
        JObj kvs \<Rightarrow> Object_entries kvs
      | JArr xs \<Rightarrow> zip (map string_of_nat [0..<length xs]) xs
      | JStr s \<Rightarrow> zip (map string_of_nat [0..<length (code_units s)]) (map JStr (code_units s))
      | _ \<Rightarrow> [])"

text \<open>
  \<^verbatim>\<open>(model) => ({ ...model, openai: { id: model.id }, urlIdx: idx })\<close>, the result by its
  properties. Reading \<^verbatim>\<open>id\<close> of \<^verbatim>\<open>null\<close> is a TypeError.
\<close>

definition indexed_model :: "nat \<Rightarrow> json \<Rightarrow> js_error + (string \<times> json) list" where
  "indexed_model idx model =
     (if model = JNull
      then Inl (type_error ''Cannot read properties of null (reading 'id')'')
      else Inr (obj_set
                  (obj_set (spread model) ''openai''
                     (JObj (case getProp model ''id'' of None \<Rightarrow> [] | Some i \<Rightarrow> [(''id'', i)])))
                  ''urlIdx'' (JStr (string_of_nat idx))))"

text \<open>\<^verbatim>\<open>`${v}`\<close> of a value that may be \<^verbatim>\<open>undefined\<close>.\<close>

definition interpolate :: "(rat \<Rightarrow> string) \<Rightarrow> json option \<Rightarrow> js_error + string" where
  "interpolate nts v = (case v of None \<Rightarrow> Inr ''undefined'' | Some x \<Rightarrow> js_String nts x)"

text \<open>\<^verbatim>\<open>model.id = `${prefixId}.${model.id}`\<close>\<close>

definition prefixed :: "(rat \<Rightarrow> string) \<Rightarrow> string \<Rightarrow> (string \<times> json) list \<Rightarrow>
    js_error + (string \<times> json) list" where
  "prefixed nts prefixId model =
     (case interpolate nts (map_of model ''id'') of
        Inl e \<Rightarrow> Inl e
      | Inr i \<Rightarrow> Inr (obj_set model ''id'' (JStr (prefixId @ ''.'' @ i))))"

text \<open>
  One turn of the loop \<^verbatim>\<open>for (const idx in responses)\<close>, up to the \<^verbatim>\<open>concat\<close>: the models
  of the response at position \<open>idx\<close>, each by its properties. Only an array has the
  \<^verbatim>\<open>map\<close> that is called on \<^verbatim>\<open>models\<close>.
\<close>

definition response_models ::
  "runtime \<Rightarrow> connections \<Rightarrow> nat \<Rightarrow> json \<Rightarrow> js_error + (string \<times> json) list list" where
  "response_models rt c idx response =
     (let apiConfig = (case OPENAI_API_CONFIGS c idx of None \<Rightarrow> empty_config | Some a \<Rightarrow> a)
      in case (if isArray response then response else data_of response) of
           JArr xs \<Rightarrow>
             (case map_result (indexed_model idx) xs of
                Inl e \<Rightarrow> Inl e
              | Inr models \<Rightarrow>
                  (case (case prefix_id apiConfig of
                           None \<Rightarrow> Inr models
                         | Some prefixId \<Rightarrow>
                             if prefixId \<noteq> []
                             then map_result (prefixed (Number_toString rt) prefixId) models
                             else Inr models) of
                     Inl e \<Rightarrow> Inl e
                   | Inr models \<Rightarrow>
                       (case tags apiConfig of
                          None \<Rightarrow> Inr models
                        | Some t \<Rightarrow>
                            if truthy t
                            then Inr (map (\<lambda>model. obj_set model ''tags'' t) models)
                            else Inr models)))
         | _ \<Rightarrow> Inl (type_error ''models.map is not a function''))"

text \<open>The whole loop: \<^verbatim>\<open>localModels\<close> after it, or the TypeError that ended it.\<close>

definition localModels ::
  "runtime \<Rightarrow> connections \<Rightarrow> json list \<Rightarrow> js_error + (string \<times> json) list list" where
  "localModels rt c responses =
     (case map_result (\<lambda>(idx, response). response_models rt c idx response)
             (zip [0..<length responses] responses) of
        Inl e \<Rightarrow> Inl e
      | Inr ms \<Rightarrow> Inr (concat ms))"

text \<open>
  \<^verbatim>\<open>(model) => ({ ...model, name: model?.name ?? model?.id, direct: true })\<close>. A
  \<^verbatim>\<open>name\<close> that comes out \<^verbatim>\<open>undefined\<close> leaves the object without a name.
\<close>

definition mark_direct :: "(string \<times> json) list \<Rightarrow> json" where
  "mark_direct model =
     (let name = (case map_of model ''name'' of
                    None \<Rightarrow> map_of model ''id''
                  | Some n \<Rightarrow> if n = JNull then map_of model ''id'' else Some n);
          copy = Object_entries model
      in JObj (obj_set
                 (case name of
                    None \<Rightarrow> filter (\<lambda>(k, v). k \<noteq> ''name'') copy
                  | Some n \<Rightarrow> obj_set copy ''name'' n)
                 ''direct'' (JBool True)))"

text \<open>
  \<^verbatim>\<open>models.concat(localModels.map(\<dots>))\<close>, where \<^verbatim>\<open>models\<close> is what \<^verbatim>\<open>res?.data ?? []\<close>
  gave: an array is extended; a string has a \<^verbatim>\<open>concat\<close> of its own, which appends the
  array as a string; no other value has a \<^verbatim>\<open>concat\<close> that can be called.
\<close>

definition models_concat :: "(rat \<Rightarrow> string) \<Rightarrow> json \<Rightarrow> json list \<Rightarrow> js_error + json" where
  "models_concat nts models added =
     (case models of
        JArr xs \<Rightarrow> Inr (JArr (xs @ added))
      | JStr s \<Rightarrow>
          (case js_String nts (JArr added) of Inl e \<Rightarrow> Inl e | Inr t \<Rightarrow> Inr (JStr (s @ t)))
      | _ \<Rightarrow> Inl (type_error ''models.concat is not a function''))"

text \<open>What \<^verbatim>\<open>for (const model of models)\<close> goes through: the elements of an array, the
  code points of a string.\<close>

definition iterate :: "json \<Rightarrow> json list" where
  "iterate v = (case v of JArr xs \<Rightarrow> xs | JStr s \<Rightarrow> map JStr (code_points s) | _ \<Rightarrow> [])"

text \<open>The loop \<^verbatim>\<open>for (const model of models) modelsMap[model.id] = model\<close>.\<close>

fun fill_map :: "(rat \<Rightarrow> string) \<Rightarrow> json list \<Rightarrow> plain_object \<Rightarrow> js_error + plain_object" where
  "fill_map nts [] modelsMap = Inr modelsMap"
| "fill_map nts (model # rest) modelsMap =
     (if model = JNull
      then Inl (type_error ''Cannot read properties of null (reading 'id')'')
      else (case property_key nts (getProp model ''id'') of
              Inl e \<Rightarrow> Inl e
            | Inr key \<Rightarrow> fill_map nts rest (assign modelsMap key model)))"

text \<open>The lines from \<^verbatim>\<open>models = models.concat(\<dots>)\<close> to \<^verbatim>\<open>Object.values(modelsMap)\<close>.\<close>

definition merge_models ::
  "runtime \<Rightarrow> json \<Rightarrow> (string \<times> json) list list \<Rightarrow> js_error + json" where
  "merge_models rt models local =
     (case models_concat (Number_toString rt) models (map mark_direct local) of
        Inl e \<Rightarrow> Inl e
      | Inr merged \<Rightarrow>
          (case fill_map (Number_toString rt) (iterate merged) empty_object of
             Inl e \<Rightarrow> Inl e
           | Inr modelsMap \<Rightarrow> Inr (JArr (Object_values (fst modelsMap)))))"

text \<open>
  getModels. \<open>None\<close>: the function never returns, which happens when a request it waits
  for never settles. \<open>Some (Inl e)\<close>: it throws \<open>e\<close>. \<open>Some (Inr v)\<close>: it returns \<open>v\<close>.
\<close>

definition getModels ::
  "runtime \<Rightarrow> string \<Rightarrow> connections option \<Rightarrow> bool \<Rightarrow> (thrown + json) option" where
  "getModels rt token conns base =
     (case (case fetch_json rt (getModels_request rt token base) of
              Inl err \<Rightarrow> if thrown_truthy err then Inl err else Inr JNull
            | Inr v \<Rightarrow> Inr v) of
        Inl error \<Rightarrow> Some (Inl error)
      | Inr res \<Rightarrow>
          (let models = data_of res
           in case conns of
                None \<Rightarrow> Some (Inr models)
              | Some c \<Rightarrow>
                  if \<not> base
                  then (case connection_responses rt c of
                          None \<Rightarrow> None
                        | Some responses \<Rightarrow>
                            (case localModels rt c responses of
                               Inl e \<Rightarrow> Some (Inl (ThrownError e))
                             | Inr local \<Rightarrow>
                                 (case merge_models rt models local of
                                    Inl e \<Rightarrow> Some (Inl (ThrownError e))
                                  | Inr merged \<Rightarrow> Some (Inr merged))))
                  else Some (Inr models)))"

section \<open>A JSON reader and a runtime for concrete runs\<close>

text \<open>
  The functions above take \<^verbatim>\<open>JSON.parse\<close> from the runtime, and what is proved of them
  in general holds for every parser. To run them on concrete texts the runtime needs
  one: \<open>json_parse\<close> reads the JSON grammar (objects, arrays, strings with their escapes,
  numbers, the three literals, the four whitespace characters) and answers with the
  value or with a SyntaxError. A number is read as the exact rational its digits denote.
  A repeated key keeps its first position and its last value. The recursion over nested
  values is bounded by a counter, which starts above twice the length of the text.
\<close>

definition is_ws :: "char \<Rightarrow> bool" where
  "is_ws c = (c = CHR 0x20 \<or> c = CHR 0x09 \<or> c = CHR 0x0A \<or> c = CHR 0x0D)"

definition skip_ws :: "string \<Rightarrow> string" where
  "skip_ws cs = dropWhile is_ws cs"

definition hex_val :: "char \<Rightarrow> nat option" where
  "hex_val c =
     (let n = (of_char c :: nat)
      in if 48 \<le> n \<and> n \<le> 57 then Some (n - 48)
         else if 65 \<le> n \<and> n \<le> 70 then Some (n - 55)
         else if 97 \<le> n \<and> n \<le> 102 then Some (n - 87)
         else None)"

text \<open>The value of the four hexadecimal digits a string starts with.\<close>

definition hex4 :: "string \<Rightarrow> nat option" where
  "hex4 cs =
     (case map hex_val (take 4 cs) of
        [Some a, Some b, Some c, Some d] \<Rightarrow> Some (((a * 16 + b) * 16 + c) * 16 + d)
      | _ \<Rightarrow> None)"

definition simple_escape :: "char \<Rightarrow> char option" where
  "simple_escape e =
     (if e = CHR 0x22 then Some (CHR 0x22)
      else if e = CHR 0x5C then Some (CHR 0x5C)
      else if e = CHR ''/'' then Some (CHR ''/'')
      else if e = CHR ''b'' then Some (CHR 0x08)
      else if e = CHR ''f'' then Some (CHR 0x0C)
      else if e = CHR ''n'' then Some (CHR 0x0A)
      else if e = CHR ''r'' then Some (CHR 0x0D)
      else if e = CHR ''t'' then Some (CHR 0x09)
      else None)"

text \<open>The low surrogate escaped at the start of a text, if there is one.\<close>

definition low_surrogate :: "string \<Rightarrow> nat option" where
  "low_surrogate cs =
     (if take 2 cs = [CHR 0x5C, CHR ''u'']
      then (case hex4 (drop 2 cs) of
              Some l \<Rightarrow> if 56320 \<le> l \<and> l < 57344 then Some l else None
            | None \<Rightarrow> None)
      else None)"

text \<open>The characters of a string after its opening quote, and the text after its
  closing quote.\<close>

function parse_string_chars :: "string \<Rightarrow> (string \<times> string) option" where
  "parse_string_chars [] = None"
| "parse_string_chars (c # cs) =
     (if c = CHR 0x22 then Some ([], cs)
      else if c = CHR 0x5C
      then (case cs of
              [] \<Rightarrow> None
            | e # es \<Rightarrow>
                if e = CHR ''u''
                then (case hex4 es of
                        None \<Rightarrow> None
                      | Some u \<Rightarrow>
                          (case (if 55296 \<le> u \<and> u < 56320 then low_surrogate (drop 4 es) else None) of
                             Some l \<Rightarrow>
                               (case parse_string_chars (drop 10 es) of
                                  None \<Rightarrow> None
                                | Some (s, r) \<Rightarrow>
                                    Some (utf8 (65536 + (u - 55296) * 1024 + (l - 56320)) @ s, r))
                           | None \<Rightarrow>
                               (case parse_string_chars (drop 4 es) of
                                  None \<Rightarrow> None
                                | Some (s, r) \<Rightarrow> Some (utf8 u @ s, r))))
                else (case simple_escape e of
                        None \<Rightarrow> None
                      | Some ch \<Rightarrow>
                          (case parse_string_chars es of
                             None \<Rightarrow> None
                           | Some (s, r) \<Rightarrow> Some (ch # s, r))))
      else if (of_char c :: nat) < 32 then None
      else (case parse_string_chars cs of
              None \<Rightarrow> None
            | Some (s, r) \<Rightarrow> Some (c # s, r)))"
  by pat_completeness auto
termination
  by (relation "measure length") auto

definition digits_rat :: "string \<Rightarrow> rat" where
  "digits_rat ds = of_int (int_of_digits ds)"

text \<open>An exponent part at the start of a text: its value and the text after it, zero and
  the text itself when there is none, \<open>None\<close> when it has no digits.\<close>

definition parse_exponent :: "string \<Rightarrow> (int \<times> string) option" where
  "parse_exponent cs =
     (case cs of
        [] \<Rightarrow> Some (0, cs)
      | c # r \<Rightarrow>
          if c = CHR ''e'' \<or> c = CHR ''E''
          then (let neg = (r \<noteq> [] \<and> hd r = CHR ''-'');
                    r' = (if r \<noteq> [] \<and> (hd r = CHR ''-'' \<or> hd r = CHR ''+'') then tl r else r);
                    ds = takeWhile is_digit r'
                in if ds = [] then None
                   else Some ((if neg then - int_of_digits ds else int_of_digits ds),
                              dropWhile is_digit r'))
          else Some (0, cs))"

definition parse_fraction :: "string \<Rightarrow> (string \<times> string) option" where
  "parse_fraction cs =
     (case cs of
        [] \<Rightarrow> Some ([], cs)
      | c # r \<Rightarrow>
          if c = CHR ''.''
          then (if takeWhile is_digit r = [] then None
                else Some (takeWhile is_digit r, dropWhile is_digit r))
          else Some ([], cs))"

definition pow10 :: "int \<Rightarrow> rat" where
  "pow10 e = (if 0 \<le> e then 10 ^ nat e else 1 / 10 ^ nat (- e))"

definition parse_number :: "string \<Rightarrow> (rat \<times> string) option" where
  "parse_number cs =
     (let neg = (cs \<noteq> [] \<and> hd cs = CHR ''-'');
          r0 = (if neg then tl cs else cs);
          ds = takeWhile is_digit r0
      in if ds = [] \<or> (length ds > 1 \<and> hd ds = CHR ''0'') then None
         else (case parse_fraction (dropWhile is_digit r0) of
                 None \<Rightarrow> None
               | Some (fs, r1) \<Rightarrow>
                   (case parse_exponent r1 of
                      None \<Rightarrow> None
                    | Some (e, r2) \<Rightarrow>
                        Some ((if neg then - 1 else 1) * digits_rat (ds @ fs)
                                * pow10 (e - int (length fs)), r2))))"

fun parse_value :: "nat \<Rightarrow> string \<Rightarrow> (json \<times> string) option"
  and parse_elements :: "nat \<Rightarrow> string \<Rightarrow> json list \<Rightarrow> (json \<times> string) option"
  and parse_members :: "nat \<Rightarrow> string \<Rightarrow> (string \<times> json) list \<Rightarrow> (json \<times> string) option"
where
  "parse_value 0 cs = None"
| "parse_value (Suc n) cs =
     (case skip_ws cs of
        [] \<Rightarrow> None
      | c # r \<Rightarrow>
          if c = CHR ''{''
          then (if take 1 (skip_ws r) = ''}'' then Some (JObj [], tl (skip_ws r))
                else parse_members n r [])
          else if c = CHR ''[''
          then (if take 1 (skip_ws r) = '']'' then Some (JArr [], tl (skip_ws r))
                else parse_elements n r [])
          else if c = CHR 0x22
          then (case parse_string_chars r of
                  None \<Rightarrow> None
                | Some (s, r') \<Rightarrow> Some (JStr s, r'))
          else if take 4 (c # r) = ''true'' then Some (JBool True, drop 4 (c # r))
          else if take 5 (c # r) = ''false'' then Some (JBool False, drop 5 (c # r))
          else if take 4 (c # r) = ''null'' then Some (JNull, drop 4 (c # r))
          else (case parse_number (c # r) of
                  None \<Rightarrow> None
                | Some (x, r') \<Rightarrow> Some (JNum x, r')))"
| "parse_elements 0 cs acc = None"
| "parse_elements (Suc n) cs acc =
     (case parse_value n cs of
        None \<Rightarrow> None
      | Some (v, r) \<Rightarrow>
          (case skip_ws r of
             [] \<Rightarrow> None
           | c # r' \<Rightarrow>
               if c = CHR '','' then parse_elements n r' (acc @ [v])
               else if c = CHR '']'' then Some (JArr (acc @ [v]), r')
               else None))"
| "parse_members 0 cs acc = None"
| "parse_members (Suc n) cs acc =
     (case skip_ws cs of
        [] \<Rightarrow> None
      | q # r \<Rightarrow>
          if q \<noteq> CHR 0x22 then None
          else (case parse_string_chars r of
                  None \<Rightarrow> None
                | Some (k, r1) \<Rightarrow>
                    (case skip_ws r1 of
                       [] \<Rightarrow> None
                     | c # r2 \<Rightarrow>
                         if c \<noteq> CHR '':'' then None
                         else (case parse_value n r2 of
                                 None \<Rightarrow> None
                               | Some (v, r3) \<Rightarrow>
                                   (case skip_ws r3 of
                                      [] \<Rightarrow> None
                                    | d # r4 \<Rightarrow>
                                        if d = CHR '','' then parse_members n r4 (obj_set acc k v)
                                        else if d = CHR ''}'' then Some (JObj (obj_set acc k v), r4)
                                        else None)))))"

definition json_parse :: "string \<Rightarrow> js_error + json" where
  "json_parse text =
     (case parse_value (2 * length text + 2) text of
        None \<Rightarrow> Inl (JsError ''SyntaxError'' ''Unexpected token in JSON'')
      | Some (v, r) \<Rightarrow>
          if skip_ws r = [] then Inr v
          else Inl (JsError ''SyntaxError'' ''Unexpected token in JSON''))"

text \<open>The decimal digits of an integer; the numbers printed in the runs below are
  integers.\<close>

definition integer_toString :: "rat \<Rightarrow> string" where
  "integer_toString r =
     (if r < 0 then ''-'' @ string_of_nat (nat (- \<lfloor>r\<rfloor>)) else string_of_nat (nat \<lfloor>r\<rfloor>))"

text \<open>
  A runtime around a given network and given model listings: \<open>json_parse\<close> for JSON and
  for YAML (every JSON text is a YAML text), no tool payload conversion, and an engine
  that accepts no pattern; it is never asked about a pattern without operators.
\<close>

definition runtime_of ::
  "(request \<Rightarrow> fetch_result) \<Rightarrow> (string \<Rightarrow> string option \<Rightarrow> (thrown + json) option)
   \<Rightarrow> runtime" where
  "runtime_of net listing =
     \<lparr>fetch = net,
      JSON_parse = json_parse,
      YAML_parse = json_parse,
      convertOpenApiToToolPayload = (\<lambda>doc. Inr (JArr [])),
      getOpenAIModelsDirect = listing,
      RegExp = (\<lambda>pattern. Inl (JsError ''SyntaxError'' ''pattern with operators'')),
      Number_toString = integer_toString,
      first_pictographic = (\<lambda>s. None),
      browser = True,
      dev = False,
      location_hostname = ''localhost''\<rparr>"

section \<open>Reading requests, and inputs for concrete runs\<close>

text \<open>The value of a header of a request; header names are compared without regard to
  case.\<close>

definition header_of :: "request \<Rightarrow> string \<Rightarrow> string option" where
  "header_of req h =
     map_of (map (\<lambda>(k, v). (toLowerCase k, v)) (req_headers req)) (toLowerCase h)"

text \<open>Networks: one that is unreachable, one that answers every request with the same
  status and body. A model listing that always fails.\<close>

definition net_down :: "request \<Rightarrow> fetch_result" where
  "net_down req = Rejected (JsError ''TypeError'' ''Failed to fetch'')"

definition net_answer :: "nat \<Rightarrow> string \<Rightarrow> request \<Rightarrow> fetch_result" where
  "net_answer st body req = Resolved \<lparr>res_status = st, res_text = Inr body\<rparr>"

definition no_listing :: "string \<Rightarrow> string option \<Rightarrow> (thrown + json) option" where
  "no_listing url key = Some (Inl (ThrownValue (JStr ''OpenAI: Network Problem'')))"

text \<open>The body of a chat completion whose message content is the given text: the text
  as a JSON string, quotes and backslashes escaped, inside the response shape
  \<^verbatim>\<open>{"choices": [{"message": {"content": ...}}]}\<close>.\<close>

definition json_quote :: "string \<Rightarrow> string" where
  "json_quote s =
     [CHR 0x22]
     @ concat (map (\<lambda>c. if c = CHR 0x22 \<or> c = CHR 0x5C then [CHR 0x5C, c] else [c]) s)
     @ [CHR 0x22]"

definition completion_body :: "string \<Rightarrow> string" where
  \<open>completion_body content =
     ''{"choices": [{"message": {"content": '' @ json_quote content @ ''}}]}''\<close>

text \<open>A tool server document with one operation, \<^verbatim>\<open>getItem\<close> at \<^verbatim>\<open>GET /items/{id}\<close>,
  with the path parameter \<^verbatim>\<open>id\<close> and the query parameter \<^verbatim>\<open>verbose\<close>.\<close>

definition item_server :: tool_server_data where
  "item_server =
     \<lparr>openapi = JObj [(''paths'',
          JObj [(''/items/{id}'',
             JObj [(''get'',
                JObj [(''operationId'', JStr ''getItem''),
                      (''parameters'',
                         JArr [JObj [(''name'', JStr ''id''), (''in'', JStr ''path'')],
                               JObj [(''name'', JStr ''verbose''), (''in'', JStr ''query'')]])])])])],
      info = None,
      specs = JArr []\<rparr>"

text \<open>The parsed body of that completion.\<close>

definition completion_of :: "string \<Rightarrow> json" where
  "completion_of content =
     JObj [(''choices'', JArr [JObj [(''message'', JObj [(''content'', JStr content)])]])]"

text \<open>
  The inclusive slice between the first opening brace and the last closing brace of a
  text, absent when either brace is.
\<close>

definition brace_slice :: "string \<Rightarrow> string option" where
  "brace_slice s =
     (if CHR ''{'' \<in> set s \<and> CHR ''}'' \<in> set s
      then Some (substring s (indexOf s CHR ''{'') (lastIndexOf s CHR ''}'' + 1))
      else None)"

text \<open>
  A text with its double quotes written, in turn, as the quote variants given: with
  U+2018, U+2019, two backticks and two apostrophes, \<^verbatim>\<open>{"tags": ["a", "b"]}\<close> is the text
  that opens with a brace, the typographic quotes around \<^verbatim>\<open>tags\<close>, and goes on with
  \<^verbatim>\<open>: [`a`, 'b']}\<close>.
\<close>

fun stylize :: "string list \<Rightarrow> string \<Rightarrow> string" where
  "stylize qs [] = []"
| "stylize qs (c # cs) =
     (if c = CHR 0x22
      then (case qs of [] \<Rightarrow> c # stylize [] cs | q # qs' \<Rightarrow> q @ stylize qs' cs)
      else c # stylize qs cs)"

definition stylized :: "string \<Rightarrow> string" where
  "stylized text =
     stylize ([CHR 0xE2, CHR 0x80, CHR 0x98] # [CHR 0xE2, CHR 0x80, CHR 0x99]
              # [CHR 0x60] # [CHR 0x60] # [CHR 0x27] # [CHR 0x27] # []) text"

text \<open>
  The connection indices that have a configuration entry, in ascending order: the
  index each response of \<^verbatim>\<open>responses\<close> was requested for, position by position.
\<close>

definition configured_indices :: "connections \<Rightarrow> nat list" where
  "configured_indices c =
     filter (\<lambda>i. OPENAI_API_CONFIGS c i \<noteq> None) [0..<length (OPENAI_API_BASE_URLS c)]"

text \<open>A listing given as a table from URLs to answers, failing for every other URL,
  and a listing that never settles.\<close>

definition listing_of ::
  "(string \<times> json) list \<Rightarrow> string \<Rightarrow> string option \<Rightarrow> (thrown + json) option" where
  "listing_of table url key =
     (case map_of table url of
        Some r \<Rightarrow> Some (Inr r)
      | None \<Rightarrow> Some (Inl (ThrownValue (JStr ''OpenAI: Network Problem''))))"

definition silent_listing :: "string \<Rightarrow> string option \<Rightarrow> (thrown + json) option" where
  "silent_listing url key = None"

text \<open>The answer of a provider that lists one model.\<close>

definition listed :: "string \<Rightarrow> json" where
  "listed i =
     JObj [(''object'', JStr ''list''),
           (''data'', JArr [JObj [(''id'', JStr i), (''owned_by'', JStr ''openai'')]])]"

text \<open>No connection at all; and one connection that declares the model id \<^verbatim>\<open>gpt\<close>,
  under the prefix \<^verbatim>\<open>local\<close> and with a tag.\<close>

definition no_connections :: connections where
  "no_connections =
     \<lparr>OPENAI_API_BASE_URLS = [], OPENAI_API_KEYS = [], OPENAI_API_CONFIGS = Map.empty\<rparr>"

definition declaring :: connections where
  "declaring =
     \<lparr>OPENAI_API_BASE_URLS = [''http://a''],
      OPENAI_API_KEYS = [''ka''],
      OPENAI_API_CONFIGS =
        [0 \<mapsto> \<lparr>enable = Some True, model_ids = Some [''gpt''], prefix_id = Some ''local'',
                 tags = Some (JArr [JStr ''fast''])\<rparr>]\<rparr>"

text \<open>Two connections that list their models over the network, the second under the
  prefix \<^verbatim>\<open>local\<close>.\<close>

definition listing_two :: connections where
  "listing_two =
     \<lparr>OPENAI_API_BASE_URLS = [''http://a'', ''http://b''],
      OPENAI_API_KEYS = [''ka'', ''kb''],
      OPENAI_API_CONFIGS =
        [0 \<mapsto> empty_config,
         1 \<mapsto> \<lparr>enable = None, model_ids = None, prefix_id = Some ''local'', tags = None\<rparr>]\<rparr>"

text \<open>Two connections of which only the first has a configuration entry, and three of
  which only the second and the third have one; every entry has a prefix and a tag of
  its own.\<close>

definition first_configured :: connections where
  "first_configured =
     \<lparr>OPENAI_API_BASE_URLS = [''http://a'', ''http://b''],
      OPENAI_API_KEYS = [''ka'', ''kb''],
      OPENAI_API_CONFIGS =
        [0 \<mapsto> \<lparr>enable = None, model_ids = None, prefix_id = Some ''p0'',
                 tags = Some (JArr [JStr ''t0''])\<rparr>]\<rparr>"

definition later_configured :: connections where
  "later_configured =
     \<lparr>OPENAI_API_BASE_URLS = [''http://a'', ''http://b'', ''http://c''],
      OPENAI_API_KEYS = [''ka'', ''kb'', ''kc''],
      OPENAI_API_CONFIGS =
        [1 \<mapsto> \<lparr>enable = None, model_ids = None, prefix_id = Some ''p1'',
                 tags = Some (JArr [JStr ''t1''])\<rparr>,
         2 \<mapsto> \<lparr>enable = None, model_ids = None, prefix_id = Some ''p2'',
                 tags = Some (JArr [JStr ''t2''])\<rparr>]\<rparr>"

text \<open>A tool server document whose path parameter is named \<^verbatim>\<open>1\<close>.\<close>

definition numbered_server :: tool_server_data where
  "numbered_server =
     \<lparr>openapi = JObj [(''paths'',
          JObj [(''/items/{1}'',
             JObj [(''get'',
                JObj [(''operationId'', JStr ''getItem''),
                      (''parameters'',
                         JArr [JObj [(''name'', JStr ''1''), (''in'', JStr ''path'')]])])])])],
      info = None,
      specs = JArr []\<rparr>"

section \<open>Tool invocation never throws\<close>

lemma some_operation_none:
  "\<forall>(m, operation) \<in> set ms.
      operation \<noteq> JNull \<and> getProp operation ''operationId'' \<noteq> Some (JStr name)
   \<Longrightarrow> some_operation name ms = Inr False"
  by (induction ms) auto

lemma find_route_none:
  "\<forall>(routePath, methods) \<in> set paths.
      \<exists>ms. Object_entries_of (Some methods) = Inr ms
         \<and> (\<forall>(m, operation) \<in> set ms.
               operation \<noteq> JNull \<and> getProp operation ''operationId'' \<noteq> Some (JStr name))
   \<Longrightarrow> find_route name paths = Inr None"
proof (induction paths)
  case Nil
  then show ?case by simp
next
  case (Cons p paths)
  obtain routePath methods where p: "p = (routePath, methods)" by (cases p)
  from Cons.prems p obtain ms where
    ms: "Object_entries_of (Some methods) = Inr ms"
    and no: "\<forall>(m, operation) \<in> set ms.
               operation \<noteq> JNull \<and> getProp operation ''operationId'' \<noteq> Some (JStr name)"
    by auto
  have rest: "find_route name paths = Inr None"
    using Cons.IH Cons.prems by simp
  show ?case
    using ms some_operation_none[OF no] rest by (simp add: p)
qed

text \<open>
  C2. executeToolServer never throws: its result is always a returned value. When no
  operation in the paths of the document has the operation name as its
  \<^verbatim>\<open>operationId\<close> (the path items being objects of non-null entries), the returned value
  is \<^verbatim>\<open>{error: "No matching route found for operationId: <name>"}\<close>. Whatever error the
  \<^verbatim>\<open>try\<close> block ends with is returned as \<^verbatim>\<open>{error: message}\<close>; in particular a response
  outside 200-299 gives the message with the status and the body text, a rejected
  \<^verbatim>\<open>fetch\<close> gives the message of the rejection, and a body that cannot be read as JSON
  gives the message of the parse error.
\<close>

theorem executeToolServer_returns_errors:
  "(\<exists>v. executeToolServer rt token url name params serverData = Inr v)
   \<and> (openapi serverData \<noteq> JNull
        \<longrightarrow> Object_entries_of (getProp (openapi serverData) ''paths'') = Inr paths
        \<longrightarrow> (\<forall>(routePath, methods) \<in> set paths.
              \<exists>ms. Object_entries_of (Some methods) = Inr ms
                 \<and> (\<forall>(m, operation) \<in> set ms.
                       operation \<noteq> JNull
                       \<and> getProp operation ''operationId'' \<noteq> Some (JStr name)))
        \<longrightarrow> executeToolServer rt token url name params serverData
              = Inr (JObj [(''error'',
                            JStr (''No matching route found for operationId: '' @ name))]))
   \<and> (\<forall>err. executeToolServer_try rt token url name params serverData = Inl err
        \<longrightarrow> executeToolServer rt token url name params serverData
              = Inr (JObj [(''error'', JStr (message err))]))
   \<and> (\<forall>req res resText.
        executeToolServer_request rt token url name params serverData = Inr req
        \<longrightarrow> fetch rt req = Resolved res \<longrightarrow> \<not> res_ok res \<longrightarrow> res_text res = Inr resText
        \<longrightarrow> executeToolServer rt token url name params serverData
              = Inr (JObj [(''error'',
                            JStr (''HTTP error! Status: '' @ string_of_nat (res_status res)
                                  @ ''. Message: '' @ resText))]))
   \<and> (\<forall>req e. executeToolServer_request rt token url name params serverData = Inr req
        \<longrightarrow> fetch rt req = Rejected e
        \<longrightarrow> executeToolServer rt token url name params serverData
              = Inr (JObj [(''error'', JStr (message e))]))
   \<and> (\<forall>req res e. executeToolServer_request rt token url name params serverData = Inr req
        \<longrightarrow> fetch rt req = Resolved res \<longrightarrow> res_ok res \<longrightarrow> res_json rt res = Inl e
        \<longrightarrow> executeToolServer rt token url name params serverData
              = Inr (JObj [(''error'', JStr (message e))]))"
proof (intro conjI allI impI)
  show "\<exists>v. executeToolServer rt token url name params serverData = Inr v"
    by (cases "executeToolServer_try rt token url name params serverData")
       (simp_all add: executeToolServer_def)
next
  assume a: "openapi serverData \<noteq> JNull"
    and b: "Object_entries_of (getProp (openapi serverData) ''paths'') = Inr paths"
    and c: "\<forall>(routePath, methods) \<in> set paths.
              \<exists>ms. Object_entries_of (Some methods) = Inr ms
                 \<and> (\<forall>(m, operation) \<in> set ms.
                       operation \<noteq> JNull
                       \<and> getProp operation ''operationId'' \<noteq> Some (JStr name))"
  have "resolve_operation name serverData
        = Inl (JsError ''Error'' (''No matching route found for operationId: '' @ name))"
    using a b find_route_none[OF c] by (simp add: resolve_operation_def)
  then show "executeToolServer rt token url name params serverData
              = Inr (JObj [(''error'',
                            JStr (''No matching route found for operationId: '' @ name))])"
    by (simp add: executeToolServer_def executeToolServer_try_def executeToolServer_request_def)
qed (simp_all add: executeToolServer_def executeToolServer_try_def)

theorem executeToolServer_returns_errors_witness:
  "executeToolServer (runtime_of net_down no_listing) ''t'' ''http://h'' ''nope''
       (Some [(''id'', JStr ''42'')]) item_server
     = Inr (JObj [(''error'', JStr ''No matching route found for operationId: nope'')])
   \<and> executeToolServer (runtime_of net_down no_listing) ''t'' ''http://h'' ''getItem''
       (Some [(''id'', JStr ''42'')]) item_server
     = Inr (JObj [(''error'', JStr ''Failed to fetch'')])
   \<and> executeToolServer (runtime_of (net_answer 404 ''gone'') no_listing) ''t'' ''http://h''
       ''getItem'' (Some [(''id'', JStr ''42'')]) item_server
     = Inr (JObj [(''error'', JStr ''HTTP error! Status: 404. Message: gone'')])
   \<and> executeToolServer (runtime_of (net_answer 200 ''<html>'') no_listing) ''t'' ''http://h''
       ''getItem'' (Some [(''id'', JStr ''42'')]) item_server
     = Inr (JObj [(''error'', JStr ''Unexpected token in JSON'')])"
proof -
  let ?args = "Some [(''id'', JStr ''42'')]"
  let ?op = "JObj [(''operationId'', JStr ''getItem''),
                   (''parameters'',
                      JArr [JObj [(''name'', JStr ''id''), (''in'', JStr ''path'')],
                            JObj [(''name'', JStr ''verbose''), (''in'', JStr ''query'')]])]"
  let ?req = "\<lparr>req_url = ''http://h/items/42'', req_method = ''GET'',
                req_headers = [(''Content-Type'', ''application/json''),
                               (''authorization'', ''Bearer t'')],
                req_body = None\<rparr>"
  have a: "openapi item_server \<noteq> JNull"
    by (simp add: item_server_def)
  have b: "Object_entries_of (getProp (openapi item_server) ''paths'')
           = Inr [(''/items/{id}'', JObj [(''get'', ?op)])]"
    by code_simp
  have ms: "Object_entries_of (Some (JObj [(''get'', ?op)])) = Inr [(''get'', ?op)]"
    by code_simp
  have c: "\<forall>(routePath, methods) \<in> set [(''/items/{id}'', JObj [(''get'', ?op)])].
             \<exists>ms. Object_entries_of (Some methods) = Inr ms
                \<and> (\<forall>(m, operation) \<in> set ms.
                      operation \<noteq> JNull
                      \<and> getProp operation ''operationId'' \<noteq> Some (JStr ''nope''))"
    using ms by simp
  have r1: "executeToolServer_request (runtime_of net_down no_listing) ''t'' ''http://h''
              ''getItem'' ?args item_server = Inr ?req"
    by code_simp
  have r2: "executeToolServer_request (runtime_of (net_answer 404 ''gone'') no_listing) ''t''
              ''http://h'' ''getItem'' ?args item_server = Inr ?req"
    by code_simp
  have r3: "executeToolServer_request (runtime_of (net_answer 200 ''<html>'') no_listing) ''t''
              ''http://h'' ''getItem'' ?args item_server = Inr ?req"
    by code_simp
  have f1: "fetch (runtime_of net_down no_listing) ?req
            = Rejected (JsError ''TypeError'' ''Failed to fetch'')"
    by (simp add: runtime_of_def net_down_def)
  have f2: "fetch (runtime_of (net_answer 404 ''gone'') no_listing) ?req
            = Resolved \<lparr>res_status = 404, res_text = Inr ''gone''\<rparr>"
    by (simp add: runtime_of_def net_answer_def)
  have f3: "fetch (runtime_of (net_answer 200 ''<html>'') no_listing) ?req
            = Resolved \<lparr>res_status = 200, res_text = Inr ''<html>''\<rparr>"
    by (simp add: runtime_of_def net_answer_def)
  have j3: "res_json (runtime_of (net_answer 200 ''<html>'') no_listing)
              \<lparr>res_status = 200, res_text = Inr ''<html>''\<rparr>
            = Inl (JsError ''SyntaxError'' ''Unexpected token in JSON'')"
    by code_simp
  have s404: "string_of_nat 404 = ''404''"
    by code_simp
  have "executeToolServer (runtime_of net_down no_listing) ''t'' ''http://h'' ''nope''
          ?args item_server
        = Inr (JObj [(''error'', JStr (''No matching route found for operationId: '' @ ''nope''))])"
    using executeToolServer_returns_errors
            [of "runtime_of net_down no_listing" "''t''" "''http://h''" "''nope''" ?args
                item_server "[(''/items/{id}'', JObj [(''get'', ?op)])]"]
          a b c
    by blast
  moreover have "executeToolServer (runtime_of net_down no_listing) ''t'' ''http://h''
          ''getItem'' ?args item_server
        = Inr (JObj [(''error'', JStr (message (JsError ''TypeError'' ''Failed to fetch'')))])"
    using executeToolServer_returns_errors
            [of "runtime_of net_down no_listing" "''t''" "''http://h''" "''getItem''" ?args
                item_server "[]"]
          r1 f1
    by blast
  moreover have "executeToolServer (runtime_of (net_answer 404 ''gone'') no_listing) ''t''
          ''http://h'' ''getItem'' ?args item_server
        = Inr (JObj [(''error'',
                 JStr (''HTTP error! Status: ''
                       @ string_of_nat (res_status \<lparr>res_status = 404, res_text = Inr ''gone''\<rparr>)
                       @ ''. Message: '' @ ''gone''))])"
  proof -
    have "\<not> res_ok \<lparr>res_status = 404, res_text = Inr ''gone''\<rparr>"
      by (simp add: res_ok_def)
    moreover have "res_text \<lparr>res_status = 404, res_text = Inr ''gone''\<rparr> = Inr ''gone''"
      by simp
    ultimately show ?thesis
      using executeToolServer_returns_errors
              [of "runtime_of (net_answer 404 ''gone'') no_listing" "''t''" "''http://h''"
                  "''getItem''" ?args item_server "[]"]
            r2 f2
      by blast
  qed
  moreover have "executeToolServer (runtime_of (net_answer 200 ''<html>'') no_listing) ''t''
          ''http://h'' ''getItem'' ?args item_server
        = Inr (JObj [(''error'',
                 JStr (message (JsError ''SyntaxError'' ''Unexpected token in JSON'')))])"
  proof -
    have "res_ok \<lparr>res_status = 200, res_text = Inr ''<html>''\<rparr>"
      by (simp add: res_ok_def)
    then show ?thesis
      using executeToolServer_returns_errors
              [of "runtime_of (net_answer 200 ''<html>'') no_listing" "''t''" "''http://h''"
                  "''getItem''" ?args item_server "[]"]
            r3 f3 j3
      by blast
  qed
  ultimately show ?thesis
    by (simp add: s404)
qed

section \<open>Errors of the task completions\<close>

text \<open>
  C1. On a response outside 200-299 whose JSON body is an object without
  \<^verbatim>\<open>detail\<close>, no task function raises: the \<^verbatim>\<open>.catch\<close> handler has no \<^verbatim>\<open>else\<close> branch,
  \<^verbatim>\<open>error\<close> stays \<^verbatim>\<open>null\<close>, and each function returns its fallback. Here the server
  answers 500 with the body \<^verbatim>\<open>{"error": "boom"}\<close>.
\<close>

theorem task_error_without_detail_is_swallowed:
  \<open>generateTitle (runtime_of (net_answer 500 ''{"error": "boom"}'') no_listing)
       ''tok'' ''m'' (JArr []) None = Inr JNull
   \<and> generateFollowUps (runtime_of (net_answer 500 ''{"error": "boom"}'') no_listing)
       ''tok'' ''m'' (JArr []) None = Inr (JArr [])
   \<and> generateTags (runtime_of (net_answer 500 ''{"error": "boom"}'') no_listing)
       ''tok'' ''m'' (JArr []) None = Inr (JArr [])
   \<and> generateEmoji (runtime_of (net_answer 500 ''{"error": "boom"}'') no_listing)
       ''tok'' ''m'' ''p'' None = Inr JNull
   \<and> generateQueries (runtime_of (net_answer 500 ''{"error": "boom"}'') no_listing)
       ''tok'' ''m'' (JArr []) ''p'' None = Inr (JArr [JStr []])
   \<and> generateAutoCompletion (runtime_of (net_answer 500 ''{"error": "boom"}'') no_listing)
       ''tok'' ''m'' ''p'' None None = Inr (JStr [])\<close>
  by (intro conjI; code_simp)

section \<open>Locating the braces\<close>

lemma indexOf_ge: "- 1 \<le> indexOf s c"
  by (induction s) (auto simp: Let_def)

lemma indexOf_absent: "(indexOf s c = - 1) = (c \<notin> set s)"
proof (induction s)
  case Nil
  then show ?case by simp
next
  case (Cons x s)
  have "- 1 \<le> indexOf s c" by (rule indexOf_ge)
  then show ?case using Cons by (auto simp: Let_def)
qed

lemma lastIndexOf_ge: "- 1 \<le> lastIndexOf s c"
  by (induction s) (auto simp: Let_def)

lemma lastIndexOf_absent: "(lastIndexOf s c = - 1) = (c \<notin> set s)"
proof (induction s)
  case Nil
  then show ?case by simp
next
  case (Cons x s)
  have "- 1 \<le> lastIndexOf s c" by (rule lastIndexOf_ge)
  then show ?case using Cons by (auto simp: Let_def)
qed

lemma indexOf_first: "c \<notin> set pre \<Longrightarrow> indexOf (pre @ c # rest) c = int (length pre)"
  by (induction pre) (auto simp: Let_def)

lemma lastIndexOf_last: "c \<notin> set post \<Longrightarrow> lastIndexOf (pre @ c # post) c = int (length pre)"
proof (induction pre)
  case Nil
  then show ?case by (simp add: Let_def lastIndexOf_absent)
next
  case (Cons a pre)
  then show ?case by (simp add: Let_def)
qed

lemma substring_middle:
  "substring (pre @ mid @ post) (int (length pre)) (int (length pre) + int (length mid)) = mid"
  by (simp add: substring_def Let_def min_def max_def)

lemma parse_slice_absent:
  "CHR ''{'' \<notin> set s \<or> CHR ''}'' \<notin> set s \<Longrightarrow> parse_slice rt s = None"
  by (auto simp: parse_slice_def Let_def indexOf_absent lastIndexOf_absent)

lemma parse_slice_present:
  "CHR ''{'' \<in> set s \<Longrightarrow> CHR ''}'' \<in> set s \<Longrightarrow>
   parse_slice rt s
     = Some (JSON_parse rt (substring s (indexOf s CHR ''{'') (lastIndexOf s CHR ''}'' + 1)))"
  by (auto simp: parse_slice_def Let_def indexOf_absent lastIndexOf_absent)

lemma parse_slice_surrounded:
  assumes "CHR ''{'' \<notin> set pre" and "CHR ''}'' \<notin> set post"
  shows "parse_slice rt (pre @ (CHR ''{'' # body @ [CHR ''}'']) @ post)
         = Some (JSON_parse rt (CHR ''{'' # body @ [CHR ''}'']))"
proof -
  let ?obj = "CHR ''{'' # body @ [CHR ''}'']"
  let ?s = "pre @ ?obj @ post"
  have i: "indexOf ?s CHR ''{'' = int (length pre)"
    using indexOf_first[OF assms(1), of "body @ [CHR ''}''] @ post"] by simp
  have "lastIndexOf ((pre @ CHR ''{'' # body) @ CHR ''}'' # post) CHR ''}''
        = int (length (pre @ CHR ''{'' # body))"
    by (rule lastIndexOf_last[OF assms(2)])
  then have j: "lastIndexOf ?s CHR ''}'' = int (length pre) + int (length body) + 1"
    by simp
  have "substring ?s (int (length pre)) (int (length pre) + int (length ?obj)) = ?obj"
    by (rule substring_middle)
  moreover have "int (length pre) + int (length ?obj) = lastIndexOf ?s CHR ''}'' + 1"
    using j by simp
  ultimately have "substring ?s (indexOf ?s CHR ''{'') (lastIndexOf ?s CHR ''}'' + 1) = ?obj"
    using i by metis
  moreover have "indexOf ?s CHR ''{'' \<noteq> - 1" "lastIndexOf ?s CHR ''}'' \<noteq> - 1"
    using i j by simp_all
  ultimately show ?thesis
    by (simp add: parse_slice_def Let_def)
qed

lemma replace_quotes_set: "set (replace_quotes s) \<subseteq> insert (CHR 0x22) (set s)"
  by (induction s rule: replace_quotes.induct) auto

lemma replace_quotes_keeps_absent:
  "c \<noteq> CHR 0x22 \<Longrightarrow> c \<notin> set s \<Longrightarrow> c \<notin> set (replace_quotes s)"
  using replace_quotes_set[of s] by auto

lemma replace_quotes_split_before:
  assumes "c \<noteq> CHR 0x80" and "c \<noteq> CHR 0x98" and "c \<noteq> CHR 0x99"
  shows "replace_quotes (xs @ c # ys) = replace_quotes xs @ replace_quotes (c # ys)"
proof (induction xs rule: replace_quotes.induct)
  fix a b c' cs
  assume ih1: "a = CHR 0xE2 \<and> b = CHR 0x80 \<and> (c' = CHR 0x98 \<or> c' = CHR 0x99)
                 \<Longrightarrow> replace_quotes (cs @ c # ys) = replace_quotes cs @ replace_quotes (c # ys)"
    and ih2: "\<not> (a = CHR 0xE2 \<and> b = CHR 0x80 \<and> (c' = CHR 0x98 \<or> c' = CHR 0x99))
                 \<Longrightarrow> replace_quotes ((b # c' # cs) @ c # ys)
                     = replace_quotes (b # c' # cs) @ replace_quotes (c # ys)"
  show "replace_quotes ((a # b # c' # cs) @ c # ys)
        = replace_quotes (a # b # c' # cs) @ replace_quotes (c # ys)"
  proof (cases "a = CHR 0xE2 \<and> b = CHR 0x80 \<and> (c' = CHR 0x98 \<or> c' = CHR 0x99)")
    case True
    from ih1[OF True] True show ?thesis by auto
  next
    case False
    from ih2[OF False] False show ?thesis by auto
  qed
next
  fix a
  show "replace_quotes ([a] @ c # ys) = replace_quotes [a] @ replace_quotes (c # ys)"
    using assms by (cases ys) auto
next
  fix a v
  assume ih: "replace_quotes ([v] @ c # ys) = replace_quotes [v] @ replace_quotes (c # ys)"
  show "replace_quotes ([a, v] @ c # ys) = replace_quotes [a, v] @ replace_quotes (c # ys)"
    using assms ih by auto
next
  show "replace_quotes ([] @ c # ys) = replace_quotes [] @ replace_quotes (c # ys)"
    by simp
qed

lemma replace_quotes_split_after:
  assumes "c \<noteq> CHR 0xE2" and "c \<noteq> CHR 0x80"
  shows "replace_quotes (xs @ c # ys) = replace_quotes (xs @ [c]) @ replace_quotes ys"
proof (induction xs rule: replace_quotes.induct)
  fix a b c' cs
  assume ih1: "a = CHR 0xE2 \<and> b = CHR 0x80 \<and> (c' = CHR 0x98 \<or> c' = CHR 0x99)
                 \<Longrightarrow> replace_quotes (cs @ c # ys) = replace_quotes (cs @ [c]) @ replace_quotes ys"
    and ih2: "\<not> (a = CHR 0xE2 \<and> b = CHR 0x80 \<and> (c' = CHR 0x98 \<or> c' = CHR 0x99))
                 \<Longrightarrow> replace_quotes ((b # c' # cs) @ c # ys)
                     = replace_quotes ((b # c' # cs) @ [c]) @ replace_quotes ys"
  show "replace_quotes ((a # b # c' # cs) @ c # ys)
        = replace_quotes ((a # b # c' # cs) @ [c]) @ replace_quotes ys"
  proof (cases "a = CHR 0xE2 \<and> b = CHR 0x80 \<and> (c' = CHR 0x98 \<or> c' = CHR 0x99)")
    case True
    from ih1[OF True] True show ?thesis by auto
  next
    case False
    from ih2[OF False] False show ?thesis by auto
  qed
next
  fix a
  assume ih: "replace_quotes ([] @ c # ys) = replace_quotes ([] @ [c]) @ replace_quotes ys"
  show "replace_quotes ([a] @ c # ys) = replace_quotes ([a] @ [c]) @ replace_quotes ys"
    using assms ih by (cases ys) auto
next
  fix a v
  assume ih: "replace_quotes ([v] @ c # ys) = replace_quotes ([v] @ [c]) @ replace_quotes ys"
  show "replace_quotes ([a, v] @ c # ys) = replace_quotes ([a, v] @ [c]) @ replace_quotes ys"
    using assms ih by auto
next
  show "replace_quotes ([] @ c # ys) = replace_quotes ([] @ [c]) @ replace_quotes ys"
    using assms
    by (cases ys rule: replace_quotes.cases) auto
qed
lemma brace_slice_parse: "parse_slice rt s = map_option (JSON_parse rt) (brace_slice s)"
  by (auto simp: parse_slice_def brace_slice_def Let_def indexOf_absent lastIndexOf_absent)

lemma parsed_key_object:
  "parsed_key (JObj kvs) k
     = (case map_of kvs k of Some v \<Rightarrow> if truthy v then Some v else None | None \<Rightarrow> None)"
  by (simp add: parsed_key_def)

section \<open>The decoders of the task completions\<close>

text \<open>
  C7. generateQueries, on a completion whose content is the text: when the text has
  no opening brace or no closing brace, the result is the one-element list of the text
  itself; when the slice from the first opening brace to the last closing brace parses
  to an object without a \<^verbatim>\<open>queries\<close> key, the result is the empty list; when the
  object has a \<^verbatim>\<open>queries\<close> key whose value is a list, the result is that list.
\<close>

theorem generateQueries_decodes:
  assumes "task_fetch rt (generateQueries_request rt token model messages prompt type) = Inr res"
    and "completion_content res = Inr (JStr text)"
  shows "(CHR ''{'' \<notin> set text \<or> CHR ''}'' \<notin> set text
            \<longrightarrow> generateQueries rt token model messages prompt type = Inr (JArr [JStr text]))
       \<and> (\<forall>slice kvs. brace_slice text = Some slice \<and> JSON_parse rt slice = Inr (JObj kvs)
              \<and> map_of kvs ''queries'' = None
            \<longrightarrow> generateQueries rt token model messages prompt type = Inr (JArr []))
       \<and> (\<forall>slice kvs qs. brace_slice text = Some slice \<and> JSON_parse rt slice = Inr (JObj kvs)
              \<and> map_of kvs ''queries'' = Some (JArr qs)
            \<longrightarrow> generateQueries rt token model messages prompt type = Inr (JArr qs))"
proof -
  have g: "generateQueries rt token model messages prompt type
           = Inr (queries_of_content rt (JStr text))"
    using assms by (simp add: generateQueries_def)
  show ?thesis
    unfolding g
    by (auto simp: queries_of_content_def brace_slice_parse parse_slice_absent
                   parsed_key_object isArray_def brace_slice_def)
qed

theorem generateQueries_decodes_witness:
  \<open>generateQueries (runtime_of (net_answer 200 (completion_body ''weather in Paris'')) no_listing)
       ''tok'' ''m'' (JArr []) ''p'' None
     = Inr (JArr [JStr ''weather in Paris''])
   \<and> generateQueries (runtime_of (net_answer 200 (completion_body ''{"other": 1}'')) no_listing)
       ''tok'' ''m'' (JArr []) ''p'' None
     = Inr (JArr [])
   \<and> generateQueries
       (runtime_of (net_answer 200 (completion_body ''Here: {"queries": ["a","b"]}'')) no_listing)
       ''tok'' ''m'' (JArr []) ''p'' None
     = Inr (JArr [JStr ''a'', JStr ''b''])\<close>
proof -
  let ?t1 = \<open>''weather in Paris''\<close>
  let ?t2 = \<open>''{"other": 1}''\<close>
  let ?t3 = \<open>''Here: {"queries": ["a","b"]}''\<close>
  let ?rt = "\<lambda>t. runtime_of (net_answer 200 (completion_body t)) no_listing"
  have f1: "task_fetch (?rt ?t1) (generateQueries_request (?rt ?t1) ''tok'' ''m'' (JArr []) ''p'' None)
            = Inr (completion_of ?t1)"
    by code_simp
  have f2: "task_fetch (?rt ?t2) (generateQueries_request (?rt ?t2) ''tok'' ''m'' (JArr []) ''p'' None)
            = Inr (completion_of ?t2)"
    by code_simp
  have f3: "task_fetch (?rt ?t3) (generateQueries_request (?rt ?t3) ''tok'' ''m'' (JArr []) ''p'' None)
            = Inr (completion_of ?t3)"
    by code_simp
  have c: "\<And>t. completion_content (completion_of t) = Inr (JStr t)"
    by (simp add: completion_content_def completion_of_def choice0_def message_of_def nullish_def)
  have n1: "CHR ''{'' \<notin> set ?t1 \<or> CHR ''}'' \<notin> set ?t1"
    by simp
  have s2: "brace_slice ?t2 = Some ?t2 \<and> JSON_parse (?rt ?t2) ?t2 = Inr (JObj [(''other'', JNum 1)])
            \<and> map_of [(''other'', JNum 1)] ''queries'' = None"
    by (intro conjI; code_simp)
  have s3: \<open>brace_slice ?t3 = Some ''{"queries": ["a","b"]}''
            \<and> JSON_parse (?rt ?t3) ''{"queries": ["a","b"]}''
                = Inr (JObj [(''queries'', JArr [JStr ''a'', JStr ''b''])])
            \<and> map_of [(''queries'', JArr [JStr ''a'', JStr ''b''])] ''queries''
                = Some (JArr [JStr ''a'', JStr ''b''])\<close>
    by (intro conjI; code_simp)
  from generateQueries_decodes[OF f1 c] n1
  have "generateQueries (?rt ?t1) ''tok'' ''m'' (JArr []) ''p'' None = Inr (JArr [JStr ?t1])"
    by blast
  moreover from generateQueries_decodes[OF f2 c] s2
  have "generateQueries (?rt ?t2) ''tok'' ''m'' (JArr []) ''p'' None = Inr (JArr [])"
    by blast
  moreover from generateQueries_decodes[OF f3 c] s3
  have "generateQueries (?rt ?t3) ''tok'' ''m'' (JArr []) ''p'' None
        = Inr (JArr [JStr ''a'', JStr ''b''])"
    by blast
  ultimately show ?thesis by simp
qed

text \<open>
  C5. generateTitle, generateFollowUps and generateTags replace the four quote
  variants by double quotes before they take the slice from the first opening brace to
  the last closing brace and parse it: a completion text that writes its quotes as
  U+2018, U+2019, backticks and apostrophes decodes to what the text holds.
  generateQueries and generateAutoCompletion take the slice of the text as it is, with no
  replacement: on the same kind of text the parse fails and they return the text itself,
  where they decode the text written with double quotes to the list and to the text it
  holds.
\<close>

theorem queries_and_autocompletion_skip_normalization:
  \<open>stylized ''{"tags": ["a", "b"]}''
     = ''{'' @ [CHR 0xE2, CHR 0x80, CHR 0x98] @ ''tags'' @ [CHR 0xE2, CHR 0x80, CHR 0x99]
       @ '': [`a`, '' @ [CHR 0x27] @ ''b'' @ [CHR 0x27] @ '']}''
   \<and> generateTitle
       (runtime_of (net_answer 200 (completion_body (stylized ''{"title": "Hello", "n": 1}'')))
          no_listing)
       ''tok'' ''m'' (JArr []) None
     = Inr (JStr ''Hello'')
   \<and> generateFollowUps
       (runtime_of (net_answer 200 (completion_body (stylized ''{"follow_ups": ["a", "b"]}'')))
          no_listing)
       ''tok'' ''m'' (JArr []) None
     = Inr (JArr [JStr ''a'', JStr ''b''])
   \<and> generateTags
       (runtime_of (net_answer 200 (completion_body (stylized ''{"tags": ["a", "b"]}'')))
          no_listing)
       ''tok'' ''m'' (JArr []) None
     = Inr (JArr [JStr ''a'', JStr ''b''])
   \<and> generateQueries
       (runtime_of (net_answer 200 (completion_body ''{"queries": ["a", "b"]}'')) no_listing)
       ''tok'' ''m'' (JArr []) ''p'' None
     = Inr (JArr [JStr ''a'', JStr ''b''])
   \<and> generateQueries
       (runtime_of (net_answer 200 (completion_body (stylized ''{"queries": ["a", "b"]}'')))
          no_listing)
       ''tok'' ''m'' (JArr []) ''p'' None
     = Inr (JArr [JStr (stylized ''{"queries": ["a", "b"]}'')])
   \<and> generateAutoCompletion
       (runtime_of (net_answer 200 (completion_body ''{"text": "hello", "n": 1}'')) no_listing)
       ''tok'' ''m'' ''p'' None None
     = Inr (JStr ''hello'')
   \<and> generateAutoCompletion
       (runtime_of (net_answer 200 (completion_body (stylized ''{"text": "hello", "n": 1}'')))
          no_listing)
       ''tok'' ''m'' ''p'' None None
     = Inr (JStr (stylized ''{"text": "hello", "n": 1}''))\<close>
  by (intro conjI; code_simp)

text \<open>
  C8 as the code has it. generateTags, on a completion whose content is the text:
  when the text is prose around an object text (from an opening brace to a closing
  brace), the prose before it has no opening brace, the prose after it has no closing
  brace, the object text holds none of the four quote variants (the replacement leaves
  it as it is) and parses to an object whose \<^verbatim>\<open>tags\<close> is a list, the result is that
  list; when the text has no opening brace or no closing brace, the result is the empty
  list; and when the slice of the text with its quotes replaced parses to a value whose
  \<^verbatim>\<open>tags\<close> is missing or not a list, the result is the empty list.
\<close>

theorem generateTags_decodes:
  assumes "task_fetch rt (generateTags_request rt token model messages chat_id) = Inr res"
    and "completion_content res = Inr (JStr text)"
  shows "(\<forall>pre body post kvs ts.
            text = pre @ (CHR ''{'' # body @ [CHR ''}'']) @ post
            \<and> CHR ''{'' \<notin> set pre \<and> CHR ''}'' \<notin> set post
            \<and> replace_quotes (CHR ''{'' # body @ [CHR ''}'']) = CHR ''{'' # body @ [CHR ''}'']
            \<and> JSON_parse rt (CHR ''{'' # body @ [CHR ''}'']) = Inr (JObj kvs)
            \<and> map_of kvs ''tags'' = Some (JArr ts)
            \<longrightarrow> generateTags rt token model messages chat_id = Inr (JArr ts))
       \<and> (CHR ''{'' \<notin> set text \<or> CHR ''}'' \<notin> set text
            \<longrightarrow> generateTags rt token model messages chat_id = Inr (JArr []))
       \<and> (\<forall>slice parsed.
            brace_slice (replace_quotes text) = Some slice \<and> JSON_parse rt slice = Inr parsed
            \<and> (getProp parsed ''tags'' = None
                \<or> (\<exists>v. getProp parsed ''tags'' = Some v \<and> \<not> isArray v))
            \<longrightarrow> generateTags rt token model messages chat_id = Inr (JArr []))"
proof -
  have g: "generateTags rt token model messages chat_id
           = Inr (list_of_content rt ''tags'' (JStr text))"
    using assms by (simp add: generateTags_def)
  have first: "list_of_content rt ''tags'' (JStr text) = JArr ts"
    if t: "text = pre @ (CHR ''{'' # body @ [CHR ''}'']) @ post"
      and pre: "CHR ''{'' \<notin> set pre" and post: "CHR ''}'' \<notin> set post"
      and same: "replace_quotes (CHR ''{'' # body @ [CHR ''}'']) = CHR ''{'' # body @ [CHR ''}'']"
      and parse: "JSON_parse rt (CHR ''{'' # body @ [CHR ''}'']) = Inr (JObj kvs)"
      and tags: "map_of kvs ''tags'' = Some (JArr ts)"
    for pre body post kvs ts
  proof -
    have "replace_quotes (pre @ CHR ''{'' # (body @ [CHR ''}''] @ post))
          = replace_quotes pre @ replace_quotes (CHR ''{'' # (body @ [CHR ''}''] @ post))"
      by (rule replace_quotes_split_before) simp_all
    moreover have "replace_quotes ((CHR ''{'' # body) @ CHR ''}'' # post)
          = replace_quotes ((CHR ''{'' # body) @ [CHR ''}'']) @ replace_quotes post"
      by (rule replace_quotes_split_after) simp_all
    ultimately have r: "replace_quotes text
          = replace_quotes pre @ (CHR ''{'' # body @ [CHR ''}'']) @ replace_quotes post"
      using same t by simp
    have "CHR ''{'' \<notin> set (replace_quotes pre)" "CHR ''}'' \<notin> set (replace_quotes post)"
      using pre post by (simp_all add: replace_quotes_keeps_absent)
    then have "parse_slice rt (replace_quotes text)
               = Some (JSON_parse rt (CHR ''{'' # body @ [CHR ''}'']))"
      unfolding r by (rule parse_slice_surrounded)
    then show ?thesis
      using parse tags by (simp add: list_of_content_def parsed_key_object isArray_def)
  qed
  have second: "list_of_content rt ''tags'' (JStr text) = JArr []"
    if "CHR ''{'' \<notin> set text \<or> CHR ''}'' \<notin> set text"
  proof -
    have "CHR ''{'' \<notin> set (replace_quotes text) \<or> CHR ''}'' \<notin> set (replace_quotes text)"
      using that by (auto simp: replace_quotes_keeps_absent)
    then show ?thesis
      by (simp add: list_of_content_def parse_slice_absent)
  qed
  have third: "list_of_content rt ''tags'' (JStr text) = JArr []"
    if "brace_slice (replace_quotes text) = Some slice" and "JSON_parse rt slice = Inr parsed"
      and "getProp parsed ''tags'' = None \<or> (\<exists>v. getProp parsed ''tags'' = Some v \<and> \<not> isArray v)"
    for slice parsed
    using that
    by (auto simp: list_of_content_def brace_slice_parse parsed_key_def split: option.splits)
  show ?thesis
    unfolding g using first second third by blast
qed

theorem generateTags_decodes_witness:
  \<open>generateTags
       (runtime_of (net_answer 200 (completion_body ''Sure! {"tags": ["a","b"]}'')) no_listing)
       ''tok'' ''m'' (JArr []) None
     = Inr (JArr [JStr ''a'', JStr ''b''])
   \<and> generateTags (runtime_of (net_answer 200 (completion_body ''no tags today'')) no_listing)
       ''tok'' ''m'' (JArr []) None
     = Inr (JArr [])
   \<and> generateTags (runtime_of (net_answer 200 (completion_body ''{"tags": "a"}'')) no_listing)
       ''tok'' ''m'' (JArr []) None
     = Inr (JArr [])\<close>
proof -
  let ?rt = "\<lambda>t. runtime_of (net_answer 200 (completion_body t)) no_listing"
  let ?t1 = \<open>''Sure! {"tags": ["a","b"]}''\<close>
  let ?t2 = \<open>''no tags today''\<close>
  let ?t3 = \<open>''{"tags": "a"}''\<close>
  have c: "\<And>t. completion_content (completion_of t) = Inr (JStr t)"
    by (simp add: completion_content_def completion_of_def choice0_def message_of_def nullish_def)
  have f1: "task_fetch (?rt ?t1) (generateTags_request (?rt ?t1) ''tok'' ''m'' (JArr []) None)
            = Inr (completion_of ?t1)"
    by code_simp
  have f2: "task_fetch (?rt ?t2) (generateTags_request (?rt ?t2) ''tok'' ''m'' (JArr []) None)
            = Inr (completion_of ?t2)"
    by code_simp
  have f3: "task_fetch (?rt ?t3) (generateTags_request (?rt ?t3) ''tok'' ''m'' (JArr []) None)
            = Inr (completion_of ?t3)"
    by code_simp
  have h1: \<open>?t1 = ''Sure! '' @ (CHR ''{'' # ''"tags": ["a","b"]'' @ [CHR ''}'']) @ []
            \<and> CHR ''{'' \<notin> set ''Sure! '' \<and> CHR ''}'' \<notin> set []
            \<and> replace_quotes (CHR ''{'' # ''"tags": ["a","b"]'' @ [CHR ''}''])
                = CHR ''{'' # ''"tags": ["a","b"]'' @ [CHR ''}'']
            \<and> JSON_parse (?rt ?t1) (CHR ''{'' # ''"tags": ["a","b"]'' @ [CHR ''}''])
                = Inr (JObj [(''tags'', JArr [JStr ''a'', JStr ''b''])])
            \<and> map_of [(''tags'', JArr [JStr ''a'', JStr ''b''])] ''tags''
                = Some (JArr [JStr ''a'', JStr ''b''])\<close>
    by (intro conjI; code_simp)
  have h2: "CHR ''{'' \<notin> set ?t2 \<or> CHR ''}'' \<notin> set ?t2"
    by simp
  have h3: "brace_slice (replace_quotes ?t3) = Some ?t3
            \<and> JSON_parse (?rt ?t3) ?t3 = Inr (JObj [(''tags'', JStr ''a'')])
            \<and> (getProp (JObj [(''tags'', JStr ''a'')]) ''tags'' = None
                \<or> (\<exists>v. getProp (JObj [(''tags'', JStr ''a'')]) ''tags'' = Some v \<and> \<not> isArray v))"
  proof (intro conjI)
    show "brace_slice (replace_quotes ?t3) = Some ?t3" by code_simp
    show "JSON_parse (?rt ?t3) ?t3 = Inr (JObj [(''tags'', JStr ''a'')])" by code_simp
    show "getProp (JObj [(''tags'', JStr ''a'')]) ''tags'' = None
          \<or> (\<exists>v. getProp (JObj [(''tags'', JStr ''a'')]) ''tags'' = Some v \<and> \<not> isArray v)"
      by (simp add: isArray_def)
  qed
  from generateTags_decodes[OF f1 c] h1
  have "generateTags (?rt ?t1) ''tok'' ''m'' (JArr []) None = Inr (JArr [JStr ''a'', JStr ''b''])"
    by blast
  moreover from generateTags_decodes[OF f2 c] h2
  have "generateTags (?rt ?t2) ''tok'' ''m'' (JArr []) None = Inr (JArr [])"
    by blast
  moreover from generateTags_decodes[OF f3 c] h3
  have "generateTags (?rt ?t3) ''tok'' ''m'' (JArr []) None = Inr (JArr [])"
    by blast
  ultimately show ?thesis by simp
qed

text \<open>
  The claim fails in its first part. \<^verbatim>\<open>{"tags": ["it's"]}\<close> is a well-formed object
  with a string-list \<^verbatim>\<open>tags\<close>, but the replacement turns its apostrophe into a double
  quote, the slice no longer parses, and generateTags returns the empty list. And prose
  with a brace of its own widens the slice: with \<^verbatim>\<open>Use {curly} braces.\<close> before the
  same kind of object the result is empty as well.
\<close>

theorem generateTags_loses_list:
  \<open>json_parse ''{"tags": ["it's"]}'' = Inr (JObj [(''tags'', JArr [JStr ''it's''])])
   \<and> generateTags
       (runtime_of (net_answer 200 (completion_body ''Sure! {"tags": ["it's"]}'')) no_listing)
       ''tok'' ''m'' (JArr []) None
     = Inr (JArr [])
   \<and> generateTags
       (runtime_of (net_answer 200
          (completion_body ''Use {curly} braces. {"tags": ["a","b"]}'')) no_listing)
       ''tok'' ''m'' (JArr []) None
     = Inr (JArr [])\<close>
  by (intro conjI; code_simp)

section \<open>The Authorization header\<close>

lemma toLowerCase_Authorization: "toLowerCase ''Authorization'' = ''authorization''"
  by code_simp

lemma toLowerCase_names:
  "toLowerCase ''authorization'' = ''authorization''"
  "toLowerCase ''Accept'' = ''accept''"
  "toLowerCase ''Content-Type'' = ''content-type''"
  by code_simp+

lemma header_of_task_headers:
  "req_headers req = task_headers token
   \<Longrightarrow> header_of req ''Authorization'' = Some (''Bearer '' @ token)"
  by (simp add: header_of_def task_headers_def toLowerCase_Authorization toLowerCase_names)

lemma header_of_auth_header:
  "req_headers req = hs @ auth_header token
   \<Longrightarrow> set (map fst hs) \<subseteq> {''Accept'', ''Content-Type''}
   \<Longrightarrow> header_of req ''Authorization''
       = (if token = [] then None else Some (''Bearer '' @ token))"
proof -
  assume r: "req_headers req = hs @ auth_header token"
    and hs: "set (map fst hs) \<subseteq> {''Accept'', ''Content-Type''}"
  have "map_of (map (\<lambda>(k, v). (toLowerCase k, v)) hs) ''authorization'' = None"
  proof -
    have "''authorization'' \<notin> fst ` set (map (\<lambda>(k, v). (toLowerCase k, v)) hs)"
      using hs by (auto simp: toLowerCase_names)
    then show ?thesis by (simp add: map_of_eq_None_iff)
  qed
  then show ?thesis
    by (simp add: header_of_def r auth_header_def toLowerCase_Authorization toLowerCase_names
                  map_add_def)
qed

lemma executeToolServer_request_headers:
  "executeToolServer_request rt token url name params serverData = Inr req
   \<Longrightarrow> req_headers req = [(''Content-Type'', ''application/json'')] @ auth_header token"
  by (auto simp: executeToolServer_request_def
           split: sum.splits prod.splits if_splits option.splits)

text \<open>
  C4 as the code has it. getModels, getToolServerData and executeToolServer attach no
  Authorization header when the token is the empty string and
  \<^verbatim>\<open>authorization: Bearer <token>\<close> when it is not. The six task completions always
  attach \<^verbatim>\<open>Authorization: Bearer <token>\<close>, whatever the token.
\<close>

theorem authorization_header:
  "header_of (getModels_request rt token base) ''Authorization''
     = (if token = [] then None else Some (''Bearer '' @ token))
   \<and> header_of (getToolServerData_request token url) ''Authorization''
     = (if token = [] then None else Some (''Bearer '' @ token))
   \<and> (\<forall>req. executeToolServer_request rt token url name params serverData = Inr req
        \<longrightarrow> header_of req ''Authorization''
            = (if token = [] then None else Some (''Bearer '' @ token)))
   \<and> header_of (generateTitle_request rt token model messages chat_id) ''Authorization''
     = Some (''Bearer '' @ token)
   \<and> header_of (generateFollowUps_request rt token model messages chat_id) ''Authorization''
     = Some (''Bearer '' @ token)
   \<and> header_of (generateTags_request rt token model messages chat_id) ''Authorization''
     = Some (''Bearer '' @ token)
   \<and> header_of (generateEmoji_request rt token model prompt chat_id) ''Authorization''
     = Some (''Bearer '' @ token)
   \<and> header_of (generateQueries_request rt token model messages prompt type) ''Authorization''
     = Some (''Bearer '' @ token)
   \<and> header_of (generateAutoCompletion_request rt token model prompt msgs type) ''Authorization''
     = Some (''Bearer '' @ token)"
proof (intro conjI allI impI)
  show "header_of (getModels_request rt token base) ''Authorization''
        = (if token = [] then None else Some (''Bearer '' @ token))"
    by (rule header_of_auth_header[where hs = "[(''Accept'', ''application/json''),
                                                (''Content-Type'', ''application/json'')]"])
       (simp_all add: getModels_request_def)
  show "header_of (getToolServerData_request token url) ''Authorization''
        = (if token = [] then None else Some (''Bearer '' @ token))"
    by (rule header_of_auth_header[where hs = "[(''Accept'', ''application/json''),
                                                (''Content-Type'', ''application/json'')]"])
       (simp_all add: getToolServerData_request_def)
  show "header_of req ''Authorization'' = (if token = [] then None else Some (''Bearer '' @ token))"
    if "executeToolServer_request rt token url name params serverData = Inr req" for req
    by (rule header_of_auth_header[where hs = "[(''Content-Type'', ''application/json'')]"])
       (simp_all add: executeToolServer_request_headers[OF that])
qed (simp_all add: header_of_task_headers generateTitle_request_def generateFollowUps_request_def
       generateTags_request_def generateEmoji_request_def generateQueries_request_def
       generateAutoCompletion_request_def)

theorem authorization_header_witness:
  "header_of (getModels_request (runtime_of net_down no_listing) [] False) ''Authorization'' = None
   \<and> header_of (getModels_request (runtime_of net_down no_listing) ''abc'' False) ''Authorization''
     = Some ''Bearer abc''
   \<and> header_of \<lparr>req_url = ''http://h/items/42'', req_method = ''GET'',
                 req_headers = [(''Content-Type'', ''application/json'')],
                 req_body = None\<rparr> ''Authorization'' = None
   \<and> header_of (generateTitle_request (runtime_of net_down no_listing) ''abc'' ''m'' (JArr []) None)
       ''Authorization''
     = Some ''Bearer abc''"
proof -
  let ?rt = "runtime_of net_down no_listing"
  let ?req = "\<lparr>req_url = ''http://h/items/42'', req_method = ''GET'',
                req_headers = [(''Content-Type'', ''application/json'')],
                req_body = None\<rparr>"
  have r: "executeToolServer_request ?rt [] ''http://h'' ''getItem''
             (Some [(''id'', JStr ''42'')]) item_server = Inr ?req"
    by code_simp
  have "header_of (getModels_request ?rt [] False) ''Authorization'' = None"
    using authorization_header[of ?rt "[]" False] by simp
  moreover have "header_of (getModels_request ?rt ''abc'' False) ''Authorization''
                 = Some ''Bearer abc''"
    using authorization_header[of ?rt "''abc''" False] by simp
  moreover have "header_of ?req ''Authorization'' = None"
    using authorization_header
            [of ?rt "[]" False "''http://h''" "''getItem''" "Some [(''id'', JStr ''42'')]"
                item_server]
          r
    by simp
  moreover have "header_of (generateTitle_request ?rt ''abc'' ''m'' (JArr []) None)
                   ''Authorization'' = Some ''Bearer abc''"
    using authorization_header[of ?rt "''abc''" False "[]" "[]" None item_server "''m''" "JArr []" None]
    by simp
  ultimately show ?thesis by simp
qed

text \<open>
  The claim fails for the task completions: called with the empty token, generateTitle
  sends the header \<^verbatim>\<open>Authorization: Bearer \<close> with an empty credential.
\<close>

theorem task_completion_sends_empty_bearer:
  "header_of (generateTitle_request (runtime_of net_down no_listing) [] ''m'' (JArr []) None)
     ''Authorization'' = Some ''Bearer ''"
  by code_simp

section \<open>Objects and lists\<close>

lemma obj_set_keys: "fst ` set (obj_set obj k v) = insert k (fst ` set obj)"
  by (auto simp: obj_set_def image_iff split: if_splits prod.splits) force+

lemma map_of_replace:
  "map_of (map (\<lambda>(k', v'). if k' = k then (k', v) else (k', v')) obj) x
   = (if x = k \<and> map_of obj k \<noteq> None then Some v else map_of obj x)"
  by (induction obj) auto

lemma obj_set_map_of: "map_of (obj_set obj k v) = (map_of obj)(k \<mapsto> v)"
proof (cases "k \<in> fst ` set obj")
  case False
  then have "map_of obj k = None"
    by (simp add: map_of_eq_None_iff)
  then show ?thesis
    using False by (auto simp: obj_set_def map_add_def fun_eq_iff split: option.splits)
next
  case True
  then have "map_of obj k \<noteq> None"
    by (simp add: map_of_eq_None_iff)
  then show ?thesis
    using True by (simp add: obj_set_def fun_eq_iff map_of_replace)
qed

lemma map_of_filter_key:
  "map_of (filter (\<lambda>(k', v). P k') xs) k = (if P k then map_of xs k else None)"
  by (induction xs) auto

lemma map_of_first:
  "map_of xs k = (case filter (\<lambda>e. fst e = k) xs of [] \<Rightarrow> None | e # _ \<Rightarrow> Some (snd e))"
  by (induction xs) auto

lemma filter_key_refine:
  "filter (\<lambda>e. fst e = k) (filter (\<lambda>y. (case y of (k', v) \<Rightarrow> f k') = f k) ys)
   = filter (\<lambda>e. fst e = k) ys"
  by (induction ys) auto

lemma filter_key_sort:
  "filter (\<lambda>e. fst e = k) (sort_key (\<lambda>(k', v). f k') xs) = filter (\<lambda>e. fst e = k) xs"
proof -
  have "filter (\<lambda>e. fst e = k) (sort_key (\<lambda>(k', v). f k') xs)
        = filter (\<lambda>e. fst e = k)
            (filter (\<lambda>y. (case y of (k', v) \<Rightarrow> f k') = f k) (sort_key (\<lambda>(k', v). f k') xs))"
    by (rule filter_key_refine[symmetric])
  also have "\<dots> = filter (\<lambda>e. fst e = k)
                     (filter (\<lambda>y. (case y of (k', v) \<Rightarrow> f k') = f k) xs)"
    by (simp only: sort_key_stable)
  also have "\<dots> = filter (\<lambda>e. fst e = k) xs"
    by (rule filter_key_refine)
  finally show ?thesis .
qed

lemma Object_entries_map_of: "map_of (Object_entries obj) k = map_of obj k"
proof -
  let ?A = "filter (\<lambda>(k, v). is_array_index k) obj"
  let ?B = "filter (\<lambda>(k, v). \<not> is_array_index k) obj"
  have s: "map_of (sort_key (\<lambda>(k, v). int_of_digits k) ?A) k = map_of ?A k"
    by (simp only: map_of_first[of _ k] filter_key_sort)
  show ?thesis
  proof (cases "is_array_index k")
    case True
    have "map_of ?B k = None"
      using True map_of_filter_key[of "\<lambda>k. \<not> is_array_index k" obj k] by simp
    moreover have "map_of ?A k = map_of obj k"
      using True map_of_filter_key[of is_array_index obj k] by simp
    ultimately show ?thesis
      by (simp add: Object_entries_def map_add_def s split: option.splits)
  next
    case False
    have "map_of ?A k = None"
      using False map_of_filter_key[of is_array_index obj k] by simp
    moreover have "map_of ?B k = map_of obj k"
      using False map_of_filter_key[of "\<lambda>k. \<not> is_array_index k" obj k] by simp
    ultimately show ?thesis
      by (simp add: Object_entries_def map_add_def s split: option.splits)
  qed
qed

lemma map_result_all:
  "(\<And>x. x \<in> set xs \<Longrightarrow> f x = Inr (g x)) \<Longrightarrow> map_result f xs = Inr (map g xs)"
  by (induction xs) auto

lemma Object_entries_map_of_eq: "map_of (Object_entries obj) = map_of obj"
  by (rule ext) (rule Object_entries_map_of)

lemma response_models_listing:
  assumes r: "(if isArray r then r else data_of r) = JArr xs"
    and ok: "\<forall>x \<in> set xs. \<exists>kvs i. x = JObj kvs \<and> map_of kvs ''id'' = Some (JStr i)"
  shows "\<exists>ys. response_models rt c j r = Inr ys \<and> length ys = length xs
           \<and> (\<forall>k < length xs. \<forall>key.
                 map_of (ys ! k) key
                 = (let cfg = (case OPENAI_API_CONFIGS c j of None \<Rightarrow> empty_config | Some a \<Rightarrow> a)
                    in if key = ''tags'' \<and> (\<exists>t. tags cfg = Some t \<and> truthy t) then tags cfg
                       else if key = ''id'' \<and> (\<exists>p. prefix_id cfg = Some p \<and> p \<noteq> [])
                       then Some (JStr (the (prefix_id cfg) @ ''.''
                                        @ (case getProp (xs ! k) ''id'' of
                                             Some (JStr i) \<Rightarrow> i | _ \<Rightarrow> [])))
                       else if key = ''urlIdx'' then Some (JStr (string_of_nat j))
                       else if key = ''openai''
                       then Some (JObj [(''id'', the (getProp (xs ! k) ''id''))])
                       else getProp (xs ! k) key))"
proof -
  define cfg where "cfg = (case OPENAI_API_CONFIGS c j of None \<Rightarrow> empty_config | Some a \<Rightarrow> a)"
  define g1 where "g1 = (\<lambda>x. obj_set
                  (obj_set (spread x) ''openai''
                     (JObj (case getProp x ''id'' of None \<Rightarrow> [] | Some i \<Rightarrow> [(''id'', i)])))
                  ''urlIdx'' (JStr (string_of_nat j)))"
  define g2 where "g2 = (\<lambda>props. case prefix_id cfg of
                           None \<Rightarrow> props
                         | Some p \<Rightarrow>
                             if p \<noteq> []
                             then obj_set props ''id''
                                    (JStr (p @ ''.'' @ (case map_of props ''id'' of
                                                         Some (JStr i) \<Rightarrow> i | _ \<Rightarrow> [])))
                             else props)"
  define g3 where "g3 = (\<lambda>props. case tags cfg of
                           None \<Rightarrow> props
                         | Some t \<Rightarrow> if truthy t then obj_set props ''tags'' t else props)"
  have s1: "map_result (indexed_model j) xs = Inr (map g1 xs)"
    by (rule map_result_all) (use ok in \<open>auto simp: indexed_model_def g1_def\<close>)
  have id1: "map_of (g1 x) ''id'' = getProp x ''id''" if "x \<in> set xs" for x
    using that ok by (auto simp: g1_def spread_def obj_set_map_of Object_entries_map_of)
  have s2: "(case prefix_id cfg of
               None \<Rightarrow> Inr (map g1 xs)
             | Some prefixId \<Rightarrow>
                 if prefixId \<noteq> []
                 then map_result (prefixed (Number_toString rt) prefixId) (map g1 xs)
                 else Inr (map g1 xs))
            = Inr (map g2 (map g1 xs))"
  proof (cases "prefix_id cfg")
    case None
    then show ?thesis by (simp add: g2_def)
  next
    case (Some p)
    show ?thesis
    proof (cases "p = []")
      case True
      then show ?thesis using Some by (simp add: g2_def)
    next
      case False
      have "map_result (prefixed (Number_toString rt) p) (map g1 xs) = Inr (map g2 (map g1 xs))"
      proof (rule map_result_all)
        fix props assume "props \<in> set (map g1 xs)"
        then obtain x where x: "x \<in> set xs" and p: "props = g1 x" by auto
        from x ok obtain kvs i where "x = JObj kvs" "map_of kvs ''id'' = Some (JStr i)"
          by blast
        then have "map_of props ''id'' = Some (JStr i)"
          using id1[OF x] p by simp
        then show "prefixed (Number_toString rt) p props = Inr (g2 props)"
          using Some False by (simp add: prefixed_def interpolate_def g2_def)
      qed
      then show ?thesis using Some False by simp
    qed
  qed
  have rm: "response_models rt c j r = Inr (map g3 (map g2 (map g1 xs)))"
    unfolding response_models_def Let_def cfg_def[symmetric] r
    by (simp add: s1 s2 g3_def split: option.splits)
  have "\<forall>k < length xs. \<forall>key.
          map_of (map g3 (map g2 (map g1 xs)) ! k) key
          = (let cfg = (case OPENAI_API_CONFIGS c j of None \<Rightarrow> empty_config | Some a \<Rightarrow> a)
             in if key = ''tags'' \<and> (\<exists>t. tags cfg = Some t \<and> truthy t) then tags cfg
                else if key = ''id'' \<and> (\<exists>p. prefix_id cfg = Some p \<and> p \<noteq> [])
                then Some (JStr (the (prefix_id cfg) @ ''.''
                                 @ (case getProp (xs ! k) ''id'' of
                                      Some (JStr i) \<Rightarrow> i | _ \<Rightarrow> [])))
                else if key = ''urlIdx'' then Some (JStr (string_of_nat j))
                else if key = ''openai''
                then Some (JObj [(''id'', the (getProp (xs ! k) ''id''))])
                else getProp (xs ! k) key)"
  proof (intro allI impI)
    fix k key
    assume k: "k < length xs"
    then have x: "xs ! k \<in> set xs" by simp
    from x ok obtain kvs i where kv: "xs ! k = JObj kvs" "map_of kvs ''id'' = Some (JStr i)"
      by blast
    have m1: "map_of (g1 (xs ! k))
              = (map_of kvs)(''openai'' \<mapsto> JObj [(''id'', JStr i)],
                             ''urlIdx'' \<mapsto> JStr (string_of_nat j))"
      using kv by (simp add: g1_def spread_def obj_set_map_of Object_entries_map_of_eq)
    have "map_of (g3 (g2 (g1 (xs ! k)))) key
          = (if key = ''tags'' \<and> (\<exists>t. tags cfg = Some t \<and> truthy t) then tags cfg
             else if key = ''id'' \<and> (\<exists>p. prefix_id cfg = Some p \<and> p \<noteq> [])
             then Some (JStr (the (prefix_id cfg) @ ''.'' @ i))
             else if key = ''urlIdx'' then Some (JStr (string_of_nat j))
             else if key = ''openai'' then Some (JObj [(''id'', JStr i)])
             else map_of kvs key)"
    proof -
      have i1: "map_of (g1 (xs ! k)) ''id'' = Some (JStr i)"
        by (simp add: m1 kv(2))
      have m2: "map_of (g2 (g1 (xs ! k)))
                = (if \<exists>p. prefix_id cfg = Some p \<and> p \<noteq> []
                   then (map_of (g1 (xs ! k)))
                          (''id'' \<mapsto> JStr (the (prefix_id cfg) @ ''.'' @ i))
                   else map_of (g1 (xs ! k)))"
        by (cases "prefix_id cfg") (simp_all add: g2_def obj_set_map_of i1)
      have m3: "map_of (g3 props)
                = (if \<exists>t. tags cfg = Some t \<and> truthy t
                   then (map_of props)(''tags'' \<mapsto> the (tags cfg))
                   else map_of props)" for props
        by (cases "tags cfg") (simp_all add: g3_def obj_set_map_of)
      show ?thesis
        unfolding m3 m2 m1 by auto
    qed
    then show "map_of (map g3 (map g2 (map g1 xs)) ! k) key
          = (let cfg = (case OPENAI_API_CONFIGS c j of None \<Rightarrow> empty_config | Some a \<Rightarrow> a)
             in if key = ''tags'' \<and> (\<exists>t. tags cfg = Some t \<and> truthy t) then tags cfg
                else if key = ''id'' \<and> (\<exists>p. prefix_id cfg = Some p \<and> p \<noteq> [])
                then Some (JStr (the (prefix_id cfg) @ ''.''
                                 @ (case getProp (xs ! k) ''id'' of
                                      Some (JStr i) \<Rightarrow> i | _ \<Rightarrow> [])))
                else if key = ''urlIdx'' then Some (JStr (string_of_nat j))
                else if key = ''openai''
                then Some (JObj [(''id'', the (getProp (xs ! k) ''id''))])
                else getProp (xs ! k) key)"
      using k kv by (auto simp add: Let_def cfg_def[symmetric])
  qed
  then show ?thesis using rm by simp
qed

section \<open>The merge of the catalog\<close>

text \<open>
  C3. The base catalog lists the ids \<^verbatim>\<open>local.gpt\<close> and \<^verbatim>\<open>llama\<close>, and a connection with
  the prefix \<^verbatim>\<open>local\<close> and the tag \<^verbatim>\<open>fast\<close> declares \<^verbatim>\<open>gpt\<close>: the result has one entry
  with the id \<^verbatim>\<open>local.gpt\<close>, at the place of the base entry, and it is the connection's
  model with its prefix and tags applied and marked direct. But \<^verbatim>\<open>modelsMap\<close> is an
  object filled by assignment, and an assignment to the key \<^verbatim>\<open>__proto__\<close> stores nothing:
  of a base catalog with the ids \<^verbatim>\<open>__proto__\<close> and \<^verbatim>\<open>llama\<close>, which getModels returns
  whole when it is given no connections, the merge keeps \<^verbatim>\<open>llama\<close> alone, and the result
  has no entry with the id \<^verbatim>\<open>__proto__\<close>.
\<close>

theorem getModels_merge_loses_proto_id:
  \<open>getModels
     (runtime_of
        (net_answer 200 ''{"data": [{"id": "local.gpt", "name": "GPT"}, {"id": "llama"}]}'')
        no_listing)
     ''t'' (Some declaring) False
   = Some (Inr (JArr
       [JObj [(''id'', JStr ''local.gpt''), (''name'', JStr ''gpt''),
              (''owned_by'', JStr ''openai''), (''openai'', JObj [(''id'', JStr ''gpt'')]),
              (''urlIdx'', JStr ''0''), (''tags'', JArr [JStr ''fast'']),
              (''direct'', JBool True)],
        JObj [(''id'', JStr ''llama'')]]))
   \<and> getModels
       (runtime_of
          (net_answer 200 ''{"data": [{"id": "__proto__", "name": "P"}, {"id": "llama"}]}'')
          no_listing)
       ''t'' None False
     = Some (Inr (JArr [JObj [(''id'', JStr ''__proto__''), (''name'', JStr ''P'')],
                        JObj [(''id'', JStr ''llama'')]]))
   \<and> getModels
       (runtime_of
          (net_answer 200 ''{"data": [{"id": "__proto__", "name": "P"}, {"id": "llama"}]}'')
          no_listing)
       ''t'' (Some no_connections) False
     = Some (Inr (JArr [JObj [(''id'', JStr ''llama'')]]))\<close>
  by (intro conjI; code_simp)

section \<open>Connections: responses by position\<close>

lemma map_result_cong2:
  "list_all2 (\<lambda>x y. f x = f y) xs ys \<Longrightarrow> map_result f xs = map_result f ys"
  by (induction rule: list_all2_induct) (simp_all split: sum.splits)

lemma zip_upt: "zip [0..<length rs] rs = map (\<lambda>j. (j, rs ! j)) [0..<length rs]"
  by (rule nth_equalityI) simp_all

lemma localModels_by_position:
  assumes "\<forall>j < length rs. response_models rt c j (rs ! j) = Inr (f j)"
  shows "localModels rt c rs = Inr (concat (map f [0..<length rs]))"
proof -
  have "map_result (\<lambda>(idx, response). response_models rt c idx response)
          (map (\<lambda>j. (j, rs ! j)) [0..<length rs])
        = Inr (map (\<lambda>(j, r). f j) (map (\<lambda>j. (j, rs ! j)) [0..<length rs]))"
    by (rule map_result_all) (use assms in auto)
  then show ?thesis
    by (simp add: localModels_def zip_upt comp_def)
qed

lemma localModels_related:
  assumes "length rs = length rs'"
    and "\<forall>j < length rs. response_models rt c j (rs ! j) = response_models rt c j (rs' ! j)"
  shows "localModels rt c rs = localModels rt c rs'"
proof -
  have "list_all2 (\<lambda>x y. (case x of (idx, response) \<Rightarrow> response_models rt c idx response)
                         = (case y of (idx, response) \<Rightarrow> response_models rt c idx response))
          (zip [0..<length rs] rs) (zip [0..<length rs'] rs')"
    using assms by (simp add: list_all2_conv_all_nth)
  then have "map_result (\<lambda>(idx, response). response_models rt c idx response)
               (zip [0..<length rs] rs)
             = map_result (\<lambda>(idx, response). response_models rt c idx response)
               (zip [0..<length rs'] rs')"
    by (rule map_result_cong2)
  then show ?thesis
    by (simp add: localModels_def)
qed

lemma connection_request_none:
  "(connection_request rt c i \<noteq> None) = (OPENAI_API_CONFIGS c i \<noteq> None)"
  by (auto simp: connection_request_def Let_def split: option.splits)

lemma requests_eq:
  "List.map_filter (connection_request rt c) [0..<length (OPENAI_API_BASE_URLS c)]
   = map (\<lambda>i. the (connection_request rt c i)) (configured_indices c)"
proof -
  have "filter (\<lambda>i. connection_request rt c i \<noteq> None) xs
        = filter (\<lambda>i. OPENAI_API_CONFIGS c i \<noteq> None) xs" for xs
    by (rule filter_cong) (simp_all only: connection_request_none)
  then show ?thesis
    by (simp add: configured_indices_def List.map_filter_def comp_def)
qed

lemma connection_responses_settled:
  assumes "connection_responses rt c = Some rs"
  shows "length rs = length (configured_indices c)
         \<and> (\<forall>j < length rs.
               connection_request rt c (configured_indices c ! j) = Some (Some (rs ! j)))"
proof -
  let ?reqs = "map (\<lambda>i. the (connection_request rt c i)) (configured_indices c)"
  have a: "list_all (\<lambda>r. r \<noteq> None) ?reqs" and rs: "rs = map the ?reqs"
    using assms by (auto simp: connection_responses_def requests_eq Let_def split: if_splits)
  have "connection_request rt c (configured_indices c ! j) = Some (Some (rs ! j))"
    if j: "j < length (configured_indices c)" for j
  proof -
    have "configured_indices c ! j \<in> set (configured_indices c)"
      using j by simp
    then have "OPENAI_API_CONFIGS c (configured_indices c ! j) \<noteq> None"
      by (simp add: configured_indices_def)
    then obtain q where q: "connection_request rt c (configured_indices c ! j) = Some q"
      using connection_request_none[of rt c "configured_indices c ! j"] by auto
    have "?reqs ! j \<noteq> None"
      using a j by (simp add: list_all_length)
    then obtain v where "q = Some v"
      using q j by auto
    then show ?thesis
      using q j rs by simp
  qed
  then show ?thesis using rs by simp
qed

lemma connection_responses_pending:
  "(connection_responses rt c = None)
   = (\<exists>i < length (OPENAI_API_BASE_URLS c). connection_request rt c i = Some None)"
proof -
  let ?reqs = "map (\<lambda>i. the (connection_request rt c i)) (configured_indices c)"
  have "(connection_responses rt c = None) = (\<not> list_all (\<lambda>r. r \<noteq> None) ?reqs)"
    by (simp add: connection_responses_def requests_eq Let_def)
  also have "\<dots> = (\<exists>i \<in> set (configured_indices c). the (connection_request rt c i) = None)"
    by (auto simp: list_all_iff)
  also have "\<dots> = (\<exists>i < length (OPENAI_API_BASE_URLS c). connection_request rt c i = Some None)"
  proof
    assume "\<exists>i \<in> set (configured_indices c). the (connection_request rt c i) = None"
    then obtain i where i: "i \<in> set (configured_indices c)"
      and n: "the (connection_request rt c i) = None" by blast
    from i have "i < length (OPENAI_API_BASE_URLS c)" "OPENAI_API_CONFIGS c i \<noteq> None"
      by (simp_all add: configured_indices_def)
    then obtain q where "connection_request rt c i = Some q"
      using connection_request_none[of rt c i] by auto
    then show "\<exists>i < length (OPENAI_API_BASE_URLS c). connection_request rt c i = Some None"
      using n \<open>i < length (OPENAI_API_BASE_URLS c)\<close> by auto
  next
    assume "\<exists>i < length (OPENAI_API_BASE_URLS c). connection_request rt c i = Some None"
    then obtain i where i: "i < length (OPENAI_API_BASE_URLS c)"
      and n: "connection_request rt c i = Some None" by blast
    then have "OPENAI_API_CONFIGS c i \<noteq> None"
      using connection_request_none[of rt c i] by simp
    then have "i \<in> set (configured_indices c)"
      using i by (simp add: configured_indices_def)
    moreover have "the (connection_request rt c i) = None"
      using n by simp
    ultimately show "\<exists>i \<in> set (configured_indices c). the (connection_request rt c i) = None"
      by blast
  qed
  finally show ?thesis .
qed

lemma initial_segment_iff:
  "(\<forall>j < length (filter P [0..<n]). filter P [0..<n] ! j = j)
   = (\<forall>i i'. i < i' \<and> i' < n \<and> P i' \<longrightarrow> P i)"
proof
  assume a: "\<forall>j < length (filter P [0..<n]). filter P [0..<n] ! j = j"
  have f: "filter P [0..<n] = [0..<length (filter P [0..<n])]"
  proof (rule nth_equalityI)
    show "length (filter P [0..<n]) = length [0..<length (filter P [0..<n])]"
      by simp
    show "filter P [0..<n] ! i = [0..<length (filter P [0..<n])] ! i"
      if "i < length (filter P [0..<n])" for i
      using a that by simp
  qed
  show "\<forall>i i'. i < i' \<and> i' < n \<and> P i' \<longrightarrow> P i"
  proof (intro allI impI)
    fix i i'
    assume h: "i < i' \<and> i' < n \<and> P i'"
    then have "i' \<in> set (filter P [0..<n])" by simp
    then have "i' \<in> set [0..<length (filter P [0..<n])]" using f by metis
    then have "i < length (filter P [0..<n])" using h by simp
    then have "i \<in> set [0..<length (filter P [0..<n])]" by simp
    then have "i \<in> set (filter P [0..<n])" using f by metis
    then show "P i" by simp
  qed
next
  assume "\<forall>i i'. i < i' \<and> i' < n \<and> P i' \<longrightarrow> P i"
  then show "\<forall>j < length (filter P [0..<n]). filter P [0..<n] ! j = j"
  proof (induction n)
    case 0
    then show ?case by simp
  next
    case (Suc n)
    show ?case
    proof (cases "P n")
      case True
      then have "\<forall>i < n. P i" using Suc.prems by blast
      then have "filter P [0..<n] = [0..<n]" by (simp add: filter_id_conv)
      then have "filter P [0..<Suc n] = [0..<Suc n]" using True by simp
      then show ?thesis by (metis length_upt minus_nat.diff_0 nth_upt plus_nat.add_0)
    next
      case False
      then have "filter P [0..<Suc n] = filter P [0..<n]" by simp
      moreover have "\<forall>j < length (filter P [0..<n]). filter P [0..<n] ! j = j"
        using Suc by (metis less_Suc_eq)
      ultimately show ?thesis by simp
    qed
  qed
qed

text \<open>
  C10 as the code has it. In getModels a connection whose index has no entry in
  \<^verbatim>\<open>OPENAI_API_CONFIGS\<close> pushes no request: once the requests have settled, the
  responses are those of the indices that have an entry, in order, with no placeholder
  for the others. The post-processing loop goes through the responses by position and
  \<^verbatim>\<open>localModels\<close> is what it computes for position 0, 1, 2 and so on, in that order.
  Of a response that is, or holds as \<^verbatim>\<open>data\<close>, an array of model objects with string
  ids, the models computed at position \<open>j\<close> have the string of \<open>j\<close> as \<^verbatim>\<open>urlIdx\<close>; their
  id is the \<^verbatim>\<open>prefix_id\<close> of the entry of \<open>j\<close>, a dot and the listed id when that entry has
  a prefix that is not empty, and the listed id when \<open>j\<close> has no entry or its entry no
  such prefix; their tags are the \<^verbatim>\<open>tags\<close> of the entry of \<open>j\<close> when that entry has tags
  that are truthy, and the listed ones otherwise. The position of every response is the
  index it was requested for exactly when no index without an entry comes before an
  index with one.
\<close>

theorem responses_by_position:
  "(\<forall>i. OPENAI_API_CONFIGS c i = None \<longrightarrow> connection_request rt c i = None)
   \<and> (\<forall>rs. connection_responses rt c = Some rs
         \<longrightarrow> length rs = length (configured_indices c)
             \<and> (\<forall>j < length rs.
                   connection_request rt c (configured_indices c ! j) = Some (Some (rs ! j))))
   \<and> (\<forall>rs f. (\<forall>j < length rs. response_models rt c j (rs ! j) = Inr (f j))
         \<longrightarrow> localModels rt c rs = Inr (concat (map f [0..<length rs])))
   \<and> (\<forall>j r xs.
         (if isArray r then r else data_of r) = JArr xs
         \<and> (\<forall>x \<in> set xs. \<exists>kvs i. x = JObj kvs \<and> map_of kvs ''id'' = Some (JStr i))
         \<longrightarrow> (\<exists>ys. response_models rt c j r = Inr ys \<and> length ys = length xs
                \<and> (\<forall>k < length xs.
                      map_of (ys ! k) ''urlIdx'' = Some (JStr (string_of_nat j))
                      \<and> (\<forall>a p i. OPENAI_API_CONFIGS c j = Some a \<and> prefix_id a = Some p
                                 \<and> p \<noteq> [] \<and> getProp (xs ! k) ''id'' = Some (JStr i)
                            \<longrightarrow> map_of (ys ! k) ''id'' = Some (JStr (p @ ''.'' @ i)))
                      \<and> (OPENAI_API_CONFIGS c j = None
                          \<or> (\<exists>a. OPENAI_API_CONFIGS c j = Some a
                                 \<and> (prefix_id a = None \<or> prefix_id a = Some []))
                            \<longrightarrow> map_of (ys ! k) ''id'' = getProp (xs ! k) ''id'')
                      \<and> (\<forall>a t. OPENAI_API_CONFIGS c j = Some a \<and> tags a = Some t \<and> truthy t
                            \<longrightarrow> map_of (ys ! k) ''tags'' = Some t)
                      \<and> (OPENAI_API_CONFIGS c j = None
                          \<or> (\<exists>a. OPENAI_API_CONFIGS c j = Some a
                                 \<and> (tags a = None \<or> (\<exists>t. tags a = Some t \<and> \<not> truthy t)))
                            \<longrightarrow> map_of (ys ! k) ''tags'' = getProp (xs ! k) ''tags''))))
   \<and> ((\<forall>j < length (configured_indices c). configured_indices c ! j = j)
        = (\<forall>i i'. i < i' \<and> i' < length (OPENAI_API_BASE_URLS c)
                   \<and> OPENAI_API_CONFIGS c i' \<noteq> None
             \<longrightarrow> OPENAI_API_CONFIGS c i \<noteq> None))"
proof (intro conjI)
  show "\<forall>i. OPENAI_API_CONFIGS c i = None \<longrightarrow> connection_request rt c i = None"
    using connection_request_none[of rt c] by blast
  show "\<forall>rs. connection_responses rt c = Some rs
         \<longrightarrow> length rs = length (configured_indices c)
             \<and> (\<forall>j < length rs.
                   connection_request rt c (configured_indices c ! j) = Some (Some (rs ! j)))"
    using connection_responses_settled by blast
  show "\<forall>rs f. (\<forall>j < length rs. response_models rt c j (rs ! j) = Inr (f j))
         \<longrightarrow> localModels rt c rs = Inr (concat (map f [0..<length rs]))"
    using localModels_by_position by blast
  show "(\<forall>j < length (configured_indices c). configured_indices c ! j = j)
        = (\<forall>i i'. i < i' \<and> i' < length (OPENAI_API_BASE_URLS c)
                   \<and> OPENAI_API_CONFIGS c i' \<noteq> None
             \<longrightarrow> OPENAI_API_CONFIGS c i \<noteq> None)"
    unfolding configured_indices_def by (rule initial_segment_iff)
  show "\<forall>j r xs.
         (if isArray r then r else data_of r) = JArr xs
         \<and> (\<forall>x \<in> set xs. \<exists>kvs i. x = JObj kvs \<and> map_of kvs ''id'' = Some (JStr i))
         \<longrightarrow> (\<exists>ys. response_models rt c j r = Inr ys \<and> length ys = length xs
                \<and> (\<forall>k < length xs.
                      map_of (ys ! k) ''urlIdx'' = Some (JStr (string_of_nat j))
                      \<and> (\<forall>a p i. OPENAI_API_CONFIGS c j = Some a \<and> prefix_id a = Some p
                                 \<and> p \<noteq> [] \<and> getProp (xs ! k) ''id'' = Some (JStr i)
                            \<longrightarrow> map_of (ys ! k) ''id'' = Some (JStr (p @ ''.'' @ i)))
                      \<and> (OPENAI_API_CONFIGS c j = None
                          \<or> (\<exists>a. OPENAI_API_CONFIGS c j = Some a
                                 \<and> (prefix_id a = None \<or> prefix_id a = Some []))
                            \<longrightarrow> map_of (ys ! k) ''id'' = getProp (xs ! k) ''id'')
                      \<and> (\<forall>a t. OPENAI_API_CONFIGS c j = Some a \<and> tags a = Some t \<and> truthy t
                            \<longrightarrow> map_of (ys ! k) ''tags'' = Some t)
                      \<and> (OPENAI_API_CONFIGS c j = None
                          \<or> (\<exists>a. OPENAI_API_CONFIGS c j = Some a
                                 \<and> (tags a = None \<or> (\<exists>t. tags a = Some t \<and> \<not> truthy t)))
                            \<longrightarrow> map_of (ys ! k) ''tags'' = getProp (xs ! k) ''tags'')))"
  proof (intro allI impI)
    fix j r xs
    assume h: "(if isArray r then r else data_of r) = JArr xs
         \<and> (\<forall>x \<in> set xs. \<exists>kvs i. x = JObj kvs \<and> map_of kvs ''id'' = Some (JStr i))"
    then obtain ys where rm: "response_models rt c j r = Inr ys" and len: "length ys = length xs"
      and mp: "\<And>k key. k < length xs \<Longrightarrow>
                 map_of (ys ! k) key
                 = (let cfg = (case OPENAI_API_CONFIGS c j of None \<Rightarrow> empty_config | Some a \<Rightarrow> a)
                    in if key = ''tags'' \<and> (\<exists>t. tags cfg = Some t \<and> truthy t) then tags cfg
                       else if key = ''id'' \<and> (\<exists>p. prefix_id cfg = Some p \<and> p \<noteq> [])
                       then Some (JStr (the (prefix_id cfg) @ ''.''
                                        @ (case getProp (xs ! k) ''id'' of
                                             Some (JStr i) \<Rightarrow> i | _ \<Rightarrow> [])))
                       else if key = ''urlIdx'' then Some (JStr (string_of_nat j))
                       else if key = ''openai''
                       then Some (JObj [(''id'', the (getProp (xs ! k) ''id''))])
                       else getProp (xs ! k) key)"
      using response_models_listing[of r xs rt c j] by blast
    have "map_of (ys ! k) ''urlIdx'' = Some (JStr (string_of_nat j))
          \<and> (\<forall>a p i. OPENAI_API_CONFIGS c j = Some a \<and> prefix_id a = Some p
                     \<and> p \<noteq> [] \<and> getProp (xs ! k) ''id'' = Some (JStr i)
                \<longrightarrow> map_of (ys ! k) ''id'' = Some (JStr (p @ ''.'' @ i)))
          \<and> (OPENAI_API_CONFIGS c j = None
              \<or> (\<exists>a. OPENAI_API_CONFIGS c j = Some a
                     \<and> (prefix_id a = None \<or> prefix_id a = Some []))
                \<longrightarrow> map_of (ys ! k) ''id'' = getProp (xs ! k) ''id'')
          \<and> (\<forall>a t. OPENAI_API_CONFIGS c j = Some a \<and> tags a = Some t \<and> truthy t
                \<longrightarrow> map_of (ys ! k) ''tags'' = Some t)
          \<and> (OPENAI_API_CONFIGS c j = None
              \<or> (\<exists>a. OPENAI_API_CONFIGS c j = Some a
                     \<and> (tags a = None \<or> (\<exists>t. tags a = Some t \<and> \<not> truthy t)))
                \<longrightarrow> map_of (ys ! k) ''tags'' = getProp (xs ! k) ''tags'')"
      if k: "k < length xs" for k
      by (auto simp: mp[OF k] Let_def empty_config_def)
    then show "\<exists>ys. response_models rt c j r = Inr ys \<and> length ys = length xs
                \<and> (\<forall>k < length xs.
                      map_of (ys ! k) ''urlIdx'' = Some (JStr (string_of_nat j))
                      \<and> (\<forall>a p i. OPENAI_API_CONFIGS c j = Some a \<and> prefix_id a = Some p
                                 \<and> p \<noteq> [] \<and> getProp (xs ! k) ''id'' = Some (JStr i)
                            \<longrightarrow> map_of (ys ! k) ''id'' = Some (JStr (p @ ''.'' @ i)))
                      \<and> (OPENAI_API_CONFIGS c j = None
                          \<or> (\<exists>a. OPENAI_API_CONFIGS c j = Some a
                                 \<and> (prefix_id a = None \<or> prefix_id a = Some []))
                            \<longrightarrow> map_of (ys ! k) ''id'' = getProp (xs ! k) ''id'')
                      \<and> (\<forall>a t. OPENAI_API_CONFIGS c j = Some a \<and> tags a = Some t \<and> truthy t
                            \<longrightarrow> map_of (ys ! k) ''tags'' = Some t)
                      \<and> (OPENAI_API_CONFIGS c j = None
                          \<or> (\<exists>a. OPENAI_API_CONFIGS c j = Some a
                                 \<and> (tags a = None \<or> (\<exists>t. tags a = Some t \<and> \<not> truthy t)))
                            \<longrightarrow> map_of (ys ! k) ''tags'' = getProp (xs ! k) ''tags''))"
      using rm len by blast
  qed
qed

theorem responses_by_position_witness:
  \<open>connection_request
       (runtime_of (net_answer 200 ''{"data": []}'')
          (listing_of [(''http://b'', listed ''x''), (''http://c'', listed ''y'')]))
       later_configured 0 = None
   \<and> configured_indices later_configured = [1, 2]
   \<and> connection_responses
       (runtime_of (net_answer 200 ''{"data": []}'')
          (listing_of [(''http://b'', listed ''x''), (''http://c'', listed ''y'')]))
       later_configured
     = Some [listed ''x'', listed ''y'']
   \<and> (\<exists>ys. response_models
              (runtime_of (net_answer 200 ''{"data": []}'')
                 (listing_of [(''http://b'', listed ''x''), (''http://c'', listed ''y'')]))
              later_configured 1 (listed ''y'') = Inr ys
          \<and> length ys = 1
          \<and> map_of (ys ! 0) ''urlIdx'' = Some (JStr ''1'')
          \<and> map_of (ys ! 0) ''id'' = Some (JStr ''p1.y'')
          \<and> map_of (ys ! 0) ''tags'' = Some (JArr [JStr ''t1'']))
   \<and> getModels
       (runtime_of (net_answer 200 ''{"data": []}'')
          (listing_of [(''http://b'', listed ''x''), (''http://c'', listed ''y'')]))
       ''t'' (Some later_configured) False
     = Some (Inr (JArr
         [JObj [(''id'', JStr ''x''), (''owned_by'', JStr ''openai''),
                (''openai'', JObj [(''id'', JStr ''x'')]), (''urlIdx'', JStr ''0''),
                (''name'', JStr ''x''), (''direct'', JBool True)],
          JObj [(''id'', JStr ''p1.y''), (''owned_by'', JStr ''openai''),
                (''openai'', JObj [(''id'', JStr ''y'')]), (''urlIdx'', JStr ''1''),
                (''tags'', JArr [JStr ''t1'']), (''name'', JStr ''p1.y''),
                (''direct'', JBool True)]]))\<close>
proof -
  let ?rt = \<open>runtime_of (net_answer 200 ''{"data": []}'')
               (listing_of [(''http://b'', listed ''x''), (''http://c'', listed ''y'')])\<close>
  let ?xs = "[JObj [(''id'', JStr ''y''), (''owned_by'', JStr ''openai'')]]"
  let ?a = "\<lparr>enable = None, model_ids = None, prefix_id = Some ''p1'',
              tags = Some (JArr [JStr ''t1''])\<rparr>"
  note t = responses_by_position[of later_configured ?rt]
  have n: "OPENAI_API_CONFIGS later_configured 0 = None"
    by (simp add: later_configured_def)
  have c1: "connection_request ?rt later_configured 0 = None"
    using t[THEN conjunct1] n by blast
  have c2: "configured_indices later_configured = [1, 2]"
    by code_simp
  have c3: "connection_responses ?rt later_configured = Some [listed ''x'', listed ''y'']"
    by code_simp
  have h: "(if isArray (listed ''y'') then listed ''y'' else data_of (listed ''y'')) = JArr ?xs
           \<and> (\<forall>x \<in> set ?xs. \<exists>kvs i. x = JObj kvs \<and> map_of kvs ''id'' = Some (JStr i))"
    by (simp add: listed_def isArray_def data_of_def)
  have cfg: "OPENAI_API_CONFIGS later_configured 1 = Some ?a \<and> prefix_id ?a = Some ''p1''
             \<and> ''p1'' \<noteq> [] \<and> getProp (?xs ! 0) ''id'' = Some (JStr ''y'')"
    by (simp add: later_configured_def)
  have tg: "OPENAI_API_CONFIGS later_configured 1 = Some ?a
            \<and> tags ?a = Some (JArr [JStr ''t1'']) \<and> truthy (JArr [JStr ''t1''])"
    by (simp add: later_configured_def)
  from t[THEN conjunct2, THEN conjunct2, THEN conjunct2, THEN conjunct1,
         rule_format, of "listed ''y''" ?xs 1, OF h]
  obtain ys where rm: "response_models ?rt later_configured 1 (listed ''y'') = Inr ys"
    and len: "length ys = length ?xs"
    and all: "\<forall>k < length ?xs.
                map_of (ys ! k) ''urlIdx'' = Some (JStr (string_of_nat 1))
                \<and> (\<forall>a p i. OPENAI_API_CONFIGS later_configured 1 = Some a \<and> prefix_id a = Some p
                           \<and> p \<noteq> [] \<and> getProp (?xs ! k) ''id'' = Some (JStr i)
                      \<longrightarrow> map_of (ys ! k) ''id'' = Some (JStr (p @ ''.'' @ i)))
                \<and> (OPENAI_API_CONFIGS later_configured 1 = None
                    \<or> (\<exists>a. OPENAI_API_CONFIGS later_configured 1 = Some a
                           \<and> (prefix_id a = None \<or> prefix_id a = Some []))
                      \<longrightarrow> map_of (ys ! k) ''id'' = getProp (?xs ! k) ''id'')
                \<and> (\<forall>a t. OPENAI_API_CONFIGS later_configured 1 = Some a \<and> tags a = Some t
                         \<and> truthy t
                      \<longrightarrow> map_of (ys ! k) ''tags'' = Some t)
                \<and> (OPENAI_API_CONFIGS later_configured 1 = None
                    \<or> (\<exists>a. OPENAI_API_CONFIGS later_configured 1 = Some a
                           \<and> (tags a = None \<or> (\<exists>t. tags a = Some t \<and> \<not> truthy t)))
                      \<longrightarrow> map_of (ys ! k) ''tags'' = getProp (?xs ! k) ''tags'')"
    by blast
  have k0: "(0::nat) < length ?xs" by simp
  note a0 = all[rule_format, OF k0]
  have s1: "string_of_nat 1 = ''1''" by code_simp
  have u: "map_of (ys ! 0) ''urlIdx'' = Some (JStr ''1'')"
    using a0[THEN conjunct1] s1 by simp
  have i: "map_of (ys ! 0) ''id'' = Some (JStr (''p1'' @ ''.'' @ ''y''))"
    using a0[THEN conjunct2, THEN conjunct1] cfg by blast
  have g: "map_of (ys ! 0) ''tags'' = Some (JArr [JStr ''t1''])"
    using a0[THEN conjunct2, THEN conjunct2, THEN conjunct2, THEN conjunct1] tg by blast
  have c4: "\<exists>ys. response_models ?rt later_configured 1 (listed ''y'') = Inr ys
          \<and> length ys = 1
          \<and> map_of (ys ! 0) ''urlIdx'' = Some (JStr ''1'')
          \<and> map_of (ys ! 0) ''id'' = Some (JStr ''p1.y'')
          \<and> map_of (ys ! 0) ''tags'' = Some (JArr [JStr ''t1''])"
    using rm len u i g by simp
  have c5: "getModels ?rt ''t'' (Some later_configured) False
     = Some (Inr (JArr
         [JObj [(''id'', JStr ''x''), (''owned_by'', JStr ''openai''),
                (''openai'', JObj [(''id'', JStr ''x'')]), (''urlIdx'', JStr ''0''),
                (''name'', JStr ''x''), (''direct'', JBool True)],
          JObj [(''id'', JStr ''p1.y''), (''owned_by'', JStr ''openai''),
                (''openai'', JObj [(''id'', JStr ''y'')]), (''urlIdx'', JStr ''1''),
                (''tags'', JArr [JStr ''t1'']), (''name'', JStr ''p1.y''),
                (''direct'', JBool True)]]))"
    by code_simp
  show ?thesis
    using c1 c2 c3 c4 c5 by (intro conjI)
qed

text \<open>
  The claim fails in its last clause. With two connections of which only the first
  has an entry, the one response stands at position 0 and was requested for index 0: it
  gets the prefix and the tags of its own entry and the \<^verbatim>\<open>urlIdx\<close> of its own index.
  Position and index coincide for every response, although index 1 has no entry.
\<close>

theorem positions_coincide_with_missing_entry:
  \<open>configured_indices first_configured = [0]
   \<and> length (OPENAI_API_BASE_URLS first_configured) = 2
   \<and> OPENAI_API_CONFIGS first_configured 1 = None
   \<and> connection_responses
       (runtime_of (net_answer 200 ''{"data": []}'') (listing_of [(''http://a'', listed ''llama3'')]))
       first_configured
     = Some [listed ''llama3'']
   \<and> getModels
       (runtime_of (net_answer 200 ''{"data": []}'') (listing_of [(''http://a'', listed ''llama3'')]))
       ''t'' (Some first_configured) False
     = Some (Inr (JArr
         [JObj [(''id'', JStr ''p0.llama3''), (''owned_by'', JStr ''openai''),
                (''openai'', JObj [(''id'', JStr ''llama3'')]), (''urlIdx'', JStr ''0''),
                (''tags'', JArr [JStr ''t0'']), (''name'', JStr ''p0.llama3''),
                (''direct'', JBool True)]]))\<close>
  by (intro conjI; code_simp)

section \<open>Connections: failures\<close>

lemma Object_entries_mset: "mset (Object_entries obj) = mset obj"
  by (simp add: Object_entries_def)

lemma Object_entries_set: "set (Object_entries obj) = set obj"
  using Object_entries_mset[of obj] by (metis set_mset_mset)

lemma obj_set_entries: "set (obj_set obj k v) \<subseteq> insert (k, v) (set obj)"
  by (auto simp: obj_set_def split: if_splits)

lemma fill_map_plain:
  assumes "\<forall>m \<in> set ms. m \<noteq> JNull \<and> property_key nts (getProp m ''id'') = Inr (kf m)
                         \<and> kf m \<noteq> ''__proto__''"
  shows "fill_map nts ms (own, b) = Inr (foldl (\<lambda>obj m. obj_set obj (kf m) m) own ms, b)"
  using assms by (induction ms arbitrary: own) (simp_all add: assign_def)

lemma fold_keys:
  "fst ` set (foldl (\<lambda>obj m. obj_set obj (kf m) m) acc ms) = fst ` set acc \<union> kf ` set ms"
  by (induction ms arbitrary: acc) (auto simp: obj_set_keys)

lemma fold_entries:
  "\<forall>(k, v) \<in> set acc. kf v = k \<and> v \<in> S \<Longrightarrow> set ms \<subseteq> S
   \<Longrightarrow> \<forall>(k, v) \<in> set (foldl (\<lambda>obj m. obj_set obj (kf m) m) acc ms). kf v = k \<and> v \<in> S"
proof (induction ms arbitrary: acc)
  case Nil
  then show ?case by simp
next
  case (Cons m ms)
  have "\<forall>(k, v) \<in> set (obj_set acc (kf m) m). kf v = k \<and> v \<in> S"
    using Cons.prems obj_set_entries[of acc "kf m" m] by auto
  then show ?case using Cons.IH Cons.prems(2) by simp
qed

lemma merged_present:
  assumes "m \<in> set ms"
  shows "\<exists>v \<in> set (Object_values (foldl (\<lambda>obj m. obj_set obj (kf m) m) [] ms)).
           kf v = kf m \<and> v \<in> set ms"
proof -
  let ?fold = "foldl (\<lambda>obj m. obj_set obj (kf m) m) [] ms"
  have "kf m \<in> fst ` set ?fold"
    using assms by (simp add: fold_keys)
  then obtain v where kv: "(kf m, v) \<in> set ?fold"
    by force
  have "\<forall>(k, v) \<in> set ?fold. kf v = k \<and> v \<in> set ms"
    by (rule fold_entries) simp_all
  then have "kf v = kf m \<and> v \<in> set ms"
    using kv by auto
  moreover have "v \<in> set (Object_values ?fold)"
    using kv by (force simp: Object_values_def Object_entries_set)
  ultimately show ?thesis by blast
qed

lemma mark_direct_id: "getProp (mark_direct props) ''id'' = map_of props ''id''"
proof -
  have "map_of (filter (\<lambda>(k, v). k \<noteq> ''name'') (Object_entries props)) ''id''
        = map_of props ''id''"
    using map_of_filter_key[of "\<lambda>k. k \<noteq> ''name''" "Object_entries props" "''id''"]
    by (simp add: Object_entries_map_of)
  then show ?thesis
    by (simp add: mark_direct_def Let_def obj_set_map_of Object_entries_map_of
             split: option.splits)
qed

lemma mark_direct_object: "mark_direct props \<noteq> JNull"
  by (simp add: mark_direct_def Let_def)

lemma merge_models_plain:
  assumes "\<forall>m \<in> set (bs @ map mark_direct ls).
             m \<noteq> JNull \<and> property_key (Number_toString rt) (getProp m ''id'') = Inr (kf m)
             \<and> kf m \<noteq> ''__proto__''"
  shows "merge_models rt (JArr bs) ls
         = Inr (JArr (Object_values
                        (foldl (\<lambda>obj m. obj_set obj (kf m) m) [] (bs @ map mark_direct ls))))"
  by (simp add: merge_models_def models_concat_def iterate_def empty_object_def
                fill_map_plain[OF assms])

lemma response_models_empty:
  "response_models rt c j (JObj [(''object'', JStr ''list''), (''data'', JArr []), (''urlIdx'', u)])
   = Inr []"
  "response_models rt c j (JObj [(''object'', JStr ''list''), (''data'', JArr [])]) = Inr []"
  by (simp_all add: response_models_def isArray_def data_of_def Let_def split: option.splits)

lemma listing_update_res_json:
  "res_json (rt\<lparr>getOpenAIModelsDirect := g\<rparr>) = res_json rt"
  by (intro ext) (simp add: res_json_def split: sum.splits)

lemma listing_update_request:
  "getModels_request (rt\<lparr>getOpenAIModelsDirect := g\<rparr>) = getModels_request rt"
  by (intro ext) (simp add: getModels_request_def WEBUI_BASE_URL_def WEBUI_HOSTNAME_def)

lemma listing_update_fetch_json:
  "fetch_json (rt\<lparr>getOpenAIModelsDirect := g\<rparr>) = fetch_json rt"
  by (intro ext) (simp add: fetch_json_def listing_update_res_json split: fetch_result.splits)

lemma listing_update_Number_toString:
  "Number_toString (rt\<lparr>getOpenAIModelsDirect := g\<rparr>) = Number_toString rt"
  by simp

lemma listing_update_response_models:
  "response_models (rt\<lparr>getOpenAIModelsDirect := g\<rparr>) c j r = response_models rt c j r"
  unfolding response_models_def listing_update_Number_toString by (rule refl)

lemma listing_update_localModels:
  "localModels (rt\<lparr>getOpenAIModelsDirect := g\<rparr>) c rs = localModels rt c rs"
  unfolding localModels_def listing_update_response_models by (rule refl)

lemma listing_update_merge_models:
  "merge_models (rt\<lparr>getOpenAIModelsDirect := g\<rparr>) models ls = merge_models rt models ls"
  unfolding merge_models_def listing_update_Number_toString by (rule refl)

lemma connection_request_as_empty:
  "connection_request
     (rt\<lparr>getOpenAIModelsDirect :=
           \<lambda>url key. case getOpenAIModelsDirect rt url key of
                        Some (Inl err) \<Rightarrow>
                          Some (Inr (JObj [(''object'', JStr ''list''), (''data'', JArr [])]))
                      | r \<Rightarrow> r\<rparr>) c i
   = connection_request rt c i
   \<or> (\<exists>u. connection_request rt c i
            = Some (Some (JObj [(''object'', JStr ''list''), (''data'', JArr []), (''urlIdx'', u)]))
        \<and> connection_request
             (rt\<lparr>getOpenAIModelsDirect :=
                   \<lambda>url key. case getOpenAIModelsDirect rt url key of
                                Some (Inl err) \<Rightarrow>
                                  Some (Inr (JObj [(''object'', JStr ''list''),
                                                   (''data'', JArr [])]))
                              | r \<Rightarrow> r\<rparr>) c i
            = Some (Some (JObj [(''object'', JStr ''list''), (''data'', JArr [])])))"
  by (auto simp: connection_request_def Let_def split: option.splits sum.splits)

lemma getModels_as_empty:
  "getModels
     (rt\<lparr>getOpenAIModelsDirect :=
           \<lambda>url key. case getOpenAIModelsDirect rt url key of
                        Some (Inl err) \<Rightarrow>
                          Some (Inr (JObj [(''object'', JStr ''list''), (''data'', JArr [])]))
                      | r \<Rightarrow> r\<rparr>) token conns base
   = getModels rt token conns base"
proof -
  let ?g = "\<lambda>url key. case getOpenAIModelsDirect rt url key of
                        Some (Inl err) \<Rightarrow>
                          Some (Inr (JObj [(''object'', JStr ''list''), (''data'', JArr [])]))
                      | r \<Rightarrow> r"
  let ?rt' = "rt\<lparr>getOpenAIModelsDirect := ?g\<rparr>"
  have same: "(case connection_responses ?rt' c of
                 None \<Rightarrow> None
               | Some responses \<Rightarrow>
                   (case localModels ?rt' c responses of
                      Inl e \<Rightarrow> Some (Inl (ThrownError e))
                    | Inr local \<Rightarrow>
                        (case merge_models ?rt' models local of
                           Inl e \<Rightarrow> Some (Inl (ThrownError e))
                         | Inr merged \<Rightarrow> Some (Inr merged))))
              = (case connection_responses rt c of
                   None \<Rightarrow> None
                 | Some responses \<Rightarrow>
                     (case localModels rt c responses of
                        Inl e \<Rightarrow> Some (Inl (ThrownError e))
                      | Inr local \<Rightarrow>
                          (case merge_models rt models local of
                             Inl e \<Rightarrow> Some (Inl (ThrownError e))
                           | Inr merged \<Rightarrow> Some (Inr merged))))" for c models
  proof -
    have pend: "(connection_request ?rt' c i = Some None) = (connection_request rt c i = Some None)"
      for i
      using connection_request_as_empty[of rt c i] by auto
    have none: "(connection_responses ?rt' c = None) = (connection_responses rt c = None)"
      by (simp only: connection_responses_pending pend)
    show ?thesis
    proof (cases "connection_responses rt c")
      case None
      then show ?thesis using none by simp
    next
      case (Some rs)
      then obtain rs' where rs': "connection_responses ?rt' c = Some rs'"
        using none by (cases "connection_responses ?rt' c") auto
      have l: "length rs = length (configured_indices c)"
        and r: "\<And>j. j < length rs \<Longrightarrow>
                  connection_request rt c (configured_indices c ! j) = Some (Some (rs ! j))"
        using connection_responses_settled[OF Some] by simp_all
      have l': "length rs' = length (configured_indices c)"
        and r': "\<And>j. j < length rs' \<Longrightarrow>
                  connection_request ?rt' c (configured_indices c ! j) = Some (Some (rs' ! j))"
        using connection_responses_settled[OF rs'] by simp_all
      have "response_models rt c j (rs' ! j) = response_models rt c j (rs ! j)"
        if j: "j < length rs" for j
        using connection_request_as_empty[of rt c "configured_indices c ! j"]
              r[OF j] r'[of j] j l l'
        by (auto simp: response_models_empty)
      then have lm: "localModels rt c rs' = localModels rt c rs"
        using l l' by (intro localModels_related) simp_all
      show ?thesis
        unfolding Some rs' listing_update_localModels listing_update_merge_models
        by (simp add: lm)
    qed
  qed
  show ?thesis
    unfolding getModels_def listing_update_fetch_json listing_update_request same
    by (rule refl)
qed

lemma dot_not_proto: "p @ CHR ''.'' # i \<noteq> ''__proto__''"
proof
  assume "p @ CHR ''.'' # i = ''__proto__''"
  then have "CHR ''.'' \<in> set ''__proto__''"
    by (metis in_set_conv_decomp)
  then show False by simp
qed

text \<open>
  C6. In getModels, once the base catalog is fetched. A connection with an entry,
  enabled and without model ids, whose listing rejects has the empty list
  \<^verbatim>\<open>{object: 'list', data: [], urlIdx: idx}\<close> as its response, whatever the rejection
  carries (the code sets no timer of its own: a time-out or an unreachable host reaches
  getModels as the rejection of the listing), and the loop computes no model from that
  response at any position. getModels does exactly what it would do had every rejected
  listing answered with an empty list: the same result, the same error, the same
  waiting. When the base data and what every response lists are arrays of model objects
  with string ids other than \<^verbatim>\<open>__proto__\<close>, getModels returns an array that has, for
  every base model and for every model computed for any response, an entry with the id
  of that model. And getModels waits for every request it has pushed: it never returns
  exactly when one of them never settles.
\<close>

theorem getModels_isolates_failures:
  assumes "fetch_json rt (getModels_request rt token False) = Inr res"
  shows "(\<forall>i apiConfig err.
            OPENAI_API_CONFIGS c i = Some apiConfig
            \<and> enable apiConfig \<noteq> Some False
            \<and> (model_ids apiConfig = None \<or> model_ids apiConfig = Some [])
            \<and> getOpenAIModelsDirect rt (OPENAI_API_BASE_URLS c ! i)
                 (if i < length (OPENAI_API_KEYS c) then Some (OPENAI_API_KEYS c ! i) else None)
               = Some (Inl err)
            \<longrightarrow> connection_request rt c i
                  = Some (Some (JObj [(''object'', JStr ''list''), (''data'', JArr []),
                                      (''urlIdx'', JStr (string_of_nat i))]))
                \<and> (\<forall>j. response_models rt c j
                          (JObj [(''object'', JStr ''list''), (''data'', JArr []),
                                 (''urlIdx'', JStr (string_of_nat i))])
                        = Inr []))
       \<and> getModels rt token (Some c) False
           = getModels
               (rt\<lparr>getOpenAIModelsDirect :=
                     \<lambda>url key. case getOpenAIModelsDirect rt url key of
                                  Some (Inl err) \<Rightarrow>
                                    Some (Inr (JObj [(''object'', JStr ''list''),
                                                     (''data'', JArr [])]))
                                | r \<Rightarrow> r\<rparr>) token (Some c) False
       \<and> (\<forall>bs rs.
            data_of res = JArr bs \<and> connection_responses rt c = Some rs
            \<and> (\<forall>b \<in> set bs. \<exists>kvs i. b = JObj kvs \<and> map_of kvs ''id'' = Some (JStr i)
                                   \<and> i \<noteq> ''__proto__'')
            \<and> (\<forall>j < length rs.
                  \<exists>xs. (if isArray (rs ! j) then rs ! j else data_of (rs ! j)) = JArr xs
                     \<and> (\<forall>x \<in> set xs. \<exists>kvs i. x = JObj kvs \<and> map_of kvs ''id'' = Some (JStr i)
                                            \<and> i \<noteq> ''__proto__''))
            \<longrightarrow> (\<exists>vs. getModels rt token (Some c) False = Some (Inr (JArr vs))
                   \<and> (\<forall>b \<in> set bs. \<exists>v \<in> set vs. getProp v ''id'' = getProp b ''id'')
                   \<and> (\<forall>j < length rs.
                         \<exists>ys. response_models rt c j (rs ! j) = Inr ys
                            \<and> (\<forall>y \<in> set ys. \<exists>v \<in> set vs. getProp v ''id'' = map_of y ''id''))))
       \<and> ((getModels rt token (Some c) False = None)
           = (\<exists>i < length (OPENAI_API_BASE_URLS c). connection_request rt c i = Some None))"
proof (intro conjI allI impI)
  fix i apiConfig err
  assume h: "OPENAI_API_CONFIGS c i = Some apiConfig
            \<and> enable apiConfig \<noteq> Some False
            \<and> (model_ids apiConfig = None \<or> model_ids apiConfig = Some [])
            \<and> getOpenAIModelsDirect rt (OPENAI_API_BASE_URLS c ! i)
                 (if i < length (OPENAI_API_KEYS c) then Some (OPENAI_API_KEYS c ! i) else None)
               = Some (Inl err)"
  then show "connection_request rt c i
                  = Some (Some (JObj [(''object'', JStr ''list''), (''data'', JArr []),
                                      (''urlIdx'', JStr (string_of_nat i))]))"
    by (cases "enable apiConfig") (auto simp: connection_request_def Let_def)
  show "response_models rt c j
          (JObj [(''object'', JStr ''list''), (''data'', JArr []),
                 (''urlIdx'', JStr (string_of_nat i))])
        = Inr []" for j
    by (rule response_models_empty)
next
  show "getModels rt token (Some c) False
           = getModels
               (rt\<lparr>getOpenAIModelsDirect :=
                     \<lambda>url key. case getOpenAIModelsDirect rt url key of
                                  Some (Inl err) \<Rightarrow>
                                    Some (Inr (JObj [(''object'', JStr ''list''),
                                                     (''data'', JArr [])]))
                                | r \<Rightarrow> r\<rparr>) token (Some c) False"
    by (rule getModels_as_empty[symmetric])
next
  have "getModels rt token (Some c) False
        = (case connection_responses rt c of
             None \<Rightarrow> None
           | Some responses \<Rightarrow>
               (case localModels rt c responses of
                  Inl e \<Rightarrow> Some (Inl (ThrownError e))
                | Inr local \<Rightarrow>
                    (case merge_models rt (data_of res) local of
                       Inl e \<Rightarrow> Some (Inl (ThrownError e))
                     | Inr merged \<Rightarrow> Some (Inr merged))))"
    using assms by (simp add: getModels_def)
  then have "(getModels rt token (Some c) False = None) = (connection_responses rt c = None)"
    by (simp split: option.splits sum.splits)
  then show "(getModels rt token (Some c) False = None)
           = (\<exists>i < length (OPENAI_API_BASE_URLS c). connection_request rt c i = Some None)"
    by (simp only: connection_responses_pending)
next
  fix bs rs
  assume h: "data_of res = JArr bs \<and> connection_responses rt c = Some rs
            \<and> (\<forall>b \<in> set bs. \<exists>kvs i. b = JObj kvs \<and> map_of kvs ''id'' = Some (JStr i)
                                   \<and> i \<noteq> ''__proto__'')
            \<and> (\<forall>j < length rs.
                  \<exists>xs. (if isArray (rs ! j) then rs ! j else data_of (rs ! j)) = JArr xs
                     \<and> (\<forall>x \<in> set xs. \<exists>kvs i. x = JObj kvs \<and> map_of kvs ''id'' = Some (JStr i)
                                            \<and> i \<noteq> ''__proto__''))"
  then have d: "data_of res = JArr bs" and cr: "connection_responses rt c = Some rs"
    and wb: "\<forall>b \<in> set bs. \<exists>kvs i. b = JObj kvs \<and> map_of kvs ''id'' = Some (JStr i)
                                   \<and> i \<noteq> ''__proto__''"
    and wr: "\<forall>j < length rs.
                  \<exists>xs. (if isArray (rs ! j) then rs ! j else data_of (rs ! j)) = JArr xs
                     \<and> (\<forall>x \<in> set xs. \<exists>kvs i. x = JObj kvs \<and> map_of kvs ''id'' = Some (JStr i)
                                            \<and> i \<noteq> ''__proto__'')"
    by simp_all
  define f where "f = (\<lambda>j. projr (response_models rt c j (rs ! j)))"
  define kf where "kf = (\<lambda>m. case getProp m ''id'' of Some (JStr s) \<Rightarrow> s | _ \<Rightarrow> [])"
  have rmj: "response_models rt c j (rs ! j) = Inr (f j)
             \<and> (\<forall>y \<in> set (f j). \<exists>s. map_of y ''id'' = Some (JStr s) \<and> s \<noteq> ''__proto__'')"
    if j: "j < length rs" for j
  proof -
    from wr j obtain xs where
      xs: "(if isArray (rs ! j) then rs ! j else data_of (rs ! j)) = JArr xs"
      and wx: "\<forall>x \<in> set xs. \<exists>kvs i. x = JObj kvs \<and> map_of kvs ''id'' = Some (JStr i)
                                  \<and> i \<noteq> ''__proto__''"
      by blast
    have wx': "\<forall>x \<in> set xs. \<exists>kvs i. x = JObj kvs \<and> map_of kvs ''id'' = Some (JStr i)"
      using wx by blast
    obtain ys where rm: "response_models rt c j (rs ! j) = Inr ys"
      and len: "length ys = length xs"
      and mp: "\<And>k key. k < length xs \<Longrightarrow>
                 map_of (ys ! k) key
                 = (let cfg = (case OPENAI_API_CONFIGS c j of None \<Rightarrow> empty_config | Some a \<Rightarrow> a)
                    in if key = ''tags'' \<and> (\<exists>t. tags cfg = Some t \<and> truthy t) then tags cfg
                       else if key = ''id'' \<and> (\<exists>p. prefix_id cfg = Some p \<and> p \<noteq> [])
                       then Some (JStr (the (prefix_id cfg) @ ''.''
                                        @ (case getProp (xs ! k) ''id'' of
                                             Some (JStr i) \<Rightarrow> i | _ \<Rightarrow> [])))
                       else if key = ''urlIdx'' then Some (JStr (string_of_nat j))
                       else if key = ''openai''
                       then Some (JObj [(''id'', the (getProp (xs ! k) ''id''))])
                       else getProp (xs ! k) key)"
      using response_models_listing[OF xs wx', of rt c j] by blast
    have "\<exists>s. map_of y ''id'' = Some (JStr s) \<and> s \<noteq> ''__proto__''" if y: "y \<in> set ys" for y
    proof -
      from y obtain k where k: "k < length xs" and yk: "y = ys ! k"
        using len by (metis in_set_conv_nth)
      from wx k obtain kvs i where "xs ! k = JObj kvs" "map_of kvs ''id'' = Some (JStr i)"
        "i \<noteq> ''__proto__''"
        by (meson nth_mem)
      then show ?thesis
        unfolding yk mp[OF k] Let_def by (auto simp: dot_not_proto)
    qed
    then show ?thesis
      using rm by (simp add: f_def)
  qed
  have lm: "localModels rt c rs = Inr (concat (map f [0..<length rs]))"
    by (rule localModels_by_position) (use rmj in blast)
  let ?ls = "concat (map f [0..<length rs])"
  let ?merged = "bs @ map mark_direct ?ls"
  let ?vs = "Object_values (foldl (\<lambda>obj m. obj_set obj (kf m) m) [] ?merged)"
  have wl: "\<exists>s. map_of l ''id'' = Some (JStr s) \<and> s \<noteq> ''__proto__''" if "l \<in> set ?ls" for l
    using that rmj by auto
  have wm: "m \<noteq> JNull \<and> getProp m ''id'' = Some (JStr (kf m)) \<and> kf m \<noteq> ''__proto__''"
    if m: "m \<in> set ?merged" for m
  proof (cases "m \<in> set bs")
    case True
    then show ?thesis using wb by (auto simp: kf_def)
  next
    case False
    then obtain l where l: "l \<in> set ?ls" and ml: "m = mark_direct l"
      using m by auto
    from wl[OF l] obtain s where "map_of l ''id'' = Some (JStr s)" "s \<noteq> ''__proto__''"
      by blast
    then show ?thesis
      by (simp add: ml mark_direct_object mark_direct_id kf_def)
  qed
  have "\<forall>m \<in> set ?merged.
          m \<noteq> JNull \<and> property_key (Number_toString rt) (getProp m ''id'') = Inr (kf m)
          \<and> kf m \<noteq> ''__proto__''"
    using wm by (simp add: property_key_def)
  then have mm: "merge_models rt (JArr bs) ?ls = Inr (JArr ?vs)"
    by (rule merge_models_plain)
  have g: "getModels rt token (Some c) False = Some (Inr (JArr ?vs))"
    using assms by (simp add: getModels_def d cr lm mm)
  have present: "\<exists>v \<in> set ?vs. getProp v ''id'' = getProp m ''id''" if m: "m \<in> set ?merged" for m
  proof -
    from merged_present[OF m, of kf] obtain v where
      v: "v \<in> set ?vs" and k: "kf v = kf m" and vm: "v \<in> set ?merged"
      by blast
    have "getProp v ''id'' = getProp m ''id''"
      using wm[OF vm] wm[OF m] k by simp
    then show ?thesis using v by blast
  qed
  have base: "\<forall>b \<in> set bs. \<exists>v \<in> set ?vs. getProp v ''id'' = getProp b ''id''"
    using present by simp
  have conn: "\<forall>j < length rs.
                \<exists>ys. response_models rt c j (rs ! j) = Inr ys
                   \<and> (\<forall>y \<in> set ys. \<exists>v \<in> set ?vs. getProp v ''id'' = map_of y ''id'')"
  proof (intro allI impI)
    fix j assume j: "j < length rs"
    have "\<exists>v \<in> set ?vs. getProp v ''id'' = map_of y ''id''" if y: "y \<in> set (f j)" for y
    proof -
      have "y \<in> set ?ls" using y j by auto
      then have "mark_direct y \<in> set ?merged" by simp
      from present[OF this] show ?thesis by (simp add: mark_direct_id)
    qed
    then show "\<exists>ys. response_models rt c j (rs ! j) = Inr ys
                   \<and> (\<forall>y \<in> set ys. \<exists>v \<in> set ?vs. getProp v ''id'' = map_of y ''id'')"
      using rmj[OF j] by blast
  qed
  show "\<exists>vs. getModels rt token (Some c) False = Some (Inr (JArr vs))
                   \<and> (\<forall>b \<in> set bs. \<exists>v \<in> set vs. getProp v ''id'' = getProp b ''id'')
                   \<and> (\<forall>j < length rs.
                         \<exists>ys. response_models rt c j (rs ! j) = Inr ys
                            \<and> (\<forall>y \<in> set ys. \<exists>v \<in> set vs. getProp v ''id'' = map_of y ''id''))"
    using g base conn by blast
qed

theorem getModels_isolates_failures_witness:
  \<open>connection_request
       (runtime_of (net_answer 200 ''{"data": [{"id": "gpt", "name": "GPT"}]}'')
          (listing_of [(''http://b'', listed ''llama3'')]))
       listing_two 0
     = Some (Some (JObj [(''object'', JStr ''list''), (''data'', JArr []),
                         (''urlIdx'', JStr ''0'')]))
   \<and> (\<exists>vs. getModels
              (runtime_of (net_answer 200 ''{"data": [{"id": "gpt", "name": "GPT"}]}'')
                 (listing_of [(''http://b'', listed ''llama3'')]))
              ''t'' (Some listing_two) False
            = Some (Inr (JArr vs))
          \<and> (\<exists>v \<in> set vs. getProp v ''id'' = Some (JStr ''gpt'')))
   \<and> getModels
       (runtime_of (net_answer 200 ''{"data": [{"id": "gpt", "name": "GPT"}]}'')
          (listing_of [(''http://b'', listed ''llama3'')]))
       ''t'' (Some listing_two) False
     = Some (Inr (JArr
         [JObj [(''id'', JStr ''gpt''), (''name'', JStr ''GPT'')],
          JObj [(''id'', JStr ''local.llama3''), (''owned_by'', JStr ''openai''),
                (''openai'', JObj [(''id'', JStr ''llama3'')]), (''urlIdx'', JStr ''1''),
                (''name'', JStr ''local.llama3''), (''direct'', JBool True)]]))
   \<and> getModels
       (runtime_of (net_answer 200 ''{"data": [{"id": "gpt", "name": "GPT"}]}'') silent_listing)
       ''t'' (Some listing_two) False
     = None\<close>
proof -
  let ?net = \<open>net_answer 200 ''{"data": [{"id": "gpt", "name": "GPT"}]}''\<close>
  let ?rt = "runtime_of ?net (listing_of [(''http://b'', listed ''llama3'')])"
  let ?rt2 = "runtime_of ?net silent_listing"
  let ?res = "JObj [(''data'', JArr [JObj [(''id'', JStr ''gpt''), (''name'', JStr ''GPT'')]])]"
  let ?bs = "[JObj [(''id'', JStr ''gpt''), (''name'', JStr ''GPT'')]]"
  let ?rs = "[JObj [(''object'', JStr ''list''), (''data'', JArr []), (''urlIdx'', JStr ''0'')],
              listed ''llama3'']"
  have f: "fetch_json ?rt (getModels_request ?rt ''t'' False) = Inr ?res"
    by code_simp
  have f2: "fetch_json ?rt2 (getModels_request ?rt2 ''t'' False) = Inr ?res"
    by code_simp
  note t = getModels_isolates_failures[OF f, of listing_two]
  note t2 = getModels_isolates_failures[OF f2, of listing_two]
  have h: "OPENAI_API_CONFIGS listing_two 0 = Some empty_config
           \<and> enable empty_config \<noteq> Some False
           \<and> (model_ids empty_config = None \<or> model_ids empty_config = Some [])
           \<and> getOpenAIModelsDirect ?rt (OPENAI_API_BASE_URLS listing_two ! 0)
                (if 0 < length (OPENAI_API_KEYS listing_two)
                 then Some (OPENAI_API_KEYS listing_two ! 0) else None)
              = Some (Inl (ThrownValue (JStr ''OpenAI: Network Problem'')))"
    by (simp add: listing_two_def empty_config_def runtime_of_def listing_of_def)
  have s0: "string_of_nat 0 = ''0''" by code_simp
  have c1: "connection_request ?rt listing_two 0
            = Some (Some (JObj [(''object'', JStr ''list''), (''data'', JArr []),
                                (''urlIdx'', JStr ''0'')]))"
    using t[THEN conjunct1, rule_format, OF h, THEN conjunct1] s0 by simp
  have d: "data_of ?res = JArr ?bs"
    by (simp add: data_of_def)
  have cr: "connection_responses ?rt listing_two = Some ?rs"
    by code_simp
  have wb: "\<forall>b \<in> set ?bs. \<exists>kvs i. b = JObj kvs \<and> map_of kvs ''id'' = Some (JStr i)
                                   \<and> i \<noteq> ''__proto__''"
    by simp
  have wr: "\<forall>j < length ?rs.
              \<exists>xs. (if isArray (?rs ! j) then ?rs ! j else data_of (?rs ! j)) = JArr xs
                 \<and> (\<forall>x \<in> set xs. \<exists>kvs i. x = JObj kvs \<and> map_of kvs ''id'' = Some (JStr i)
                                        \<and> i \<noteq> ''__proto__'')"
  proof (intro allI impI)
    fix j assume "j < length ?rs"
    then have "j = 0 \<or> j = 1" by auto
    then show "\<exists>xs. (if isArray (?rs ! j) then ?rs ! j else data_of (?rs ! j)) = JArr xs
                 \<and> (\<forall>x \<in> set xs. \<exists>kvs i. x = JObj kvs \<and> map_of kvs ''id'' = Some (JStr i)
                                        \<and> i \<noteq> ''__proto__'')"
      by (auto simp: listed_def isArray_def data_of_def)
  qed
  from t[THEN conjunct2, THEN conjunct2, THEN conjunct1, rule_format, of ?bs ?rs] d cr wb wr
  obtain vs where g: "getModels ?rt ''t'' (Some listing_two) False = Some (Inr (JArr vs))"
    and b: "\<forall>b \<in> set ?bs. \<exists>v \<in> set vs. getProp v ''id'' = getProp b ''id''"
    by blast
  have c2: "\<exists>vs. getModels ?rt ''t'' (Some listing_two) False = Some (Inr (JArr vs))
              \<and> (\<exists>v \<in> set vs. getProp v ''id'' = Some (JStr ''gpt''))"
    using g b by auto
  have c3: "getModels ?rt ''t'' (Some listing_two) False
     = Some (Inr (JArr
         [JObj [(''id'', JStr ''gpt''), (''name'', JStr ''GPT'')],
          JObj [(''id'', JStr ''local.llama3''), (''owned_by'', JStr ''openai''),
                (''openai'', JObj [(''id'', JStr ''llama3'')]), (''urlIdx'', JStr ''1''),
                (''name'', JStr ''local.llama3''), (''direct'', JBool True)]]))"
    by code_simp
  have p: "connection_request ?rt2 listing_two 0 = Some None"
    by code_simp
  have "\<exists>i < length (OPENAI_API_BASE_URLS listing_two).
          connection_request ?rt2 listing_two i = Some None"
    using p by (intro exI[of _ 0]) (simp add: listing_two_def)
  then have c4: "getModels ?rt2 ''t'' (Some listing_two) False = None"
    using t2[THEN conjunct2, THEN conjunct2, THEN conjunct2] by blast
  show ?thesis
    using c1 c2 c3 c4 by (intro conjI)
qed

section \<open>The URL of a tool call\<close>

text \<open>
  C9. With the path template \<^verbatim>\<open>/items/{id}\<close>, the path parameter \<^verbatim>\<open>id\<close>, the query
  parameter \<^verbatim>\<open>verbose\<close> and the arguments \<^verbatim>\<open>{id: "42", verbose: "true", extra: "x"}\<close>,
  executeToolServer requests \<^verbatim>\<open>http://h/items/42?verbose=true\<close>: the placeholder is
  replaced, the query parameter is appended, the argument that is not declared is left
  out. But the placeholder is searched for as a regular expression made of the
  parameter name as it is. With the template \<^verbatim>\<open>/items/{1}\<close>, the path parameter \<^verbatim>\<open>1\<close>
  and the arguments \<^verbatim>\<open>{"1": "42"}\<close>, where replacing the text \<^verbatim>\<open>{1}\<close> gives
  \<^verbatim>\<open>http://h/items/42\<close>, the pattern \<^verbatim>\<open>{1}\<close> is a quantifier with nothing to repeat: making
  it throws a SyntaxError, no request is built, and the call returns an object with the
  one key \<^verbatim>\<open>error\<close>.
\<close>

theorem placeholder_is_searched_as_pattern:
  "executeToolServer_request (runtime_of net_down no_listing) ''t'' ''http://h'' ''getItem''
       (Some [(''id'', JStr ''42''), (''verbose'', JStr ''true''), (''extra'', JStr ''x'')])
       item_server
     = Inr \<lparr>req_url = ''http://h/items/42?verbose=true'', req_method = ''GET'',
            req_headers = [(''Content-Type'', ''application/json''),
                           (''authorization'', ''Bearer t'')],
            req_body = None\<rparr>
   \<and> replace_all ''{1}'' ''42'' (''http://h'' @ ''/items/{1}'') = ''http://h/items/42''
   \<and> map_sum err_name req_url
         (executeToolServer_request (runtime_of net_down no_listing) ''t'' ''http://h''
            ''getItem'' (Some [(''1'', JStr ''42'')]) numbered_server)
     = Inl ''SyntaxError''
   \<and> map_sum id (\<lambda>v. case v of JObj kvs \<Rightarrow> map fst kvs | _ \<Rightarrow> [])
         (executeToolServer (runtime_of net_down no_listing) ''t'' ''http://h''
            ''getItem'' (Some [(''1'', JStr ''42'')]) numbered_server)
     = Inr [''error'']"
  by (intro conjI; code_simp)

end
